theory Spec2Isabelle
  imports Main "HOL-Library.Word" "HOL-Library.Signed_Division"
begin

chapter \<open>The model\<close>

section \<open>The IR data model (include/ir/ir_data_structures.h)\<close>

text \<open>
  Every IR object lives in the module's arena and is referred to by its address.  An
  address is a natural number, a pointer is an optional address (\<open>None\<close> is NULL), and
  the arena is one store per struct.  The lists that an object owns through sibling
  links (the operands of an instruction, the instructions of a block, the blocks of a
  function) and the arrays it owns (successors, predecessors, dominator children) are
  lists of addresses held by the owner.  The use list of a value is kept as the source
  has it: a singly linked chain through the \<open>next_use\<close> field of the operands.
\<close>

datatype OperandKind = IR_OP_KIND_VALUE | IR_OP_KIND_BASIC_BLOCK

datatype Opcode =
    IR_OP_RET | IR_OP_BR
  | IR_OP_ADD | IR_OP_SUB | IR_OP_MUL | IR_OP_SDIV | IR_OP_SREM
  | IR_OP_FADD | IR_OP_FSUB | IR_OP_FMUL | IR_OP_FDIV
  | IR_OP_SHL | IR_OP_LSHR | IR_OP_ASHR | IR_OP_AND | IR_OP_OR | IR_OP_XOR
  | IR_OP_ALLOCA | IR_OP_LOAD | IR_OP_STORE | IR_OP_GETELEMENTPTR
  | IR_OP_ICMP | IR_OP_FCMP | IR_OP_PHI | IR_OP_CALL
  | IR_OP_SITOFP | IR_OP_FPTOSI | IR_OP_ZEXT | IR_OP_FPEXT | IR_OP_SEXT
  | IR_OP_TRUNC | IR_OP_FPTRUNC
  | IR_OP_UNKNOWN

datatype BasicType = BASIC_INT | BASIC_FLOAT | BASIC_I1 | BASIC_I8 | BASIC_I64 | BASIC_DOUBLE

datatype TypeKind = TYPE_VOID | TYPE_BASIC | TYPE_ARRAY | TYPE_POINTER | TYPE_FUNCTION

record Type =
  kind :: TypeKind
  basic :: BasicType
  element_type :: "nat option"

text \<open>
  \<open>int_val\<close> holds the four bytes that the members \<open>int_val\<close> and \<open>float_val\<close> of the
  value's union share: \<open>sint\<close> reads them as the C \<open>int\<close>, and the float operations
  (a parameter of the passes that fold floats) read them as the C \<open>float\<close>.
\<close>

record IRValue =
  is_constant :: bool
  is_global :: bool
  int_val :: "32 word"
  type :: "nat option"
  def_instr :: "nat option"
  use_list_head :: "nat option"

record IROperand =
  op_kind :: OperandKind
  data :: "nat option"
  user :: "nat option"
  next_use :: "nat option"

record IRInstruction =
  opcode :: Opcode
  opcode_cond :: string
  dest :: "nat option"
  operand_list :: "nat list"
  parent :: "nat option"
  phi_for_alloca :: "nat option"
  in_worklist :: bool
  is_live :: bool

record IRBasicBlock =
  instrs :: "nat list"
  bb_parent :: "nat option"
  successors :: "nat list"
  predecessors :: "nat list"
  post_order_id :: int
  dom_tin :: int
  dom_tout :: int
  idom :: "nat option"
  dom_frontier :: "nat list"
  dom_children :: "nat list"

record IRFunction =
  entry :: "nat option"
  blocks :: "nat list"
  block_count :: int
  instruction_count :: int
  args :: "nat list"
  reverse_post_order :: "nat list option"
  module :: "nat option"

record ir =
  vals :: "nat \<Rightarrow> IRValue"
  opnds :: "nat \<Rightarrow> IROperand"
  insts :: "nat \<Rightarrow> IRInstruction"
  bbs :: "nat \<Rightarrow> IRBasicBlock"
  funcs :: "nat \<Rightarrow> IRFunction"
  tys :: "nat \<Rightarrow> Type"
  next_value :: nat
  next_operand :: nat
  next_instruction :: nat
  next_type :: nat

text \<open>How a call can fail to return a result: a failed \<open>assert\<close>, a NULL pointer
  dereferenced, an array read or written past its end, the division of \<open>INT_MIN\<close> by -1
  (the one quotient of two \<open>int\<close> that is no \<open>int\<close>), or a loop that has not finished within
  the steps it was given.\<close>

datatype error = AssertionFailed | NullPointer | OutOfBounds | IntegerOverflow | OutOfFuel

definition INT_MIN :: "32 word" where
  "INT_MIN = - 2147483648"

text \<open>An arena in which every object is zeroed, as \<open>pool_alloc_z\<close> hands them out
  (the opcode numbered 0 is \<open>IR_OP_RET\<close>, the first basic type is \<open>BASIC_INT\<close>).\<close>

definition zeroed_Type :: Type where
  "zeroed_Type = \<lparr>kind = TYPE_VOID, basic = BASIC_INT, element_type = None\<rparr>"

definition zeroed_IRValue :: IRValue where
  "zeroed_IRValue = \<lparr>is_constant = False, is_global = False, int_val = 0, type = None,
     def_instr = None, use_list_head = None\<rparr>"

definition zeroed_IROperand :: IROperand where
  "zeroed_IROperand = \<lparr>op_kind = IR_OP_KIND_VALUE, data = None, user = None, next_use = None\<rparr>"

definition zeroed_IRInstruction :: IRInstruction where
  "zeroed_IRInstruction = \<lparr>opcode = IR_OP_RET, opcode_cond = [], dest = None,
     operand_list = [], parent = None, phi_for_alloca = None, in_worklist = False,
     is_live = False\<rparr>"

definition zeroed_IRBasicBlock :: IRBasicBlock where
  "zeroed_IRBasicBlock = \<lparr>instrs = [], bb_parent = None, successors = [], predecessors = [],
     post_order_id = 0, dom_tin = 0, dom_tout = 0, idom = None, dom_frontier = [],
     dom_children = []\<rparr>"

definition zeroed_IRFunction :: IRFunction where
  "zeroed_IRFunction = \<lparr>entry = None, blocks = [], block_count = 0, instruction_count = 0,
     args = [], reverse_post_order = None, module = None\<rparr>"

definition zeroed_ir :: ir where
  "zeroed_ir = \<lparr>vals = (\<lambda>_. zeroed_IRValue), opnds = (\<lambda>_. zeroed_IROperand),
     insts = (\<lambda>_. zeroed_IRInstruction), bbs = (\<lambda>_. zeroed_IRBasicBlock),
     funcs = (\<lambda>_. zeroed_IRFunction), tys = (\<lambda>_. zeroed_Type),
     next_value = 0, next_operand = 0, next_instruction = 0, next_type = 0\<rparr>"

section \<open>Use-def machinery (src/ir/ir_utils.c)\<close>

definition upd_value :: "nat \<Rightarrow> (IRValue \<Rightarrow> IRValue) \<Rightarrow> ir \<Rightarrow> ir" where
  "upd_value v f s = s\<lparr>vals := (vals s)(v := f (vals s v))\<rparr>"

definition upd_operand :: "nat \<Rightarrow> (IROperand \<Rightarrow> IROperand) \<Rightarrow> ir \<Rightarrow> ir" where
  "upd_operand p f s = s\<lparr>opnds := (opnds s)(p := f (opnds s p))\<rparr>"

definition upd_instruction :: "nat \<Rightarrow> (IRInstruction \<Rightarrow> IRInstruction) \<Rightarrow> ir \<Rightarrow> ir" where
  "upd_instruction i f s = s\<lparr>insts := (insts s)(i := f (insts s i))\<rparr>"

definition upd_block :: "nat \<Rightarrow> (IRBasicBlock \<Rightarrow> IRBasicBlock) \<Rightarrow> ir \<Rightarrow> ir" where
  "upd_block b f s = s\<lparr>bbs := (bbs s)(b := f (bbs s b))\<rparr>"

definition upd_function :: "nat \<Rightarrow> (IRFunction \<Rightarrow> IRFunction) \<Rightarrow> ir \<Rightarrow> ir" where
  "upd_function g f s = s\<lparr>funcs := (funcs s)(g := f (funcs s g))\<rparr>"

text \<open>A worklist is a stack of addresses; the list holds its items, the top first.
  \<open>worklist_add\<close> ignores a NULL item.\<close>

type_synonym Worklist = "nat list"

definition worklist_add :: "Worklist \<Rightarrow> nat option \<Rightarrow> Worklist" where
  "worklist_add wl item = (case item of None \<Rightarrow> wl | Some x \<Rightarrow> x # wl)"

definition worklist_pop :: "Worklist \<Rightarrow> nat option \<times> Worklist" where
  "worklist_pop wl = (case wl of [] \<Rightarrow> (None, []) | x # xs \<Rightarrow> (Some x, xs))"

text \<open>\<open>create_ir_operand\<close>: a zeroed operand from the arena, with its kind, referent and
  user set.\<close>

definition create_ir_operand :: "OperandKind \<Rightarrow> nat \<Rightarrow> nat \<Rightarrow> ir \<Rightarrow> nat \<times> ir" where
  "create_ir_operand k d u s =
     (next_operand s,
      s\<lparr>opnds := (opnds s)(next_operand s :=
            \<lparr>op_kind = k, data = Some d, user = Some u, next_use = None\<rparr>),
        next_operand := Suc (next_operand s)\<rparr>)"

text \<open>\<open>add_operand\<close> reads the pool through \<open>instr->parent->parent->module\<close>, appends the
  new operand to the instruction's operand list and, for a value operand whose value is
  not a constant, puts it at the head of the value's use list.\<close>

definition add_operand :: "nat \<Rightarrow> OperandKind \<Rightarrow> nat option \<Rightarrow> ir \<Rightarrow> error + (nat option \<times> ir)" where
  "add_operand instr k data_ptr s =
     (case data_ptr of
        None \<Rightarrow> Inr (None, s)
      | Some d \<Rightarrow>
          (case parent (insts s instr) of
             None \<Rightarrow> Inl NullPointer
           | Some bb \<Rightarrow>
               (case bb_parent (bbs s bb) of
                  None \<Rightarrow> Inl NullPointer
                | Some f \<Rightarrow>
                    (case module (funcs s f) of
                       None \<Rightarrow> Inl NullPointer
                     | Some m \<Rightarrow>
                         (let (p, s1) = create_ir_operand k d instr s;
                              s2 = upd_instruction instr
                                     (\<lambda>i. i\<lparr>operand_list := operand_list i @ [p]\<rparr>) s1
                          in if k = IR_OP_KIND_VALUE \<and> \<not> is_constant (vals s2 d)
                             then Inr (Some p,
                                    upd_value d (\<lambda>v. v\<lparr>use_list_head := Some p\<rparr>)
                                      (upd_operand p
                                         (\<lambda>x. x\<lparr>next_use := use_list_head (vals s2 d)\<rparr>) s2))
                             else Inr (Some p, s2))))))"

definition add_value_operand :: "nat \<Rightarrow> nat option \<Rightarrow> ir \<Rightarrow> error + ir" where
  "add_value_operand instr val s = map_sum id snd (add_operand instr IR_OP_KIND_VALUE val s)"

definition add_bb_operand :: "nat \<Rightarrow> nat option \<Rightarrow> ir \<Rightarrow> error + ir" where
  "add_bb_operand instr bb s = map_sum id snd (add_operand instr IR_OP_KIND_BASIC_BLOCK bb s)"

text \<open>\<open>remove_operand_from_use_list\<close> walks the use list with a pointer to the link that
  leads to the current node: the head field of the value, or the \<open>next_use\<close> field of an
  operand.\<close>

datatype use_link = UseListHead nat | NextUse nat

definition read_link :: "ir \<Rightarrow> use_link \<Rightarrow> nat option" where
  "read_link s l = (case l of UseListHead v \<Rightarrow> use_list_head (vals s v)
                            | NextUse p \<Rightarrow> next_use (opnds s p))"

definition write_link :: "use_link \<Rightarrow> nat option \<Rightarrow> ir \<Rightarrow> ir" where
  "write_link l x s = (case l of UseListHead v \<Rightarrow> upd_value v (\<lambda>r. r\<lparr>use_list_head := x\<rparr>) s
                               | NextUse p \<Rightarrow> upd_operand p (\<lambda>r. r\<lparr>next_use := x\<rparr>) s)"

fun unlink_use :: "nat \<Rightarrow> use_link \<Rightarrow> nat \<Rightarrow> ir \<Rightarrow> error + ir" where
  "unlink_use 0 l p s = Inl OutOfFuel"
| "unlink_use (Suc n) l p s =
     (case read_link s l of
        None \<Rightarrow> Inr s
      | Some c \<Rightarrow>
          if c = p
          then Inr (upd_operand p (\<lambda>r. r\<lparr>next_use := None\<rparr>)
                      (write_link l (next_use (opnds s p)) s))
          else unlink_use n (NextUse c) p s)"

definition remove_operand_from_use_list :: "nat \<Rightarrow> nat \<Rightarrow> ir \<Rightarrow> error + ir" where
  "remove_operand_from_use_list n p s =
     (if op_kind (opnds s p) \<noteq> IR_OP_KIND_VALUE then Inr s
      else case data (opnds s p) of
             None \<Rightarrow> Inr s
           | Some v \<Rightarrow>
               if is_constant (vals s v) \<or> def_instr (vals s v) = None then Inr s
               else unlink_use n (UseListHead v) p s)"

text \<open>\<open>remove_operand\<close>: out of the referent's use list, then out of the operand list of
  the instruction that uses it.\<close>

definition remove_operand :: "nat \<Rightarrow> nat option \<Rightarrow> ir \<Rightarrow> error + ir" where
  "remove_operand n op s =
     (case op of
        None \<Rightarrow> Inr s
      | Some p \<Rightarrow>
          (case remove_operand_from_use_list n p s of
             Inl e \<Rightarrow> Inl e
           | Inr s1 \<Rightarrow>
               (case user (opnds s1 p) of
                  None \<Rightarrow> Inl NullPointer
                | Some i \<Rightarrow>
                    Inr (upd_instruction i
                           (\<lambda>x. x\<lparr>operand_list := remove1 p (operand_list x)\<rparr>) s1))))"

definition change_operand_value :: "nat \<Rightarrow> nat \<Rightarrow> nat option \<Rightarrow> ir \<Rightarrow> error + ir" where
  "change_operand_value n p new_val s =
     (if op_kind (opnds s p) \<noteq> IR_OP_KIND_VALUE then Inl AssertionFailed
      else if data (opnds s p) = new_val then Inr s
      else case remove_operand_from_use_list n p s of
             Inl e \<Rightarrow> Inl e
           | Inr s1 \<Rightarrow>
               (let s2 = upd_operand p (\<lambda>r. r\<lparr>data := new_val\<rparr>) s1
                in case new_val of
                     None \<Rightarrow> Inr (upd_operand p (\<lambda>r. r\<lparr>next_use := None\<rparr>) s2)
                   | Some nv \<Rightarrow>
                       if \<not> is_constant (vals s2 nv) \<and> def_instr (vals s2 nv) \<noteq> None
                       then Inr (upd_value nv (\<lambda>v. v\<lparr>use_list_head := Some p\<rparr>)
                                   (upd_operand p
                                      (\<lambda>r. r\<lparr>next_use := use_list_head (vals s2 nv)\<rparr>) s2))
                       else Inr (upd_operand p (\<lambda>r. r\<lparr>next_use := None\<rparr>) s2)))"

text \<open>\<open>replace_all_uses_with\<close>.  The loop runs while the old value's use list has a
  head; each round retargets the head and, when a worklist is given, queues its user.\<close>

fun rauw_loop :: "nat \<Rightarrow> Worklist option \<Rightarrow> nat \<Rightarrow> nat option \<Rightarrow> ir \<Rightarrow> error + (Worklist option \<times> ir)" where
  "rauw_loop 0 wl old_val new_val s = Inl OutOfFuel"
| "rauw_loop (Suc n) wl old_val new_val s =
     (case use_list_head (vals s old_val) of
        None \<Rightarrow> Inr (wl, s)
      | Some u \<Rightarrow>
          (let user_instr = user (opnds s u) in
           case change_operand_value n u new_val s of
             Inl e \<Rightarrow> Inl e
           | Inr s1 \<Rightarrow>
               (case (wl, user_instr) of
                  (Some w, Some ui) \<Rightarrow>
                    if opcode (insts s1 ui) \<noteq> IR_OP_UNKNOWN \<and> \<not> in_worklist (insts s1 ui)
                    then rauw_loop n (Some (worklist_add w (Some ui))) old_val new_val
                           (upd_instruction ui (\<lambda>x. x\<lparr>in_worklist := True\<rparr>) s1)
                    else rauw_loop n wl old_val new_val s1
                | _ \<Rightarrow> rauw_loop n wl old_val new_val s1)))"

definition replace_all_uses_with :: "nat \<Rightarrow> Worklist option \<Rightarrow> nat \<Rightarrow> nat option \<Rightarrow> ir \<Rightarrow> error + (Worklist option \<times> ir)" where
  "replace_all_uses_with n wl old_val new_val s =
     (if Some old_val = new_val \<or> use_list_head (vals s old_val) = None then Inr (wl, s)
      else rauw_loop n wl old_val new_val s)"

text \<open>\<open>erase_instruction\<close>.  The \<open>assert\<close> on the result's use list is a failure of the
  call; the loop removes the first operand until the operand list is empty.\<close>

fun erase_operands :: "nat \<Rightarrow> nat \<Rightarrow> ir \<Rightarrow> error + ir" where
  "erase_operands 0 instr s = Inl OutOfFuel"
| "erase_operands (Suc n) instr s =
     (case operand_list (insts s instr) of
        [] \<Rightarrow> Inr s
      | p # _ \<Rightarrow>
          (case remove_operand n (Some p) s of
             Inl e \<Rightarrow> Inl e
           | Inr s1 \<Rightarrow> erase_operands n instr s1))"

definition erase_instruction :: "nat \<Rightarrow> nat option \<Rightarrow> ir \<Rightarrow> error + ir" where
  "erase_instruction n instr s =
     (case instr of
        None \<Rightarrow> Inr s
      | Some i \<Rightarrow>
          if opcode (insts s i) = IR_OP_UNKNOWN then Inr s
          else if (case dest (insts s i) of
                     None \<Rightarrow> False
                   | Some d \<Rightarrow> use_list_head (vals s d) \<noteq> None)
          then Inl AssertionFailed
          else
            (let s1 = (case parent (insts s i) of
                         None \<Rightarrow> s
                       | Some b \<Rightarrow>
                           (case bb_parent (bbs s b) of
                              None \<Rightarrow> s
                            | Some f \<Rightarrow>
                                upd_function f
                                  (\<lambda>x. x\<lparr>instruction_count := instruction_count x - 1\<rparr>) s))
             in case erase_operands n i s1 of
                  Inl e \<Rightarrow> Inl e
                | Inr s2 \<Rightarrow>
                    (let s3 = (case parent (insts s2 i) of
                                 None \<Rightarrow> s2
                               | Some b \<Rightarrow>
                                   upd_block b (\<lambda>x. x\<lparr>instrs := remove1 i (instrs x)\<rparr>) s2)
                     in Inr (upd_instruction i
                               (\<lambda>x. x\<lparr>opcode := IR_OP_UNKNOWN, parent := None, dest := None,
                                       in_worklist := False\<rparr>) s3))))"

definition mark_instruction_for_removal :: "nat option \<Rightarrow> ir \<Rightarrow> ir" where
  "mark_instruction_for_removal instr s =
     (case instr of None \<Rightarrow> s
      | Some i \<Rightarrow> upd_instruction i (\<lambda>x. x\<lparr>opcode := IR_OP_UNKNOWN\<rparr>) s)"

subsection \<open>What use-def consistency means\<close>

text \<open>The use list of a value as a list of operand addresses: the chain that starts
  at \<open>use_list_head\<close>, follows \<open>next_use\<close> and ends at NULL.\<close>

fun use_chain :: "(nat \<Rightarrow> nat option) \<Rightarrow> nat option \<Rightarrow> nat list \<Rightarrow> bool" where
  "use_chain nxt p [] = (p = None)"
| "use_chain nxt p (x # xs) = (p = Some x \<and> use_chain nxt (nxt x) xs)"

definition use_list :: "ir \<Rightarrow> nat \<Rightarrow> nat list \<Rightarrow> bool" where
  "use_list s v xs = use_chain (\<lambda>p. next_use (opnds s p)) (use_list_head (vals s v)) xs"

text \<open>A register is a value that is not a constant and has a defining instruction
  (arguments, globals and the undef value have none).\<close>

definition is_register :: "ir \<Rightarrow> nat \<Rightarrow> bool" where
  "is_register s v = (\<not> is_constant (vals s v) \<and> def_instr (vals s v) \<noteq> None)"

text \<open>An operand is in the module when it is linked into the operand list of the
  instruction that uses it; it references \<open>v\<close> when, moreover, it is a value operand whose
  referent is \<open>v\<close>.\<close>

definition in_module :: "ir \<Rightarrow> nat \<Rightarrow> bool" where
  "in_module s p = (case user (opnds s p) of None \<Rightarrow> False
                    | Some i \<Rightarrow> p \<in> set (operand_list (insts s i)))"

definition references :: "ir \<Rightarrow> nat \<Rightarrow> nat \<Rightarrow> bool" where
  "references s p v =
     (in_module s p \<and> op_kind (opnds s p) = IR_OP_KIND_VALUE \<and> data (opnds s p) = Some v)"

definition use_def_consistent :: "ir \<Rightarrow> bool" where
  "use_def_consistent s =
     (\<forall>v. is_register s v \<longrightarrow>
        (\<exists>xs. use_list s v xs \<and> distinct xs \<and> (\<forall>p. p \<in> set xs \<longleftrightarrow> references s p v)))"

text \<open>The operand lists are well formed: no operand twice, every operand of an
  instruction names that instruction as its user, and every operand was handed out by
  the arena.\<close>

definition operand_lists_ok :: "ir \<Rightarrow> bool" where
  "operand_lists_ok s =
     (\<forall>i. distinct (operand_list (insts s i)) \<and>
        (\<forall>p \<in> set (operand_list (insts s i)). user (opnds s p) = Some i \<and> p < next_operand s))"

text \<open>Two arenas that differ at most in the use-list links (\<open>use_list_head\<close> of values,
  \<open>next_use\<close> of operands).\<close>

definition links_only :: "ir \<Rightarrow> ir \<Rightarrow> bool" where
  "links_only s s' =
     (insts s' = insts s \<and> bbs s' = bbs s \<and> funcs s' = funcs s \<and> tys s' = tys s \<and>
      next_value s' = next_value s \<and> next_operand s' = next_operand s \<and>
      next_instruction s' = next_instruction s \<and> next_type s' = next_type s \<and>
      (\<forall>p. op_kind (opnds s' p) = op_kind (opnds s p) \<and> data (opnds s' p) = data (opnds s p) \<and>
           user (opnds s' p) = user (opnds s p)) \<and>
      (\<forall>v. is_constant (vals s' v) = is_constant (vals s v) \<and>
           is_global (vals s' v) = is_global (vals s v) \<and>
           int_val (vals s' v) = int_val (vals s v) \<and>
           type (vals s' v) = type (vals s v) \<and>
           def_instr (vals s' v) = def_instr (vals s v)))"

text \<open>The four operand-manipulation calls, and a sequence of them.  \<open>remove_operand\<close> and
  \<open>change_operand_value\<close> are called on operands of the module.\<close>

datatype operand_call =
    Add_operand nat OperandKind "nat option"
  | Remove_operand "nat option"
  | Change_operand_value nat "nat option"
  | Replace_all_uses_with "Worklist option" nat "nat option"

definition do_call :: "nat \<Rightarrow> operand_call \<Rightarrow> ir \<Rightarrow> error + ir" where
  "do_call n c s =
     (case c of
        Add_operand i k d \<Rightarrow> map_sum id snd (add_operand i k d s)
      | Remove_operand p \<Rightarrow> remove_operand n p s
      | Change_operand_value p nv \<Rightarrow> change_operand_value n p nv s
      | Replace_all_uses_with wl old_val new_val \<Rightarrow>
          map_sum id snd (replace_all_uses_with n wl old_val new_val s))"

definition call_on_module :: "ir \<Rightarrow> operand_call \<Rightarrow> bool" where
  "call_on_module s c =
     (case c of
        Remove_operand (Some p) \<Rightarrow> in_module s p
      | Change_operand_value p nv \<Rightarrow> in_module s p
      | _ \<Rightarrow> True)"

fun do_calls :: "nat \<Rightarrow> operand_call list \<Rightarrow> ir \<Rightarrow> error + ir" where
  "do_calls n [] s = Inr s"
| "do_calls n (c # cs) s = (case do_call n c s of Inl e \<Rightarrow> Inl e | Inr s1 \<Rightarrow> do_calls n cs s1)"

fun calls_on_module :: "nat \<Rightarrow> operand_call list \<Rightarrow> ir \<Rightarrow> bool" where
  "calls_on_module n [] s = True"
| "calls_on_module n (c # cs) s =
     (call_on_module s c \<and>
      (case do_call n c s of Inl e \<Rightarrow> True | Inr s1 \<Rightarrow> calls_on_module n cs s1))"

section \<open>The inliner's decision (src/ir/transforms/inliner.c)\<close>

definition INLINE_THRESHOLD :: int where
  "INLINE_THRESHOLD = 80"

text \<open>The inliner's context: \<open>call_stack\<close> holds the items of the worklist of functions
  that are being scanned, the most recently pushed one first.\<close>

record InlinerContext =
  call_stack :: "nat list"
  changed_this_round :: bool

definition count_instructions :: "ir \<Rightarrow> nat \<Rightarrow> int" where
  "count_instructions s func =
     int (sum_list (map (\<lambda>bb. length (instrs (bbs s bb))) (blocks (funcs s func))))"

definition should_inline_function :: "ir \<Rightarrow> InlinerContext \<Rightarrow> nat option \<Rightarrow> bool" where
  "should_inline_function s ctx callee =
     (case callee of
        None \<Rightarrow> False
      | Some c \<Rightarrow>
          if entry (funcs s c) = None then False
          else if c \<in> set (call_stack ctx) then False
          else count_instructions s c \<le> INLINE_THRESHOLD)"


text \<open>A module with one function (at address 0) whose single block (at address 0) holds
  the 80 instructions at the addresses 0 to 79.\<close>

definition callee_of_80 :: ir where
  "callee_of_80 = zeroed_ir
     \<lparr>bbs := (\<lambda>_. zeroed_IRBasicBlock)(0 := zeroed_IRBasicBlock\<lparr>instrs := [0..<80], bb_parent := Some 0\<rparr>),
      funcs := (\<lambda>_. zeroed_IRFunction)(0 := zeroed_IRFunction\<lparr>entry := Some 0, blocks := [0], block_count := 1,
                 instruction_count := 80\<rparr>)\<rparr>"

subsection \<open>Two small modules for the use-def machinery\<close>

text \<open>\<open>use_def_base\<close>: one function with one block of three instructions and no operand
  yet; the values 1 and 2 are the registers defined by the instructions 0 and 1, the value 3
  is a constant, every other value has no defining instruction.  \<open>use_def_mid\<close>: the same
  module after three \<open>add_operand\<close> calls, which give the instruction 1 the operands
  \<open>%1\<close> and the constant, and the instruction 2 the operand \<open>%1\<close>.\<close>

definition use_def_base :: ir where
  "use_def_base = zeroed_ir
     \<lparr>vals := (\<lambda>_. zeroed_IRValue)
         (1 := zeroed_IRValue\<lparr>def_instr := Some 0\<rparr>,
          2 := zeroed_IRValue\<lparr>def_instr := Some 1\<rparr>,
          3 := zeroed_IRValue\<lparr>is_constant := True, int_val := 7\<rparr>),
      insts := (\<lambda>_. zeroed_IRInstruction)
         (0 := zeroed_IRInstruction\<lparr>opcode := IR_OP_ADD, dest := Some 1, parent := Some 0\<rparr>,
          1 := zeroed_IRInstruction\<lparr>opcode := IR_OP_MUL, dest := Some 2, parent := Some 0\<rparr>,
          2 := zeroed_IRInstruction\<lparr>opcode := IR_OP_RET, parent := Some 0\<rparr>),
      bbs := (\<lambda>_. zeroed_IRBasicBlock)
         (0 := zeroed_IRBasicBlock\<lparr>instrs := [0, 1, 2], bb_parent := Some 0\<rparr>),
      funcs := (\<lambda>_. zeroed_IRFunction)
         (0 := zeroed_IRFunction\<lparr>entry := Some 0, blocks := [0], block_count := 1,
                 instruction_count := 3, module := Some 0\<rparr>),
      next_value := 5, next_instruction := 3\<rparr>"

definition use_def_mid :: ir where
  "use_def_mid = projr (do_calls 0
      [Add_operand 1 IR_OP_KIND_VALUE (Some 1), Add_operand 2 IR_OP_KIND_VALUE (Some 1),
       Add_operand 1 IR_OP_KIND_VALUE (Some 3)] use_def_base)"

text \<open>\<open>argument_user\<close>: the module \<open>use_def_base\<close> after \<open>add_operand\<close> has given the
  instruction 1 an operand that references the value 4, a value that is not a constant
  and has no defining instruction (a function argument).\<close>

definition argument_user :: ir where
  "argument_user = snd (projr (add_operand 1 IR_OP_KIND_VALUE (Some 4) use_def_base))"

section \<open>Helpers shared by the passes (src/ir/ir_utils.c)\<close>

definition bb_tail :: "ir \<Rightarrow> nat \<Rightarrow> nat option" where
  "bb_tail s b = (case instrs (bbs s b) of [] \<Rightarrow> None | xs \<Rightarrow> Some (last xs))"

text \<open>The PHI instructions that lead a block: the loop
  \<open>for (i = bb->head; i && i->opcode == IR_OP_PHI; i = i->next)\<close>.\<close>

definition leading_phis :: "ir \<Rightarrow> nat \<Rightarrow> nat list" where
  "leading_phis s b = takeWhile (\<lambda>i. opcode (insts s i) = IR_OP_PHI) (instrs (bbs s b))"

definition create_ir_value :: "ir \<Rightarrow> nat \<times> ir" where
  "create_ir_value s =
     (next_value s, s\<lparr>vals := (vals s)(next_value s := zeroed_IRValue), next_value := Suc (next_value s)\<rparr>)"

definition create_ir_instruction :: "Opcode \<Rightarrow> ir \<Rightarrow> nat \<times> ir" where
  "create_ir_instruction oc s =
     (next_instruction s,
      s\<lparr>insts := (insts s)(next_instruction s := zeroed_IRInstruction\<lparr>opcode := oc\<rparr>),
        next_instruction := Suc (next_instruction s)\<rparr>)"

text \<open>\<open>remove_phi_entries_for_predecessor\<close> walks the operands of a PHI in pairs
  (value, block) and removes the pairs whose block is \<open>pred\<close>.\<close>

fun remove_phi_pairs :: "nat \<Rightarrow> nat \<Rightarrow> nat list \<Rightarrow> ir \<Rightarrow> error + ir" where
  "remove_phi_pairs n pred (op_val # op_block # rest) s =
     (if op_kind (opnds s op_block) = IR_OP_KIND_BASIC_BLOCK \<and> data (opnds s op_block) = Some pred
      then (case remove_operand n (Some op_val) s of
              Inl e \<Rightarrow> Inl e
            | Inr s1 \<Rightarrow>
                (case remove_operand n (Some op_block) s1 of
                   Inl e \<Rightarrow> Inl e
                 | Inr s2 \<Rightarrow> remove_phi_pairs n pred rest s2))
      else remove_phi_pairs n pred rest s)"
| "remove_phi_pairs n pred ops s = Inr s"

definition remove_phi_entries_for_predecessor :: "nat \<Rightarrow> nat option \<Rightarrow> nat option \<Rightarrow> ir \<Rightarrow> error + ir" where
  "remove_phi_entries_for_predecessor n phi pred s =
     (case (phi, pred) of
        (Some i, Some b) \<Rightarrow>
          if opcode (insts s i) \<noteq> IR_OP_PHI then Inr s
          else remove_phi_pairs n b (operand_list (insts s i)) s
      | _ \<Rightarrow> Inr s)"

fun remove_phi_entries_in :: "nat \<Rightarrow> nat list \<Rightarrow> nat \<Rightarrow> ir \<Rightarrow> error + ir" where
  "remove_phi_entries_in n [] pred s = Inr s"
| "remove_phi_entries_in n (i # is) pred s =
     (case remove_phi_entries_for_predecessor n (Some i) (Some pred) s of
        Inl e \<Rightarrow> Inl e
      | Inr s1 \<Rightarrow> remove_phi_entries_in n is pred s1)"

definition remove_predecessor :: "nat \<Rightarrow> nat \<Rightarrow> nat \<Rightarrow> ir \<Rightarrow> error + ir" where
  "remove_predecessor n block pred_to_remove s =
     (if pred_to_remove \<notin> set (predecessors (bbs s block)) then Inr s
      else
        (let s1 = upd_block block
                    (\<lambda>b. b\<lparr>predecessors := remove1 pred_to_remove (predecessors b)\<rparr>) s
         in remove_phi_entries_in n (leading_phis s1 block) pred_to_remove s1))"

section \<open>Sparse conditional constant propagation (src/ir/transforms/sccp.c)\<close>

text \<open>The arithmetic of C's \<open>float\<close> is a parameter of the passes that fold floats: the
  four operations, the three comparisons (the others are their negations and mirror
  images), the test \<open>fabs(a - b) < 1e-6\<close> and the two conversions, all on the four bytes
  of a \<open>float\<close>.\<close>

record float_ops =
  fl_add :: "32 word \<Rightarrow> 32 word \<Rightarrow> 32 word"
  fl_sub :: "32 word \<Rightarrow> 32 word \<Rightarrow> 32 word"
  fl_mul :: "32 word \<Rightarrow> 32 word \<Rightarrow> 32 word"
  fl_div :: "32 word \<Rightarrow> 32 word \<Rightarrow> 32 word"
  fl_eq :: "32 word \<Rightarrow> 32 word \<Rightarrow> bool"
  fl_lt :: "32 word \<Rightarrow> 32 word \<Rightarrow> bool"
  fl_le :: "32 word \<Rightarrow> 32 word \<Rightarrow> bool"
  fl_near :: "32 word \<Rightarrow> 32 word \<Rightarrow> bool"
  fl_of_int :: "32 word \<Rightarrow> 32 word"
  fl_to_int :: "32 word \<Rightarrow> 32 word"

datatype LatticeState = LATTICE_TIR_OP | LATTICE_CONSTANT | LATTICE_BOTTOM

text \<open>\<open>const_val\<close> is the union of \<open>int_val\<close> and \<open>float_val\<close>, four bytes.\<close>

record LatticeValue =
  state :: LatticeState
  const_val :: "32 word"
  lv_type :: "nat option"
  is_valid :: bool

definition zeroed_LatticeValue :: LatticeValue where
  "zeroed_LatticeValue = \<lparr>state = LATTICE_TIR_OP, const_val = 0, lv_type = None, is_valid = False\<rparr>"

text \<open>The context of the pass.  \<open>value_id_map\<close> holds the nodes of the hash map from
  values to ids, the most recently inserted first; \<open>value_lattice\<close> and
  \<open>executable_blocks\<close> are the two arrays, read by index.\<close>

record SCCPContext =
  func :: nat
  cfg_worklist :: Worklist
  ssa_worklist :: Worklist
  value_lattice :: "int \<Rightarrow> LatticeValue"
  value_count :: int
  executable_blocks :: "int \<Rightarrow> bool"
  value_id_map :: "(nat \<times> int) list"
  iteration_count :: int
  max_iterations :: int
  changed :: bool

definition get_value_id :: "SCCPContext \<Rightarrow> ir \<Rightarrow> nat option \<Rightarrow> int" where
  "get_value_id ctx s val =
     (case val of
        None \<Rightarrow> - 1
      | Some v \<Rightarrow>
          if is_constant (vals s v) then - 1
          else (case map_of (value_id_map ctx) v of None \<Rightarrow> - 1 | Some i \<Rightarrow> i))"

text \<open>For a constant, both branches of the source copy the same four bytes of the
  value's union into the lattice value; the test on \<open>val->type->basic\<close> only reads the
  type.\<close>

definition get_lattice_value :: "SCCPContext \<Rightarrow> ir \<Rightarrow> nat option \<Rightarrow> error + LatticeValue" where
  "get_lattice_value ctx s val =
     (case val of
        None \<Rightarrow> Inr (zeroed_LatticeValue\<lparr>state := LATTICE_BOTTOM, is_valid := False\<rparr>)
      | Some v \<Rightarrow>
          if is_constant (vals s v) then
            (case type (vals s v) of
               None \<Rightarrow> Inl NullPointer
             | Some t \<Rightarrow>
                 Inr \<lparr>state = LATTICE_CONSTANT, const_val = int_val (vals s v),
                      lv_type = Some t, is_valid = True\<rparr>)
          else
            (let i = get_value_id ctx s val
             in if i \<noteq> - 1 \<and> i < value_count ctx then Inr (value_lattice ctx i)
                else Inr (zeroed_LatticeValue\<lparr>state := LATTICE_BOTTOM, is_valid := False\<rparr>)))"

definition are_lattice_values_equal :: "float_ops \<Rightarrow> ir \<Rightarrow> LatticeValue \<Rightarrow> LatticeValue \<Rightarrow> error + bool" where
  "are_lattice_values_equal F s v1 v2 =
     (if state v1 \<noteq> state v2 then Inr False
      else if state v1 = LATTICE_CONSTANT then
        (if lv_type v1 \<noteq> lv_type v2 then Inr False
         else case lv_type v1 of
                None \<Rightarrow> Inl NullPointer
              | Some t \<Rightarrow>
                  if basic (tys s t) = BASIC_INT then Inr (const_val v1 = const_val v2)
                  else Inr (fl_near F (const_val v1) (const_val v2)))
      else Inr True)"

definition merge_lattice_values :: "float_ops \<Rightarrow> ir \<Rightarrow> LatticeValue \<Rightarrow> LatticeValue \<Rightarrow> error + LatticeValue" where
  "merge_lattice_values F s v1 v2 =
     (if state v1 = LATTICE_BOTTOM \<or> state v2 = LATTICE_BOTTOM
      then Inr (zeroed_LatticeValue\<lparr>state := LATTICE_BOTTOM, is_valid := True\<rparr>)
      else if state v1 = LATTICE_TIR_OP then Inr v2
      else if state v2 = LATTICE_TIR_OP then Inr v1
      else case are_lattice_values_equal F s v1 v2 of
             Inl e \<Rightarrow> Inl e
           | Inr eq \<Rightarrow>
               if eq then Inr v1
               else Inr (zeroed_LatticeValue\<lparr>state := LATTICE_BOTTOM, is_valid := True\<rparr>))"

definition set_lattice_value :: "float_ops \<Rightarrow> SCCPContext \<Rightarrow> ir \<Rightarrow> nat \<Rightarrow> LatticeValue \<Rightarrow> error + SCCPContext" where
  "set_lattice_value F ctx s val new_lval =
     (let i = get_value_id ctx s (Some val)
      in if i = - 1 \<or> i \<ge> value_count ctx then Inr ctx
         else case are_lattice_values_equal F s (value_lattice ctx i) new_lval of
                Inl e \<Rightarrow> Inl e
              | Inr eq \<Rightarrow>
                  if eq then Inr ctx
                  else Inr (ctx\<lparr>value_lattice := (value_lattice ctx)(i := new_lval),
                                 ssa_worklist := worklist_add (ssa_worklist ctx) (Some val),
                                 changed := True\<rparr>))"

text \<open>The \<open>k\<close>-th operand of an instruction (NULL past the end), and the value pointer
  read from an operand that may be NULL: \<open>op ? op->data.value : NULL\<close>.\<close>

definition nth_operand :: "ir \<Rightarrow> nat \<Rightarrow> nat \<Rightarrow> nat option" where
  "nth_operand s i k =
     (if k < length (operand_list (insts s i)) then Some (operand_list (insts s i) ! k) else None)"

definition operand_value :: "ir \<Rightarrow> nat option \<Rightarrow> nat option" where
  "operand_value s op = (case op of None \<Rightarrow> None | Some p \<Rightarrow> data (opnds s p))"

definition dest_type :: "ir \<Rightarrow> nat \<Rightarrow> nat option" where
  "dest_type s i = (case dest (insts s i) of None \<Rightarrow> None | Some d \<Rightarrow> type (vals s d))"

text \<open>The folding \<open>switch\<close> of the integer binary operations, on C's \<open>int\<close>: the sum, the
  difference and the product are taken modulo \<open>2^32\<close>, as the two's complement machine
  computes them, the quotient truncates towards zero, a zero divisor gives 0, and
  \<open>v1 / v2\<close> and \<open>v1 % v2\<close> fail for \<open>INT_MIN\<close> and -1, where the quotient is no \<open>int\<close> and
  the division traps.\<close>

definition c_div :: "32 word \<Rightarrow> 32 word \<Rightarrow> error + 32 word" where
  "c_div v1 v2 =
     (if v1 = INT_MIN \<and> v2 = - 1 then Inl IntegerOverflow
      else Inr (word_of_int (sint v1 sdiv sint v2)))"

definition c_rem :: "32 word \<Rightarrow> 32 word \<Rightarrow> error + 32 word" where
  "c_rem v1 v2 =
     (if v1 = INT_MIN \<and> v2 = - 1 then Inl IntegerOverflow
      else Inr (word_of_int (sint v1 smod sint v2)))"

definition fold_int_binop :: "Opcode \<Rightarrow> 32 word \<Rightarrow> 32 word \<Rightarrow> error + 32 word" where
  "fold_int_binop oc v1 v2 =
     (case oc of
        IR_OP_ADD \<Rightarrow> Inr (v1 + v2)
      | IR_OP_SUB \<Rightarrow> Inr (v1 - v2)
      | IR_OP_MUL \<Rightarrow> Inr (v1 * v2)
      | IR_OP_SDIV \<Rightarrow> (if v2 \<noteq> 0 then c_div v1 v2 else Inr 0)
      | IR_OP_SREM \<Rightarrow> (if v2 \<noteq> 0 then c_rem v1 v2 else Inr 0)
      | _ \<Rightarrow> Inr 0)"

definition c_bool :: "bool \<Rightarrow> 32 word" where
  "c_bool b = (if b then 1 else 0)"

definition fold_icmp :: "string \<Rightarrow> 32 word \<Rightarrow> 32 word \<Rightarrow> 32 word" where
  "fold_icmp pred v1 v2 =
     (if pred = ''eq'' then c_bool (v1 = v2)
      else if pred = ''ne'' then c_bool (v1 \<noteq> v2)
      else if pred = ''slt'' then c_bool (sint v1 < sint v2)
      else if pred = ''sgt'' then c_bool (sint v1 > sint v2)
      else if pred = ''sle'' then c_bool (sint v1 \<le> sint v2)
      else if pred = ''sge'' then c_bool (sint v1 \<ge> sint v2)
      else 0)"

definition fold_fcmp :: "float_ops \<Rightarrow> string \<Rightarrow> 32 word \<Rightarrow> 32 word \<Rightarrow> 32 word" where
  "fold_fcmp F pred v1 v2 =
     (if pred = ''oeq'' then c_bool (fl_eq F v1 v2)
      else if pred = ''one'' then c_bool (\<not> fl_eq F v1 v2)
      else if pred = ''olt'' then c_bool (fl_lt F v1 v2)
      else if pred = ''ogt'' then c_bool (fl_lt F v2 v1)
      else if pred = ''ole'' then c_bool (fl_le F v1 v2)
      else if pred = ''oge'' then c_bool (fl_le F v2 v1)
      else 0)"

text \<open>The PHI case of \<open>evaluate_instruction\<close>: the meet over the incoming values of the
  executable predecessors; the loop steps by \<open>op->next_in_instr->next_in_instr\<close>.\<close>

fun evaluate_phi :: "float_ops \<Rightarrow> SCCPContext \<Rightarrow> ir \<Rightarrow> nat list \<Rightarrow> LatticeValue \<Rightarrow> error + LatticeValue" where
  "evaluate_phi F ctx s [] merged = Inr merged"
| "evaluate_phi F ctx s [p] merged = Inl NullPointer"
| "evaluate_phi F ctx s (p # pb # rest) merged =
     (case data (opnds s pb) of
        None \<Rightarrow> Inl NullPointer
      | Some incoming_bb \<Rightarrow>
          if executable_blocks ctx (post_order_id (bbs s incoming_bb)) then
            (case get_lattice_value ctx s (data (opnds s p)) of
               Inl e \<Rightarrow> Inl e
             | Inr lval \<Rightarrow>
                 (case merge_lattice_values F s merged lval of
                    Inl e \<Rightarrow> Inl e
                  | Inr m \<Rightarrow> evaluate_phi F ctx s rest m))
          else evaluate_phi F ctx s rest merged)"

definition evaluate_binary ::
  "float_ops \<Rightarrow> SCCPContext \<Rightarrow> ir \<Rightarrow> nat \<Rightarrow> (32 word \<Rightarrow> 32 word \<Rightarrow> error + 32 word) \<Rightarrow>
   error + LatticeValue" where
  "evaluate_binary F ctx s i folder =
     (let op1 = nth_operand s i 0;
          op2 = (case op1 of None \<Rightarrow> None | Some _ \<Rightarrow> nth_operand s i 1)
      in case get_lattice_value ctx s (operand_value s op1) of
           Inl e \<Rightarrow> Inl e
         | Inr lval1 \<Rightarrow>
             (case get_lattice_value ctx s (operand_value s op2) of
                Inl e \<Rightarrow> Inl e
              | Inr lval2 \<Rightarrow>
                  (case merge_lattice_values F s lval1 lval2 of
                     Inl e \<Rightarrow> Inl e
                   | Inr merged \<Rightarrow>
                       if state merged = LATTICE_BOTTOM then Inr merged
                       else if state lval1 = LATTICE_CONSTANT \<and> state lval2 = LATTICE_CONSTANT
                       then (case folder (const_val lval1) (const_val lval2) of
                               Inl e \<Rightarrow> Inl e
                             | Inr res \<Rightarrow>
                                 Inr \<lparr>state = LATTICE_CONSTANT, const_val = res,
                                      lv_type = dest_type s i, is_valid = True\<rparr>)
                       else Inr merged)))"

definition evaluate_instruction :: "float_ops \<Rightarrow> SCCPContext \<Rightarrow> ir \<Rightarrow> nat option \<Rightarrow> error + LatticeValue" where
  "evaluate_instruction F ctx s instr =
     (case instr of
        None \<Rightarrow> Inr (zeroed_LatticeValue\<lparr>state := LATTICE_BOTTOM, is_valid := False\<rparr>)
      | Some i \<Rightarrow>
          (let oc = opcode (insts s i) in
           if oc \<in> {IR_OP_ADD, IR_OP_SUB, IR_OP_MUL, IR_OP_SDIV, IR_OP_SREM}
           then evaluate_binary F ctx s i (fold_int_binop oc)
           else if oc = IR_OP_ICMP
           then evaluate_binary F ctx s i (\<lambda>v1 v2. Inr (fold_icmp (opcode_cond (insts s i)) v1 v2))
           else if oc = IR_OP_FCMP
           then evaluate_binary F ctx s i (\<lambda>v1 v2. Inr (fold_fcmp F (opcode_cond (insts s i)) v1 v2))
           else if oc \<in> {IR_OP_ZEXT, IR_OP_SITOFP, IR_OP_FPTOSI}
           then (case get_lattice_value ctx s (operand_value s (nth_operand s i 0)) of
                   Inl e \<Rightarrow> Inl e
                 | Inr lval1 \<Rightarrow>
                     if state lval1 = LATTICE_BOTTOM
                     then Inr (zeroed_LatticeValue\<lparr>state := LATTICE_BOTTOM, is_valid := True\<rparr>)
                     else if state lval1 = LATTICE_CONSTANT
                     then Inr \<lparr>state = LATTICE_CONSTANT,
                               const_val = (if oc = IR_OP_ZEXT then const_val lval1
                                            else if oc = IR_OP_SITOFP then fl_of_int F (const_val lval1)
                                            else fl_to_int F (const_val lval1)),
                               lv_type = dest_type s i, is_valid = True\<rparr>
                     else Inr lval1)
           else if oc = IR_OP_PHI
           then evaluate_phi F ctx s (operand_list (insts s i))
                  (zeroed_LatticeValue\<lparr>state := LATTICE_TIR_OP, is_valid := True\<rparr>)
           else Inr (zeroed_LatticeValue\<lparr>state := LATTICE_BOTTOM, is_valid := True\<rparr>)))"

text \<open>\<open>visit_instruction\<close> and \<open>visit_phi_operands\<close> call each other; the first argument
  bounds the depth of the calls (a PHI is not a branch, so two levels are all there
  are).  \<open>visit_each\<close> is the loop that visits the instructions of a list in turn.\<close>

definition mark_executable :: "SCCPContext \<Rightarrow> ir \<Rightarrow> nat \<Rightarrow> SCCPContext" where
  "mark_executable ctx s target =
     ctx\<lparr>executable_blocks := (executable_blocks ctx)(post_order_id (bbs s target) := True),
         cfg_worklist := worklist_add (cfg_worklist ctx) (Some target)\<rparr>"

fun visit_instruction :: "nat \<Rightarrow> float_ops \<Rightarrow> SCCPContext \<Rightarrow> ir \<Rightarrow> nat option \<Rightarrow> error + SCCPContext"
  and visit_each :: "nat \<Rightarrow> float_ops \<Rightarrow> SCCPContext \<Rightarrow> ir \<Rightarrow> nat list \<Rightarrow> error + SCCPContext"
  and visit_phi_operands :: "nat \<Rightarrow> float_ops \<Rightarrow> SCCPContext \<Rightarrow> ir \<Rightarrow> nat \<Rightarrow> error + SCCPContext"
where
  "visit_instruction 0 F ctx s instr = Inl OutOfFuel"
| "visit_instruction (Suc n) F ctx s None = Inr ctx"
| "visit_instruction (Suc n) F ctx s (Some i) =
     (case parent (insts s i) of
        None \<Rightarrow> Inl NullPointer
      | Some pb \<Rightarrow>
          if \<not> executable_blocks ctx (post_order_id (bbs s pb)) then Inr ctx
          else
            (case dest (insts s i) of
               Some d \<Rightarrow>
                 (case get_lattice_value ctx s (Some d) of
                    Inl e \<Rightarrow> Inl e
                  | Inr old_lval \<Rightarrow>
                      if state old_lval = LATTICE_BOTTOM then Inr ctx
                      else (case evaluate_instruction F ctx s (Some i) of
                              Inl e \<Rightarrow> Inl e
                            | Inr new_lval \<Rightarrow> set_lattice_value F ctx s d new_lval))
             | None \<Rightarrow>
                 if opcode (insts s i) = IR_OP_BR \<and> length (operand_list (insts s i)) > 1 then
                   (case get_lattice_value ctx s (operand_value s (nth_operand s i 0)) of
                      Inl e \<Rightarrow> Inl e
                    | Inr cond_lval \<Rightarrow>
                        if state cond_lval = LATTICE_CONSTANT then
                          (let p1 = operand_list (insts s i) ! 1;
                               true_target =
                                 (if op_kind (opnds s p1) = IR_OP_KIND_BASIC_BLOCK
                                  then data (opnds s p1) else None);
                               false_target =
                                 (case nth_operand s i 2 of
                                    None \<Rightarrow> None
                                  | Some p2 \<Rightarrow>
                                      if op_kind (opnds s p2) = IR_OP_KIND_BASIC_BLOCK
                                      then data (opnds s p2) else None);
                               target = (if const_val cond_lval \<noteq> 0 then true_target
                                         else false_target)
                           in case target of
                                None \<Rightarrow> Inr ctx
                              | Some t \<Rightarrow>
                                  if \<not> executable_blocks ctx (post_order_id (bbs s t))
                                  then visit_phi_operands n F (mark_executable ctx s t) s t
                                  else Inr ctx)
                        else Inr ctx)
                 else if opcode (insts s i) = IR_OP_BR then
                   (case nth_operand s i 0 of
                      None \<Rightarrow> Inl NullPointer
                    | Some p0 \<Rightarrow>
                        (case data (opnds s p0) of
                           None \<Rightarrow> Inl NullPointer
                         | Some t \<Rightarrow>
                             if \<not> executable_blocks ctx (post_order_id (bbs s t))
                             then visit_phi_operands n F (mark_executable ctx s t) s t
                             else Inr ctx))
                 else Inr ctx))"
| "visit_each n F ctx s [] = Inr ctx"
| "visit_each n F ctx s (phi # phis) =
     (case visit_instruction n F ctx s (Some phi) of
        Inl e \<Rightarrow> Inl e
      | Inr ctx1 \<Rightarrow> visit_each n F ctx1 s phis)"
| "visit_phi_operands n F ctx s to =
     (if \<not> executable_blocks ctx (post_order_id (bbs s to)) then Inr ctx
      else visit_each n F ctx s (leading_phis s to))"

definition visit_block :: "nat \<Rightarrow> float_ops \<Rightarrow> SCCPContext \<Rightarrow> ir \<Rightarrow> nat \<Rightarrow> error + SCCPContext" where
  "visit_block n F ctx s bb =
     (if \<not> executable_blocks ctx (post_order_id (bbs s bb)) then Inr ctx
      else visit_each n F ctx s (instrs (bbs s bb)))"

text \<open>The users of a value whose lattice value changed: the walk along its use list.\<close>

fun visit_users :: "nat \<Rightarrow> nat \<Rightarrow> float_ops \<Rightarrow> SCCPContext \<Rightarrow> ir \<Rightarrow> nat option \<Rightarrow> error + SCCPContext" where
  "visit_users 0 n F ctx s u = Inl OutOfFuel"
| "visit_users (Suc k) n F ctx s None = Inr ctx"
| "visit_users (Suc k) n F ctx s (Some u) =
     (case visit_instruction n F ctx s (user (opnds s u)) of
        Inl e \<Rightarrow> Inl e
      | Inr ctx1 \<Rightarrow> visit_users k n F ctx1 s (next_use (opnds s u)))"

text \<open>One round of the loop of \<open>run_sccp_analysis\<close>, and the loop; its first argument
  bounds the rounds, as \<open>max_iterations\<close> does in the source.\<close>

definition sccp_round :: "nat \<Rightarrow> float_ops \<Rightarrow> SCCPContext \<Rightarrow> ir \<Rightarrow> error + SCCPContext" where
  "sccp_round n F ctx s =
     (let ctx0 = ctx\<lparr>iteration_count := iteration_count ctx + 1\<rparr> in
      case (if cfg_worklist ctx0 \<noteq> []
            then (case worklist_pop (cfg_worklist ctx0) of
                    (None, wl) \<Rightarrow> Inl NullPointer
                  | (Some bb, wl) \<Rightarrow> visit_block n F (ctx0\<lparr>cfg_worklist := wl\<rparr>) s bb)
            else Inr ctx0) of
        Inl e \<Rightarrow> Inl e
      | Inr ctx1 \<Rightarrow>
          if ssa_worklist ctx1 \<noteq> []
          then (case worklist_pop (ssa_worklist ctx1) of
                  (None, wl) \<Rightarrow> Inl NullPointer
                | (Some val, wl) \<Rightarrow>
                    visit_users n n F (ctx1\<lparr>ssa_worklist := wl\<rparr>) s (use_list_head (vals s val)))
          else Inr ctx1)"

definition sccp_continues :: "SCCPContext \<Rightarrow> bool" where
  "sccp_continues ctx =
     ((cfg_worklist ctx \<noteq> [] \<or> ssa_worklist ctx \<noteq> []) \<and> iteration_count ctx < max_iterations ctx)"

fun sccp_analysis_loop :: "nat \<Rightarrow> nat \<Rightarrow> float_ops \<Rightarrow> SCCPContext \<Rightarrow> ir \<Rightarrow> error + SCCPContext" where
  "sccp_analysis_loop 0 n F ctx s = (if sccp_continues ctx then Inl OutOfFuel else Inr ctx)"
| "sccp_analysis_loop (Suc k) n F ctx s =
     (if sccp_continues ctx
      then (case sccp_round n F ctx s of
              Inl e \<Rightarrow> Inl e
            | Inr ctx1 \<Rightarrow> sccp_analysis_loop k n F ctx1 s)
      else Inr ctx)"

definition run_sccp_analysis :: "nat \<Rightarrow> float_ops \<Rightarrow> SCCPContext \<Rightarrow> ir \<Rightarrow> error + SCCPContext" where
  "run_sccp_analysis n F ctx s = sccp_analysis_loop (nat (max_iterations ctx)) n F ctx s"

text \<open>\<open>assign_value_ids\<close> numbers the results of the instructions in the order of the
  blocks and of the instructions; a later node for the same value hides an earlier
  one.\<close>

definition function_dests :: "ir \<Rightarrow> nat \<Rightarrow> nat list" where
  "function_dests s f =
     concat (map (\<lambda>bb. List.map_filter (\<lambda>i. dest (insts s i)) (instrs (bbs s bb)))
                 (blocks (funcs s f)))"

definition assign_value_ids :: "ir \<Rightarrow> nat \<Rightarrow> (nat \<times> int) list" where
  "assign_value_ids s f =
     rev (zip (function_dests s f) (map int [0..<length (function_dests s f)]))"

text \<open>The arguments are set to Bottom before the worklists exist: an argument that has
  an id and changes its lattice value makes \<open>set_lattice_value\<close> add to the NULL
  \<open>ssa_worklist\<close>.\<close>

fun set_arguments_bottom :: "float_ops \<Rightarrow> SCCPContext \<Rightarrow> ir \<Rightarrow> nat list \<Rightarrow> error + SCCPContext" where
  "set_arguments_bottom F ctx s [] = Inr ctx"
| "set_arguments_bottom F ctx s (arg # rest) =
     (case set_lattice_value F ctx s arg
             \<lparr>state = LATTICE_BOTTOM, const_val = 0, lv_type = type (vals s arg), is_valid = True\<rparr> of
        Inl e \<Rightarrow> Inl e
      | Inr ctx1 \<Rightarrow>
          if ssa_worklist ctx1 \<noteq> ssa_worklist ctx then Inl NullPointer
          else set_arguments_bottom F ctx1 s rest)"

definition initialize_sccp :: "float_ops \<Rightarrow> nat \<Rightarrow> nat \<Rightarrow> ir \<Rightarrow> error + SCCPContext" where
  "initialize_sccp F f e s =
     (let n = int (length (function_dests s f));
          ctx0 = \<lparr>func = f, cfg_worklist = [], ssa_worklist = [],
                  value_lattice = (\<lambda>i. if 0 \<le> i \<and> i < n
                                        then zeroed_LatticeValue\<lparr>state := LATTICE_TIR_OP, is_valid := True\<rparr>
                                        else zeroed_LatticeValue),
                  value_count = n, executable_blocks = (\<lambda>_. False),
                  value_id_map = assign_value_ids s f,
                  iteration_count = 0, max_iterations = 1000, changed = False\<rparr>
      in case set_arguments_bottom F ctx0 s (args (funcs s f)) of
           Inl err \<Rightarrow> Inl err
         | Inr ctx1 \<Rightarrow>
             Inr (ctx1\<lparr>cfg_worklist := worklist_add [] (Some e),
                       executable_blocks := (\<lambda>_. False)(post_order_id (bbs s e) := True),
                       ssa_worklist := [], iteration_count := 0, changed := False\<rparr>))"

definition create_constant_from_lattice :: "LatticeValue \<Rightarrow> ir \<Rightarrow> nat option \<times> ir" where
  "create_constant_from_lattice lval s =
     (case lv_type lval of
        None \<Rightarrow> (None, s)
      | Some t \<Rightarrow>
          if state lval \<noteq> LATTICE_CONSTANT then (None, s)
          else
            (let (v, s1) = create_ir_value s
             in (Some v,
                 upd_value v
                   (\<lambda>r. r\<lparr>is_constant := True, type := Some t,
                           int_val := (if basic (tys s t) \<in> {BASIC_INT, BASIC_I1, BASIC_FLOAT}
                                       then const_val lval else 0)\<rparr>) s1)))"

text \<open>Step 1 of the transformation: every value whose lattice value is a constant has
  its uses replaced by a new constant.  The nodes are taken in the order of the list.\<close>

fun replace_constants ::
  "nat \<Rightarrow> SCCPContext \<Rightarrow> (nat \<times> int) list \<Rightarrow> Worklist \<Rightarrow> bool \<Rightarrow> ir \<Rightarrow> error + (bool \<times> ir)" where
  "replace_constants n ctx [] wl ch s = Inr (ch, s)"
| "replace_constants n ctx ((v, i) # nodes) wl ch s =
     (if state (value_lattice ctx i) = LATTICE_CONSTANT
      then (let (c, s1) = create_constant_from_lattice (value_lattice ctx i) s
            in case replace_all_uses_with n (Some wl) v c s1 of
                 Inl e \<Rightarrow> Inl e
               | Inr (wl1, s2) \<Rightarrow>
                   replace_constants n ctx nodes (case wl1 of None \<Rightarrow> wl | Some w \<Rightarrow> w) True s2)
      else replace_constants n ctx nodes wl ch s)"

text \<open>
  Step 2, for one block: a conditional branch whose condition is a constant is replaced.
  The source puts the new branch in the place of the old one
  (\<open>term->prev->next = new_br; new_br->prev = term->prev; bb->tail = new_br\<close>) and then
  calls \<open>erase_instruction(term)\<close>, which unlinks \<open>term\<close> through its own links, left as
  they were: \<open>term->prev->next = term->next\<close> (NULL, \<open>term\<close> was the tail) and
  \<open>bb->tail = term->prev\<close>.  The block's list is then the old list without \<open>term\<close>, and
  the new branch, whose parent is the block, is outside it.  On the list of the block
  this is \<open>erase_instruction\<close> alone.
\<close>

definition replace_branch :: "nat \<Rightarrow> SCCPContext \<Rightarrow> nat \<Rightarrow> bool \<Rightarrow> ir \<Rightarrow> error + (bool \<times> ir)" where
  "replace_branch n ctx bb ch s =
     (if \<not> executable_blocks ctx (post_order_id (bbs s bb)) then Inr (ch, s)
      else case bb_tail s bb of
        None \<Rightarrow> Inr (ch, s)
      | Some term \<Rightarrow>
          if opcode (insts s term) = IR_OP_BR \<and> length (operand_list (insts s term)) > 1 then
            (case get_lattice_value ctx s (operand_value s (nth_operand s term 0)) of
               Inl e \<Rightarrow> Inl e
             | Inr cond_lval \<Rightarrow>
                 if state cond_lval \<noteq> LATTICE_CONSTANT then Inr (ch, s)
                 else
                   (case nth_operand s term 2 of
                      None \<Rightarrow> Inl NullPointer
                    | Some p2 \<Rightarrow>
                        (let true_target = data (opnds s (operand_list (insts s term) ! 1));
                             false_target = data (opnds s p2);
                             final_target = (if const_val cond_lval \<noteq> 0 then true_target
                                             else false_target);
                             dead_succ = (if final_target = true_target then false_target
                                          else true_target)
                         in case dead_succ of
                              None \<Rightarrow> Inl NullPointer
                            | Some dead \<Rightarrow>
                                (case remove_predecessor n dead bb s of
                                   Inl e \<Rightarrow> Inl e
                                 | Inr s1 \<Rightarrow>
                                     (let (new_br, s2) = create_ir_instruction IR_OP_BR s1;
                                          s3 = upd_instruction new_br (\<lambda>x. x\<lparr>parent := Some bb\<rparr>) s2
                                      in case add_bb_operand new_br final_target s3 of
                                           Inl e \<Rightarrow> Inl e
                                         | Inr s4 \<Rightarrow>
                                             (case erase_instruction n (Some term) s4 of
                                                Inl e \<Rightarrow> Inl e
                                              | Inr s5 \<Rightarrow> Inr (True, s5)))))))
          else Inr (ch, s))"

fun replace_branches :: "nat \<Rightarrow> SCCPContext \<Rightarrow> nat list \<Rightarrow> bool \<Rightarrow> ir \<Rightarrow> error + (bool \<times> ir)" where
  "replace_branches n ctx [] ch s = Inr (ch, s)"
| "replace_branches n ctx (bb # rest) ch s =
     (case replace_branch n ctx bb ch s of
        Inl e \<Rightarrow> Inl e
      | Inr (ch1, s1) \<Rightarrow> replace_branches n ctx rest ch1 s1)"

definition transform_based_on_sccp :: "nat \<Rightarrow> SCCPContext \<Rightarrow> ir \<Rightarrow> error + (bool \<times> ir)" where
  "transform_based_on_sccp n ctx s =
     (case replace_constants n ctx (value_id_map ctx) [] False s of
        Inl e \<Rightarrow> Inl e
      | Inr (ch, s1) \<Rightarrow> replace_branches n ctx (blocks (funcs s1 (func ctx))) ch s1)"

definition run_sccp :: "nat \<Rightarrow> float_ops \<Rightarrow> nat option \<Rightarrow> ir \<Rightarrow> error + (bool \<times> ir)" where
  "run_sccp n F fn s =
     (case fn of
        None \<Rightarrow> Inr (False, s)
      | Some f \<Rightarrow>
          (case entry (funcs s f) of
             None \<Rightarrow> Inr (False, s)
           | Some e \<Rightarrow>
               (case module (funcs s f) of
                  None \<Rightarrow> Inl NullPointer
                | Some m \<Rightarrow>
                    (case initialize_sccp F f e s of
                       Inl err \<Rightarrow> Inl err
                     | Inr ctx \<Rightarrow>
                         (case run_sccp_analysis n F ctx s of
                            Inl err \<Rightarrow> Inl err
                          | Inr ctx1 \<Rightarrow> transform_based_on_sccp n ctx1 s)))))"

section \<open>Instruction combining (src/ir/transforms/inst_combine.c)\<close>

text \<open>The float literals of the source, as the four bytes of a C \<open>float\<close>.\<close>

definition float_0 :: "32 word" where "float_0 = 0x00000000"
definition float_1 :: "32 word" where "float_1 = 0x3F800000"
definition float_minus_1 :: "32 word" where "float_minus_1 = 0xBF800000"
definition float_2 :: "32 word" where "float_2 = 0x40000000"

definition create_basic_type :: "BasicType \<Rightarrow> ir \<Rightarrow> nat \<times> ir" where
  "create_basic_type b s =
     (next_type s,
      s\<lparr>tys := (tys s)(next_type s := \<lparr>kind = TYPE_BASIC, basic = b, element_type = None\<rparr>),
        next_type := Suc (next_type s)\<rparr>)"

definition create_const :: "BasicType \<Rightarrow> 32 word \<Rightarrow> ir \<Rightarrow> nat \<times> ir" where
  "create_const b w s =
     (let (v, s1) = create_ir_value s;
          (t, s2) = create_basic_type b s1
      in (v, upd_value v (\<lambda>r. r\<lparr>is_constant := True, type := Some t, int_val := w\<rparr>) s2))"

definition create_const_int :: "32 word \<Rightarrow> ir \<Rightarrow> nat \<times> ir" where
  "create_const_int w s = create_const BASIC_INT w s"

definition create_const_float :: "32 word \<Rightarrow> ir \<Rightarrow> nat \<times> ir" where
  "create_const_float w s = create_const BASIC_FLOAT w s"

record InstCombineContext =
  ic_wl :: Worklist
  ic_instr :: nat
  ic_op1 :: "nat option"
  ic_op2 :: "nat option"
  ic_op3 :: "nat option"
  ic_op4 :: "nat option"
  re_queue :: bool

type_synonym visit_result = "error + (nat option \<times> InstCombineContext \<times> ir)"

definition const_of :: "ir \<Rightarrow> nat \<Rightarrow> bool" where
  "const_of s v = is_constant (vals s v)"

definition ival :: "ir \<Rightarrow> nat \<Rightarrow> 32 word" where
  "ival s v = int_val (vals s v)"

text \<open>A visitor that answers with a new constant, and the rewriting of the first two
  operands of the visited instruction (\<open>change_operand_value\<close> on \<open>operand_head\<close> and on
  its successor) with a new opcode and \<open>re_queue\<close> set.\<close>

definition answer_const :: "nat \<times> ir \<Rightarrow> InstCombineContext \<Rightarrow> visit_result" where
  "answer_const r ctx = Inr (Some (fst r), ctx, snd r)"

definition rewrite_operands ::
  "nat \<Rightarrow> Opcode option \<Rightarrow> nat \<Rightarrow> nat \<Rightarrow> InstCombineContext \<Rightarrow> ir \<Rightarrow> visit_result" where
  "rewrite_operands n oc a b ctx s =
     (let i = ic_instr ctx;
          s0 = (case oc of None \<Rightarrow> s | Some c \<Rightarrow> upd_instruction i (\<lambda>x. x\<lparr>opcode := c\<rparr>) s)
      in case nth_operand s0 i 0 of
           None \<Rightarrow> Inl NullPointer
         | Some p0 \<Rightarrow>
             (case change_operand_value n p0 (Some a) s0 of
                Inl e \<Rightarrow> Inl e
              | Inr s1 \<Rightarrow>
                  (case nth_operand s1 i 1 of
                     None \<Rightarrow> Inl NullPointer
                   | Some p1 \<Rightarrow>
                       (case change_operand_value n p1 (Some b) s1 of
                          Inl e \<Rightarrow> Inl e
                        | Inr s2 \<Rightarrow> Inr (None, ctx\<lparr>re_queue := True\<rparr>, s2)))))"

text \<open>The second operand of the instruction that defines a value, when that
  instruction is a \<open>sub\<close>: \<open>v->def_instr->operand_head->next_in_instr->data.value\<close>.\<close>

definition sub_operands :: "ir \<Rightarrow> nat \<Rightarrow> (error + (nat option \<times> nat option)) option" where
  "sub_operands s v =
     (case def_instr (vals s v) of
        None \<Rightarrow> None
      | Some d \<Rightarrow>
          if opcode (insts s d) \<noteq> IR_OP_SUB then None
          else (case nth_operand s d 1 of
                  None \<Rightarrow> Some (Inl NullPointer)
                | Some p1 \<Rightarrow>
                    Some (Inr (operand_value s (nth_operand s d 0), data (opnds s p1)))))"

definition visit_unhandled :: "InstCombineContext \<Rightarrow> ir \<Rightarrow> visit_result" where
  "visit_unhandled ctx s = Inr (None, ctx, s)"

definition visit_add :: "nat \<Rightarrow> InstCombineContext \<Rightarrow> ir \<Rightarrow> visit_result" where
  "visit_add n ctx s =
     (case (ic_op1 ctx, ic_op2 ctx) of
        (Some lhs, Some rhs) \<Rightarrow>
          if const_of s lhs \<and> const_of s rhs
          then answer_const (create_const_int (ival s lhs + ival s rhs) s) ctx
          else if const_of s lhs \<and> \<not> const_of s rhs
          then rewrite_operands n None rhs lhs ctx s
          else if const_of s rhs \<and> ival s rhs = 0 then Inr (Some lhs, ctx, s)
          else
            (case (case sub_operands s lhs of
                     Some (Inl e) \<Rightarrow> Inl e
                   | Some (Inr (a, b)) \<Rightarrow> if b = Some rhs then Inr (Some a) else Inr None
                   | None \<Rightarrow> Inr None) of
               Inl e \<Rightarrow> Inl e
             | Inr (Some a) \<Rightarrow> Inr (a, ctx, s)
             | Inr None \<Rightarrow>
                 (case sub_operands s rhs of
                    Some (Inl e) \<Rightarrow> Inl e
                  | Some (Inr (a, b)) \<Rightarrow> if b = Some lhs then Inr (a, ctx, s) else Inr (None, ctx, s)
                  | None \<Rightarrow> Inr (None, ctx, s)))
      | _ \<Rightarrow> Inl NullPointer)"

definition visit_sub :: "nat \<Rightarrow> InstCombineContext \<Rightarrow> ir \<Rightarrow> visit_result" where
  "visit_sub n ctx s =
     (case (ic_op1 ctx, ic_op2 ctx) of
        (Some lhs, Some rhs) \<Rightarrow>
          if const_of s lhs \<and> const_of s rhs
          then answer_const (create_const_int (ival s lhs - ival s rhs) s) ctx
          else if const_of s rhs \<and> ival s rhs = 0 then Inr (Some lhs, ctx, s)
          else if lhs = rhs then answer_const (create_const_int 0 s) ctx
          else if const_of s rhs
          then (let (neg_const, s1) = create_const_int (- ival s rhs) s
                in case nth_operand s1 (ic_instr ctx) 1 of
                     None \<Rightarrow> Inl NullPointer
                   | Some p1 \<Rightarrow>
                       (case change_operand_value n p1 (Some neg_const)
                               (upd_instruction (ic_instr ctx) (\<lambda>x. x\<lparr>opcode := IR_OP_ADD\<rparr>) s1) of
                          Inl e \<Rightarrow> Inl e
                        | Inr s2 \<Rightarrow> Inr (None, ctx\<lparr>re_queue := True\<rparr>, s2)))
          else Inr (None, ctx, s)
      | _ \<Rightarrow> Inl NullPointer)"

text \<open>\<open>is_power_of_two\<close>: the logarithm is counted by shifting right while the lowest
  bit is 0.\<close>

fun shift_count :: "nat \<Rightarrow> int \<Rightarrow> int \<Rightarrow> int" where
  "shift_count 0 temp l = l"
| "shift_count (Suc k) temp l =
     (if temp mod 2 = 0 \<and> temp > 1 then shift_count k (temp div 2) (l + 1) else l)"

definition is_power_of_two :: "32 word \<Rightarrow> 32 word option" where
  "is_power_of_two c =
     (if sint c \<le> 0 then None
      else if and c (c - 1) = 0 then Some (word_of_int (shift_count 32 (sint c) 0))
      else None)"

definition visit_mul :: "nat \<Rightarrow> InstCombineContext \<Rightarrow> ir \<Rightarrow> visit_result" where
  "visit_mul n ctx s =
     (case (ic_op1 ctx, ic_op2 ctx) of
        (Some lhs, Some rhs) \<Rightarrow>
          if const_of s lhs \<and> const_of s rhs
          then answer_const (create_const_int (ival s lhs * ival s rhs) s) ctx
          else if const_of s lhs \<and> \<not> const_of s rhs
          then rewrite_operands n None rhs lhs ctx s
          else if const_of s rhs then
            (let c = ival s rhs in
             if c = 0 then answer_const (create_const_int 0 s) ctx
             else if c = 1 then Inr (Some lhs, ctx, s)
             else if c = - 1
             then (let (z, s1) = create_const_int 0 s
                   in rewrite_operands n (Some IR_OP_SUB) z lhs ctx s1)
             else (case is_power_of_two c of
                     Some log_val \<Rightarrow>
                       (let (k, s1) = create_const_int log_val s
                        in case nth_operand s1 (ic_instr ctx) 1 of
                             None \<Rightarrow> Inl NullPointer
                           | Some p1 \<Rightarrow>
                               (case change_operand_value n p1 (Some k)
                                       (upd_instruction (ic_instr ctx) (\<lambda>x. x\<lparr>opcode := IR_OP_SHL\<rparr>) s1) of
                                  Inl e \<Rightarrow> Inl e
                                | Inr s2 \<Rightarrow> Inr (None, ctx\<lparr>re_queue := True\<rparr>, s2)))
                   | None \<Rightarrow> Inr (None, ctx, s)))
          else Inr (None, ctx, s)
      | _ \<Rightarrow> Inl NullPointer)"

text \<open>\<open>visit_sdiv\<close> and \<open>visit_srem\<close>.  The folding of two constants computes
  \<open>lhs->int_val / rhs->int_val\<close> and \<open>lhs->int_val % rhs->int_val\<close>, which fail for \<open>INT_MIN\<close>
  and -1.\<close>

definition visit_sdiv :: "nat \<Rightarrow> InstCombineContext \<Rightarrow> ir \<Rightarrow> visit_result" where
  "visit_sdiv n ctx s =
     (case ic_op2 ctx of
        None \<Rightarrow> Inl NullPointer
      | Some rhs \<Rightarrow>
          if const_of s rhs \<and> ival s rhs = 0 then Inr (None, ctx, s)
          else
            (case ic_op1 ctx of
               None \<Rightarrow> Inl NullPointer
             | Some lhs \<Rightarrow>
                 if const_of s lhs \<and> const_of s rhs
                 then (case c_div (ival s lhs) (ival s rhs) of
                         Inl e \<Rightarrow> Inl e
                       | Inr q \<Rightarrow> answer_const (create_const_int q s) ctx)
                 else if const_of s rhs \<and> ival s rhs = 1 then Inr (Some lhs, ctx, s)
                 else if const_of s rhs \<and> ival s rhs = - 1
                 then (let (z, s1) = create_const_int 0 s
                       in rewrite_operands n (Some IR_OP_SUB) z lhs ctx s1)
                 else if const_of s lhs \<and> ival s lhs = 0
                 then answer_const (create_const_int 0 s) ctx
                 else Inr (None, ctx, s)))"

definition visit_srem :: "InstCombineContext \<Rightarrow> ir \<Rightarrow> visit_result" where
  "visit_srem ctx s =
     (case ic_op2 ctx of
        None \<Rightarrow> Inl NullPointer
      | Some rhs \<Rightarrow>
          if const_of s rhs \<and> ival s rhs = 0 then Inr (None, ctx, s)
          else
            (case ic_op1 ctx of
               None \<Rightarrow> Inl NullPointer
             | Some lhs \<Rightarrow>
                 if const_of s lhs \<and> const_of s rhs
                 then (case c_rem (ival s lhs) (ival s rhs) of
                         Inl e \<Rightarrow> Inl e
                       | Inr r \<Rightarrow> answer_const (create_const_int r s) ctx)
                 else if const_of s rhs \<and> (ival s rhs = 1 \<or> ival s rhs = - 1)
                 then answer_const (create_const_int 0 s) ctx
                 else if lhs = rhs then answer_const (create_const_int 0 s) ctx
                 else Inr (None, ctx, s)))"

definition visit_icmp :: "InstCombineContext \<Rightarrow> ir \<Rightarrow> visit_result" where
  "visit_icmp ctx s =
     (case (ic_op1 ctx, ic_op2 ctx) of
        (Some lhs, Some rhs) \<Rightarrow>
          if const_of s lhs \<and> const_of s rhs
          then answer_const
                 (create_const_int (fold_icmp (opcode_cond (insts s (ic_instr ctx))) (ival s lhs) (ival s rhs)) s) ctx
          else Inr (None, ctx, s)
      | _ \<Rightarrow> Inl NullPointer)"

definition visit_fcmp :: "float_ops \<Rightarrow> InstCombineContext \<Rightarrow> ir \<Rightarrow> visit_result" where
  "visit_fcmp F ctx s =
     (case (ic_op1 ctx, ic_op2 ctx) of
        (Some lhs, Some rhs) \<Rightarrow>
          if const_of s lhs \<and> const_of s rhs
          then answer_const
                 (create_const_int (fold_fcmp F (opcode_cond (insts s (ic_instr ctx))) (ival s lhs) (ival s rhs)) s) ctx
          else Inr (None, ctx, s)
      | _ \<Rightarrow> Inl NullPointer)"

definition visit_fadd :: "float_ops \<Rightarrow> InstCombineContext \<Rightarrow> ir \<Rightarrow> visit_result" where
  "visit_fadd F ctx s =
     (case (ic_op1 ctx, ic_op2 ctx) of
        (Some lhs, Some rhs) \<Rightarrow>
          if const_of s lhs \<and> const_of s rhs
          then answer_const (create_const_float (fl_add F (ival s lhs) (ival s rhs)) s) ctx
          else if const_of s rhs \<and> fl_eq F (ival s rhs) float_0 then Inr (Some lhs, ctx, s)
          else if const_of s lhs \<and> fl_eq F (ival s lhs) float_0 then Inr (Some rhs, ctx, s)
          else Inr (None, ctx, s)
      | _ \<Rightarrow> Inl NullPointer)"

definition visit_fsub :: "nat \<Rightarrow> float_ops \<Rightarrow> InstCombineContext \<Rightarrow> ir \<Rightarrow> visit_result" where
  "visit_fsub n F ctx s =
     (case (ic_op1 ctx, ic_op2 ctx) of
        (Some lhs, Some rhs) \<Rightarrow>
          if const_of s lhs \<and> const_of s rhs
          then answer_const (create_const_float (fl_sub F (ival s lhs) (ival s rhs)) s) ctx
          else if const_of s rhs \<and> fl_eq F (ival s rhs) float_0 then Inr (Some lhs, ctx, s)
          else if const_of s lhs \<and> fl_eq F (ival s lhs) float_0
          then (let (z, s1) = create_const_float float_0 s
                in rewrite_operands n (Some IR_OP_FSUB) z rhs ctx s1)
          else Inr (None, ctx, s)
      | _ \<Rightarrow> Inl NullPointer)"

definition visit_fmul :: "nat \<Rightarrow> float_ops \<Rightarrow> InstCombineContext \<Rightarrow> ir \<Rightarrow> visit_result" where
  "visit_fmul n F ctx s =
     (case (ic_op1 ctx, ic_op2 ctx) of
        (Some lhs, Some rhs) \<Rightarrow>
          if const_of s lhs \<and> const_of s rhs
          then answer_const (create_const_float (fl_mul F (ival s lhs) (ival s rhs)) s) ctx
          else if const_of s rhs \<and> fl_eq F (ival s rhs) float_1 then Inr (Some lhs, ctx, s)
          else if const_of s lhs \<and> fl_eq F (ival s lhs) float_1 then Inr (Some rhs, ctx, s)
          else if (const_of s rhs \<and> fl_eq F (ival s rhs) float_0)
                  \<or> (const_of s lhs \<and> fl_eq F (ival s lhs) float_0)
          then answer_const (create_const_float float_0 s) ctx
          else if const_of s rhs \<and> fl_eq F (ival s rhs) float_minus_1
          then (let (z, s1) = create_const_float float_0 s
                in rewrite_operands n (Some IR_OP_FSUB) z lhs ctx s1)
          else if const_of s lhs \<and> fl_eq F (ival s lhs) float_minus_1
          then (let (z, s1) = create_const_float float_0 s
                in rewrite_operands n (Some IR_OP_FSUB) z rhs ctx s1)
          else if const_of s rhs \<and> fl_eq F (ival s rhs) float_2
          then rewrite_operands n (Some IR_OP_FADD) lhs lhs ctx s
          else if const_of s lhs \<and> fl_eq F (ival s lhs) float_2
          then rewrite_operands n (Some IR_OP_FADD) rhs rhs ctx s
          else Inr (None, ctx, s)
      | _ \<Rightarrow> Inl NullPointer)"

definition visit_fdiv :: "nat \<Rightarrow> float_ops \<Rightarrow> InstCombineContext \<Rightarrow> ir \<Rightarrow> visit_result" where
  "visit_fdiv n F ctx s =
     (case ic_op2 ctx of
        None \<Rightarrow> Inl NullPointer
      | Some rhs \<Rightarrow>
          if const_of s rhs \<and> fl_eq F (ival s rhs) float_0 then Inr (None, ctx, s)
          else
            (case ic_op1 ctx of
               None \<Rightarrow> Inl NullPointer
             | Some lhs \<Rightarrow>
                 if const_of s lhs \<and> const_of s rhs
                 then answer_const (create_const_float (fl_div F (ival s lhs) (ival s rhs)) s) ctx
                 else if const_of s lhs \<and> fl_eq F (ival s lhs) float_0
                 then answer_const (create_const_float float_0 s) ctx
                 else if const_of s rhs \<and> fl_eq F (ival s rhs) float_1 then Inr (Some lhs, ctx, s)
                 else if lhs = rhs then answer_const (create_const_float float_1 s) ctx
                 else if const_of s rhs \<and> fl_eq F (ival s rhs) float_minus_1
                 then (let (z, s1) = create_const_float float_0 s
                       in rewrite_operands n (Some IR_OP_FSUB) z lhs ctx s1)
                 else Inr (None, ctx, s)))"

text \<open>\<open>visit_phi\<close>: the two loops over the (value, block) pairs of the PHI.\<close>

fun phi_all_same :: "ir \<Rightarrow> nat option \<Rightarrow> nat option \<Rightarrow> nat list \<Rightarrow> error + bool" where
  "phi_all_same s first_val d [] = Inr True"
| "phi_all_same s first_val d [p] =
     (if data (opnds s p) \<noteq> first_val \<and> data (opnds s p) \<noteq> d then Inr False
      else Inl NullPointer)"
| "phi_all_same s first_val d (p # pb # rest) =
     (if data (opnds s p) \<noteq> first_val \<and> data (opnds s p) \<noteq> d then Inr False
      else phi_all_same s first_val d rest)"

fun phi_incoming_from :: "ir \<Rightarrow> nat \<Rightarrow> nat list \<Rightarrow> error + nat option" where
  "phi_incoming_from s pred [] = Inr None"
| "phi_incoming_from s pred [p] = Inl NullPointer"
| "phi_incoming_from s pred (p # pb # rest) =
     (if data (opnds s pb) = Some pred then Inr (data (opnds s p))
      else phi_incoming_from s pred rest)"

definition visit_phi :: "InstCombineContext \<Rightarrow> ir \<Rightarrow> visit_result" where
  "visit_phi ctx s =
     (let phi = ic_instr ctx; ops = operand_list (insts s phi) in
      if ops = [] then Inr (None, ctx, s)
      else
        (let first_val = data (opnds s (hd ops)) in
         case phi_all_same s first_val (dest (insts s phi)) ops of
           Inl e \<Rightarrow> Inl e
         | Inr all_same \<Rightarrow>
             if all_same then Inr (first_val, ctx, s)
             else
               (case parent (insts s phi) of
                  None \<Rightarrow> Inr (None, ctx, s)
                | Some bb \<Rightarrow>
                    (case predecessors (bbs s bb) of
                       [pred] \<Rightarrow>
                         (case phi_incoming_from s pred ops of
                            Inl e \<Rightarrow> Inl e
                          | Inr v \<Rightarrow> Inr (v, ctx, s))
                     | _ \<Rightarrow> Inr (None, ctx, s)))))"

text \<open>The jump table \<open>visit_fn_table\<close>; an opcode without an entry gets
  \<open>visit_unhandled\<close>, and the visitors of \<open>shl\<close>, \<open>ashr\<close>, \<open>and\<close> and \<open>getelementptr\<close>
  return NULL as it does.\<close>

definition visit_fn :: "nat \<Rightarrow> float_ops \<Rightarrow> Opcode \<Rightarrow> InstCombineContext \<Rightarrow> ir \<Rightarrow> visit_result" where
  "visit_fn n F oc ctx s =
     (case oc of
        IR_OP_ADD \<Rightarrow> visit_add n ctx s
      | IR_OP_SUB \<Rightarrow> visit_sub n ctx s
      | IR_OP_MUL \<Rightarrow> visit_mul n ctx s
      | IR_OP_SDIV \<Rightarrow> visit_sdiv n ctx s
      | IR_OP_SREM \<Rightarrow> visit_srem ctx s
      | IR_OP_FADD \<Rightarrow> visit_fadd F ctx s
      | IR_OP_FSUB \<Rightarrow> visit_fsub n F ctx s
      | IR_OP_FMUL \<Rightarrow> visit_fmul n F ctx s
      | IR_OP_FDIV \<Rightarrow> visit_fdiv n F ctx s
      | IR_OP_ICMP \<Rightarrow> visit_icmp ctx s
      | IR_OP_FCMP \<Rightarrow> visit_fcmp F ctx s
      | IR_OP_PHI \<Rightarrow> visit_phi ctx s
      | _ \<Rightarrow> visit_unhandled ctx s)"

text \<open>The main loop of \<open>run_inst_combine\<close>, one round per popped instruction.\<close>

definition visit_popped :: "nat \<Rightarrow> float_ops \<Rightarrow> nat \<Rightarrow> Worklist \<Rightarrow> ir \<Rightarrow> visit_result" where
  "visit_popped n F i rest s =
     visit_fn n F (opcode (insts s i))
       \<lparr>ic_wl = rest, ic_instr = i,
        ic_op1 = operand_value s (nth_operand s i 0),
        ic_op2 = operand_value s (nth_operand s i 1),
        ic_op3 = operand_value s (nth_operand s i 2),
        ic_op4 = operand_value s (nth_operand s i 3),
        re_queue = False\<rparr> s"

fun inst_combine_loop :: "nat \<Rightarrow> nat \<Rightarrow> float_ops \<Rightarrow> Worklist \<Rightarrow> bool \<Rightarrow> ir \<Rightarrow> error + (bool \<times> ir)" where
  "inst_combine_loop 0 n F w ch s = (if w = [] then Inr (ch, s) else Inl OutOfFuel)"
| "inst_combine_loop (Suc k) n F [] ch s = Inr (ch, s)"
| "inst_combine_loop (Suc k) n F (i # rest) ch s =
     (if opcode (insts s i) = IR_OP_UNKNOWN then inst_combine_loop k n F rest ch s
      else
        (case visit_popped n F i rest s of
           Inl e \<Rightarrow> Inl e
         | Inr (new_val, ctx, s1) \<Rightarrow>
             (case new_val of
                Some nv \<Rightarrow>
                  (case (case dest (insts s1 i) of
                           None \<Rightarrow> Inr (Some rest, s1)
                         | Some d \<Rightarrow> replace_all_uses_with n (Some rest) d (Some nv) s1) of
                     Inl e \<Rightarrow> Inl e
                   | Inr (w2, s2) \<Rightarrow>
                       (case erase_instruction n (Some i) s2 of
                          Inl e \<Rightarrow> Inl e
                        | Inr s3 \<Rightarrow>
                            inst_combine_loop k n F (case w2 of None \<Rightarrow> rest | Some w \<Rightarrow> w) True s3))
              | None \<Rightarrow>
                  if re_queue ctx then inst_combine_loop k n F (worklist_add rest (Some i)) True s1
                  else inst_combine_loop k n F rest ch s1)))"

definition run_inst_combine :: "nat \<Rightarrow> float_ops \<Rightarrow> nat option \<Rightarrow> ir \<Rightarrow> error + (bool \<times> ir)" where
  "run_inst_combine n F fn s =
     (case fn of
        None \<Rightarrow> Inr (False, s)
      | Some f \<Rightarrow>
          (case entry (funcs s f) of
             None \<Rightarrow> Inr (False, s)
           | Some e \<Rightarrow>
               (case module (funcs s f) of
                  None \<Rightarrow> Inl NullPointer
                | Some m \<Rightarrow>
                    (case reverse_post_order (funcs s f) of
                       None \<Rightarrow> Inl AssertionFailed
                     | Some rpo \<Rightarrow>
                         if int (length rpo) < block_count (funcs s f) then Inl NullPointer
                         else inst_combine_loop n n F
                                (rev (concat (map (\<lambda>bb. instrs (bbs s bb))
                                                  (take (nat (block_count (funcs s f))) rpo))))
                                False s))))"

section \<open>Small functions used as inputs\<close>

text \<open>
  \<open>sdiv_zero_example\<close>: one block, \<open>%1 = sdiv 0, 0; ret %1\<close>, where both operands of the
  division reference the same constant (the value 3).
  \<open>fdiv_self_example\<close>: one block, \<open>%1 = fdiv %a, %a; ret %1\<close>, where \<open>%a\<close> (the value 3)
  is an argument of the function.
  \<open>branch_on_argument\<close>: the entry block \<open>br %a, L1, L2\<close> on an argument \<open>%a\<close>, and the
  two blocks \<open>L1: ret\<close> and \<open>L2: ret\<close>.
\<close>

definition i32_type :: Type where "i32_type = \<lparr>kind = TYPE_BASIC, basic = BASIC_INT, element_type = None\<rparr>"

definition f32_type :: Type where "f32_type = \<lparr>kind = TYPE_BASIC, basic = BASIC_FLOAT, element_type = None\<rparr>"

definition sdiv_zero_example :: ir where
  "sdiv_zero_example = zeroed_ir
     \<lparr>vals := (\<lambda>_. zeroed_IRValue)
         (1 := zeroed_IRValue\<lparr>type := Some 0, def_instr := Some 0, use_list_head := Some 2\<rparr>,
          3 := zeroed_IRValue\<lparr>is_constant := True, int_val := 0, type := Some 0\<rparr>),
      opnds := (\<lambda>_. zeroed_IROperand)
         (0 := \<lparr>op_kind = IR_OP_KIND_VALUE, data = Some 3, user = Some 0, next_use = None\<rparr>,
          1 := \<lparr>op_kind = IR_OP_KIND_VALUE, data = Some 3, user = Some 0, next_use = None\<rparr>,
          2 := \<lparr>op_kind = IR_OP_KIND_VALUE, data = Some 1, user = Some 1, next_use = None\<rparr>),
      insts := (\<lambda>_. zeroed_IRInstruction)
         (0 := zeroed_IRInstruction\<lparr>opcode := IR_OP_SDIV, dest := Some 1, operand_list := [0, 1], parent := Some 0\<rparr>,
          1 := zeroed_IRInstruction\<lparr>opcode := IR_OP_RET, operand_list := [2], parent := Some 0\<rparr>),
      bbs := (\<lambda>_. zeroed_IRBasicBlock)
         (0 := zeroed_IRBasicBlock\<lparr>instrs := [0, 1], bb_parent := Some 0\<rparr>),
      funcs := (\<lambda>_. zeroed_IRFunction)
         (0 := zeroed_IRFunction\<lparr>entry := Some 0, blocks := [0], block_count := 1,
                 instruction_count := 2, reverse_post_order := Some [0], module := Some 0\<rparr>),
      tys := (\<lambda>_. zeroed_Type)(0 := i32_type),
      next_value := 4, next_operand := 3, next_instruction := 2, next_type := 1\<rparr>"

definition fdiv_self_example :: ir where
  "fdiv_self_example = zeroed_ir
     \<lparr>vals := (\<lambda>_. zeroed_IRValue)
         (1 := zeroed_IRValue\<lparr>type := Some 0, def_instr := Some 0, use_list_head := Some 2\<rparr>,
          3 := zeroed_IRValue\<lparr>type := Some 0, use_list_head := Some 1\<rparr>),
      opnds := (\<lambda>_. zeroed_IROperand)
         (0 := \<lparr>op_kind = IR_OP_KIND_VALUE, data = Some 3, user = Some 0, next_use = None\<rparr>,
          1 := \<lparr>op_kind = IR_OP_KIND_VALUE, data = Some 3, user = Some 0, next_use = Some 0\<rparr>,
          2 := \<lparr>op_kind = IR_OP_KIND_VALUE, data = Some 1, user = Some 1, next_use = None\<rparr>),
      insts := (\<lambda>_. zeroed_IRInstruction)
         (0 := zeroed_IRInstruction\<lparr>opcode := IR_OP_FDIV, dest := Some 1, operand_list := [0, 1], parent := Some 0\<rparr>,
          1 := zeroed_IRInstruction\<lparr>opcode := IR_OP_RET, operand_list := [2], parent := Some 0\<rparr>),
      bbs := (\<lambda>_. zeroed_IRBasicBlock)
         (0 := zeroed_IRBasicBlock\<lparr>instrs := [0, 1], bb_parent := Some 0\<rparr>),
      funcs := (\<lambda>_. zeroed_IRFunction)
         (0 := zeroed_IRFunction\<lparr>entry := Some 0, blocks := [0], block_count := 1,
                 instruction_count := 2, args := [3], reverse_post_order := Some [0], module := Some 0\<rparr>),
      tys := (\<lambda>_. zeroed_Type)(0 := f32_type),
      next_value := 4, next_operand := 3, next_instruction := 2, next_type := 1\<rparr>"

definition branch_on_argument :: ir where
  "branch_on_argument = zeroed_ir
     \<lparr>vals := (\<lambda>_. zeroed_IRValue)
         (3 := zeroed_IRValue\<lparr>type := Some 0, use_list_head := Some 0\<rparr>),
      opnds := (\<lambda>_. zeroed_IROperand)
         (0 := \<lparr>op_kind = IR_OP_KIND_VALUE, data = Some 3, user = Some 0, next_use = None\<rparr>,
          1 := \<lparr>op_kind = IR_OP_KIND_BASIC_BLOCK, data = Some 1, user = Some 0, next_use = None\<rparr>,
          2 := \<lparr>op_kind = IR_OP_KIND_BASIC_BLOCK, data = Some 2, user = Some 0, next_use = None\<rparr>),
      insts := (\<lambda>_. zeroed_IRInstruction)
         (0 := zeroed_IRInstruction\<lparr>opcode := IR_OP_BR, operand_list := [0, 1, 2], parent := Some 0\<rparr>,
          1 := zeroed_IRInstruction\<lparr>opcode := IR_OP_RET, parent := Some 1\<rparr>,
          2 := zeroed_IRInstruction\<lparr>opcode := IR_OP_RET, parent := Some 2\<rparr>),
      bbs := (\<lambda>_. zeroed_IRBasicBlock)
         (0 := zeroed_IRBasicBlock\<lparr>instrs := [0], bb_parent := Some 0, successors := [1, 2], post_order_id := 2\<rparr>,
          1 := zeroed_IRBasicBlock\<lparr>instrs := [1], bb_parent := Some 0, predecessors := [0], post_order_id := 1\<rparr>,
          2 := zeroed_IRBasicBlock\<lparr>instrs := [2], bb_parent := Some 0, predecessors := [0], post_order_id := 0\<rparr>),
      funcs := (\<lambda>_. zeroed_IRFunction)
         (0 := zeroed_IRFunction\<lparr>entry := Some 0, blocks := [0, 1, 2], block_count := 3,
                 instruction_count := 3, args := [3], reverse_post_order := Some [0, 1, 2], module := Some 0\<rparr>),
      tys := (\<lambda>_. zeroed_Type)(0 := i32_type),
      next_value := 4, next_operand := 3, next_instruction := 3, next_type := 1\<rparr>"

section \<open>Aggressive dead code elimination (src/ir/transforms/adce.c)\<close>

record InstructionInfo =
  ii_instr :: "nat option"
  is_critical :: bool
  is_terminator :: bool
  is_phi :: bool

record BlockInfo =
  bi_bb :: "nat option"
  bi_is_live :: bool
  live_instruction_count :: int
  total_instruction_count :: int

definition zeroed_BlockInfo :: BlockInfo where
  "zeroed_BlockInfo = \<lparr>bi_bb = None, bi_is_live = False, live_instruction_count = 0,
     total_instruction_count = 0\<rparr>"

text \<open>
  The worklist and the two arrays \<open>live_blocks\<close> and \<open>block_info\<close> that \<open>run_adce\<close> hands to its
  helpers.  \<open>run_adce\<close> allocates both arrays with \<open>func->block_count\<close> entries (\<open>n_blocks\<close>)
  and the helpers index them with the \<open>post_order_id\<close> of a block: reading or writing an
  entry whose index is not in the array is the failure \<open>OutOfBounds\<close>.
\<close>

record adce_arrays =
  adce_wl :: Worklist
  n_blocks :: int
  live_blocks :: "int \<Rightarrow> bool"
  block_info :: "int \<Rightarrow> BlockInfo"

definition in_bounds :: "int \<Rightarrow> int \<Rightarrow> bool" where
  "in_bounds len k = (0 \<le> k \<and> k < len)"

definition is_critical_instruction :: "ir \<Rightarrow> nat option \<Rightarrow> bool" where
  "is_critical_instruction s instr =
     (case instr of
        None \<Rightarrow> False
      | Some i \<Rightarrow>
          (case opcode (insts s i) of
             IR_OP_CALL \<Rightarrow> True
           | IR_OP_STORE \<Rightarrow> True
           | IR_OP_RET \<Rightarrow> True
           | IR_OP_BR \<Rightarrow> True
           | _ \<Rightarrow> False))"

text \<open>The instructions of a function in the order of the two nested loops
  \<open>for (bb = func->blocks; ...) for (instr = bb->head; ...)\<close>.\<close>

definition function_instrs :: "ir \<Rightarrow> nat \<Rightarrow> nat list" where
  "function_instrs s f = concat (map (\<lambda>bb. instrs (bbs s bb)) (blocks (funcs s f)))"

definition recalculate_instruction_count :: "nat option \<Rightarrow> ir \<Rightarrow> ir" where
  "recalculate_instruction_count fn s =
     (case fn of
        None \<Rightarrow> s
      | Some f \<Rightarrow>
          upd_function f
            (\<lambda>x. x\<lparr>instruction_count :=
                      int (length (filter (\<lambda>i. opcode (insts s i) \<noteq> IR_OP_UNKNOWN)
                                          (function_instrs s f)))\<rparr>) s)"

text \<open>
  \<open>initialize_instruction_info\<close> writes the entry \<open>instr_info[k]\<close> for the \<open>k\<close>-th instruction
  of the function and the entry of \<open>block_info\<close> of every block.  \<open>run_adce\<close> allocates
  \<open>instr_info\<close> with \<open>total_instructions\<close> entries, the cached \<open>func->instruction_count\<close>: with
  more instructions in the blocks than that, the writes run past the end of the array
  (\<open>OutOfBounds\<close>).  Otherwise the list that is returned holds the entries written, in
  their order.
\<close>

definition instruction_info :: "ir \<Rightarrow> nat \<Rightarrow> InstructionInfo" where
  "instruction_info s i =
     \<lparr>ii_instr = Some i, is_critical = is_critical_instruction s (Some i),
      is_terminator = (opcode (insts s i) = IR_OP_RET \<or> opcode (insts s i) = IR_OP_BR),
      is_phi = (opcode (insts s i) = IR_OP_PHI)\<rparr>"

definition initialize_instruction_info ::
  "ir \<Rightarrow> nat \<Rightarrow> int \<Rightarrow> adce_arrays \<Rightarrow> error + (InstructionInfo list \<times> adce_arrays)" where
  "initialize_instruction_info s f total_instructions L =
     (if \<not> list_all (\<lambda>bb. in_bounds (n_blocks L) (post_order_id (bbs s bb))) (blocks (funcs s f))
         \<or> length (function_instrs s f) > nat total_instructions
      then Inl OutOfBounds
      else Inr (map (instruction_info s) (function_instrs s f),
                L\<lparr>block_info :=
                     fold (\<lambda>bb B. B(post_order_id (bbs s bb) :=
                                       \<lparr>bi_bb = Some bb, bi_is_live = False,
                                        live_instruction_count = 0,
                                        total_instruction_count = int (length (instrs (bbs s bb)))\<rparr>))
                          (blocks (funcs s f)) (block_info L)\<rparr>))"

definition mark_instruction_live ::
  "nat option \<Rightarrow> adce_arrays \<Rightarrow> ir \<Rightarrow> error + (adce_arrays \<times> ir)" where
  "mark_instruction_live instr L s =
     (case instr of
        None \<Rightarrow> Inr (L, s)
      | Some i \<Rightarrow>
          if is_live (insts s i) then Inr (L, s)
          else
            (let s1 = upd_instruction i (\<lambda>x. x\<lparr>is_live := True\<rparr>) s;
                 L1 = L\<lparr>adce_wl := worklist_add (adce_wl L) (Some i)\<rparr>
             in case parent (insts s1 i) of
                  None \<Rightarrow> Inr (L1, s1)
                | Some b \<Rightarrow>
                    (let block_id = post_order_id (bbs s1 b)
                     in if \<not> in_bounds (n_blocks L1) block_id then Inl OutOfBounds
                        else
                          (let L2 = (if \<not> live_blocks L1 block_id
                                     then L1\<lparr>live_blocks := (live_blocks L1)(block_id := True),
                                             block_info := (block_info L1)
                                               (block_id := (block_info L1 block_id)\<lparr>bi_is_live := True\<rparr>)\<rparr>
                                     else L1)
                           in Inr (L2\<lparr>block_info := (block_info L2)
                                        (block_id := (block_info L2 block_id)
                                           \<lparr>live_instruction_count :=
                                              live_instruction_count (block_info L2 block_id) + 1\<rparr>)\<rparr>,
                                   s1)))))"

text \<open>
  \<open>propagate_data_flow_liveness\<close> reads \<open>op->data.value\<close> of every operand, whatever its
  kind.  For an operand that holds a basic block (the targets of a \<open>br\<close>) this reads the
  bytes of an \<open>IRBasicBlock\<close> as an \<open>IRValue\<close>; what comes out depends on the layout, so it
  is a parameter \<open>V\<close> of the pass: \<open>V s b\<close> is the \<open>IRValue\<close> read at the address of block \<open>b\<close>.
\<close>

type_synonym block_as_value = "ir \<Rightarrow> nat \<Rightarrow> IRValue"

definition operand_as_value :: "block_as_value \<Rightarrow> ir \<Rightarrow> nat \<Rightarrow> IRValue option" where
  "operand_as_value V s p =
     (case data (opnds s p) of
        None \<Rightarrow> None
      | Some d \<Rightarrow>
          (case op_kind (opnds s p) of
             IR_OP_KIND_VALUE \<Rightarrow> Some (vals s d)
           | IR_OP_KIND_BASIC_BLOCK \<Rightarrow> Some (V s d)))"

definition mark_definition_live ::
  "block_as_value \<Rightarrow> nat \<Rightarrow> adce_arrays \<Rightarrow> ir \<Rightarrow> error + (adce_arrays \<times> ir)" where
  "mark_definition_live V p L s =
     (case operand_as_value V s p of
        None \<Rightarrow> Inr (L, s)
      | Some val \<Rightarrow>
          if \<not> is_constant val \<and> def_instr val \<noteq> None
          then mark_instruction_live (def_instr val) L s
          else Inr (L, s))"

fun phi_data_flow ::
  "block_as_value \<Rightarrow> nat list \<Rightarrow> adce_arrays \<Rightarrow> ir \<Rightarrow> error + (adce_arrays \<times> ir)" where
  "phi_data_flow V (p # op_block # rest) L s =
     (if op_kind (opnds s op_block) = IR_OP_KIND_BASIC_BLOCK
      then (case data (opnds s op_block) of
              None \<Rightarrow> Inl NullPointer
            | Some pred_bb \<Rightarrow>
                if \<not> in_bounds (n_blocks L) (post_order_id (bbs s pred_bb)) then Inl OutOfBounds
                else if live_blocks L (post_order_id (bbs s pred_bb))
                then (case mark_definition_live V p L s of
                        Inl e \<Rightarrow> Inl e
                      | Inr (L1, s1) \<Rightarrow> phi_data_flow V rest L1 s1)
                else phi_data_flow V rest L s)
      else phi_data_flow V rest L s)"
| "phi_data_flow V ps L s = Inr (L, s)"

fun mark_operand_definitions ::
  "block_as_value \<Rightarrow> nat list \<Rightarrow> adce_arrays \<Rightarrow> ir \<Rightarrow> error + (adce_arrays \<times> ir)" where
  "mark_operand_definitions V [] L s = Inr (L, s)"
| "mark_operand_definitions V (p # rest) L s =
     (case mark_definition_live V p L s of
        Inl e \<Rightarrow> Inl e
      | Inr (L1, s1) \<Rightarrow> mark_operand_definitions V rest L1 s1)"

definition propagate_data_flow_liveness ::
  "block_as_value \<Rightarrow> nat option \<Rightarrow> adce_arrays \<Rightarrow> ir \<Rightarrow> error + (adce_arrays \<times> ir)" where
  "propagate_data_flow_liveness V instr L s =
     (case instr of
        None \<Rightarrow> Inr (L, s)
      | Some i \<Rightarrow>
          if opcode (insts s i) = IR_OP_PHI
          then phi_data_flow V (operand_list (insts s i)) L s
          else mark_operand_definitions V (operand_list (insts s i)) L s)"

fun mark_predecessor_tails ::
  "nat list \<Rightarrow> adce_arrays \<Rightarrow> ir \<Rightarrow> error + (adce_arrays \<times> ir)" where
  "mark_predecessor_tails [] L s = Inr (L, s)"
| "mark_predecessor_tails (pred_bb # rest) L s =
     (case mark_instruction_live (bb_tail s pred_bb) L s of
        Inl e \<Rightarrow> Inl e
      | Inr (L1, s1) \<Rightarrow> mark_predecessor_tails rest L1 s1)"

definition propagate_control_flow_liveness ::
  "nat option \<Rightarrow> adce_arrays \<Rightarrow> ir \<Rightarrow> error + (adce_arrays \<times> ir)" where
  "propagate_control_flow_liveness bb L s =
     (case bb of
        None \<Rightarrow> Inr (L, s)
      | Some b \<Rightarrow>
          (let block_id = post_order_id (bbs s b)
           in if \<not> in_bounds (n_blocks L) block_id then Inl OutOfBounds
              else if \<not> live_blocks L block_id
              then mark_predecessor_tails (predecessors (bbs s b))
                     (L\<lparr>live_blocks := (live_blocks L)(block_id := True),
                        block_info := (block_info L)
                          (block_id := (block_info L block_id)\<lparr>bi_is_live := True\<rparr>)\<rparr>) s
              else Inr (L, s)))"

text \<open>The worklist loop of \<open>run_adce\<close>; the first argument is what is left of
  \<open>max_iterations\<close>.\<close>

fun adce_loop ::
  "nat \<Rightarrow> block_as_value \<Rightarrow> adce_arrays \<Rightarrow> ir \<Rightarrow> error + (adce_arrays \<times> ir)" where
  "adce_loop 0 V L s = Inr (L, s)"
| "adce_loop (Suc k) V L s =
     (case worklist_pop (adce_wl L) of
        (None, _) \<Rightarrow> Inr (L, s)
      | (Some live_instr, wl') \<Rightarrow>
          (case propagate_data_flow_liveness V (Some live_instr) (L\<lparr>adce_wl := wl'\<rparr>) s of
             Inl e \<Rightarrow> Inl e
           | Inr (L1, s1) \<Rightarrow>
               (case parent (insts s1 live_instr) of
                  None \<Rightarrow> adce_loop k V L1 s1
                | Some b \<Rightarrow>
                    (case propagate_control_flow_liveness (Some b) L1 s1 of
                       Inl e \<Rightarrow> Inl e
                     | Inr (L2, s2) \<Rightarrow> adce_loop k V L2 s2))))"

text \<open>The sweep.  \<open>next_instr\<close> is read before \<open>instr\<close> is erased, and erasing unlinks
  \<open>instr\<close> alone, so the loop runs over the instructions that the block holds when the
  loop reaches it.  The result says whether an instruction was found dead.\<close>

fun sweep_instrs :: "nat \<Rightarrow> nat list \<Rightarrow> bool \<Rightarrow> ir \<Rightarrow> error + (bool \<times> ir)" where
  "sweep_instrs n [] ch s = Inr (ch, s)"
| "sweep_instrs n (i # rest) ch s =
     (if \<not> is_live (insts s i)
      then (case erase_instruction n (Some i) s of
              Inl e \<Rightarrow> Inl e
            | Inr s1 \<Rightarrow> sweep_instrs n rest True s1)
      else sweep_instrs n rest ch s)"

fun sweep_blocks :: "nat \<Rightarrow> nat list \<Rightarrow> bool \<Rightarrow> ir \<Rightarrow> error + (bool \<times> ir)" where
  "sweep_blocks n [] ch s = Inr (ch, s)"
| "sweep_blocks n (bb # rest) ch s =
     (case sweep_instrs n (instrs (bbs s bb)) ch s of
        Inl e \<Rightarrow> Inl e
      | Inr (ch1, s1) \<Rightarrow> sweep_blocks n rest ch1 s1)"

text \<open>The loops of \<open>run_adce\<close> that set every instruction of the function dead and that
  mark the critical ones: the \<open>k\<close>-th instruction is marked when \<open>instr_info[k].is_critical\<close>
  is set.\<close>

definition clear_liveness :: "nat \<Rightarrow> ir \<Rightarrow> ir" where
  "clear_liveness f s =
     fold (\<lambda>i. upd_instruction i (\<lambda>x. x\<lparr>is_live := False\<rparr>)) (function_instrs s f) s"

fun mark_critical_instructions ::
  "(InstructionInfo \<times> nat) list \<Rightarrow> adce_arrays \<Rightarrow> ir \<Rightarrow> error + (adce_arrays \<times> ir)" where
  "mark_critical_instructions [] L s = Inr (L, s)"
| "mark_critical_instructions ((ii, i) # rest) L s =
     (if is_critical ii
      then (case mark_instruction_live (Some i) L s of
              Inl e \<Rightarrow> Inl e
            | Inr (L1, s1) \<Rightarrow> mark_critical_instructions rest L1 s1)
      else mark_critical_instructions rest L s)"

text \<open>\<open>run_adce\<close>.  The first argument bounds the pointer walks of \<open>erase_instruction\<close>.\<close>

definition run_adce :: "nat \<Rightarrow> block_as_value \<Rightarrow> nat option \<Rightarrow> ir \<Rightarrow> error + (bool \<times> ir)" where
  "run_adce n V fn s =
     (case fn of
        None \<Rightarrow> Inr (False, s)
      | Some f \<Rightarrow>
          if entry (funcs s f) = None then Inr (False, s)
          else if module (funcs s f) = None then Inl NullPointer
          else
            (let s0 = (if instruction_count (funcs s f) = 0
                       then recalculate_instruction_count (Some f) s else s);
                 total_instructions = instruction_count (funcs s0 f)
             in case initialize_instruction_info s0 f total_instructions
                       \<lparr>adce_wl = [], n_blocks = block_count (funcs s0 f),
                        live_blocks = (\<lambda>_. False), block_info = (\<lambda>_. zeroed_BlockInfo)\<rparr> of
                  Inl e \<Rightarrow> Inl e
                | Inr (instr_info, L0) \<Rightarrow>
                    (let s1 = clear_liveness f s0
                     in case mark_critical_instructions
                               (zip instr_info (function_instrs s1 f)) L0 s1 of
                          Inl e \<Rightarrow> Inl e
                        | Inr (L, s2) \<Rightarrow>
                            (case adce_loop (nat (total_instructions * 2)) V L s2 of
                               Inl e \<Rightarrow> Inl e
                             | Inr (L', s3) \<Rightarrow>
                                 sweep_blocks n (blocks (funcs s3 f)) False s3))))"

subsection \<open>What the marking and the removal of operands leave alone\<close>







section \<open>Dominator analysis (src/ir/analysis/dominators.c, src/ir/ir_utils.c)\<close>

unbundle bit_operations_syntax

subsection \<open>Bit sets\<close>

text \<open>A \<open>BitSet\<close> is an array of \<open>num_words\<close> words of 64 bits.  C's \<open>/\<close> and \<open>%\<close> on \<open>int\<close>
  are \<open>sdiv\<close> and \<open>smod\<close>.\<close>

record BitSet =
  num_words :: int
  words :: "64 word list"

definition bitset_create :: "int \<Rightarrow> BitSet" where
  "bitset_create num_elements =
     (let n = (num_elements + 63) sdiv 64 in \<lparr>num_words = n, words = replicate (nat n) 0\<rparr>)"

definition bitset_add :: "BitSet \<Rightarrow> int \<Rightarrow> BitSet" where
  "bitset_add bs elem =
     (if elem < 0 then bs
      else (let word_index = elem sdiv 64; bit_index = elem smod 64
            in if word_index \<ge> num_words bs then bs
               else bs\<lparr>words := (words bs)[nat word_index :=
                          (words bs ! nat word_index) OR push_bit (nat bit_index) 1]\<rparr>))"

definition bitset_contains :: "BitSet \<Rightarrow> int \<Rightarrow> bool" where
  "bitset_contains bs elem =
     (if elem < 0 then False
      else (let word_index = elem sdiv 64; bit_index = elem smod 64
            in if word_index \<ge> num_words bs then False
               else (words bs ! nat word_index) AND push_bit (nat bit_index) 1 \<noteq> 0))"

text \<open>\<open>memcpy\<close> and \<open>memset\<close> on the first \<open>n\<close> words of an array.\<close>

definition memcpy_words :: "nat \<Rightarrow> 64 word list \<Rightarrow> 64 word list \<Rightarrow> 64 word list" where
  "memcpy_words n dst src = take n src @ drop n dst"

definition memset_words :: "nat \<Rightarrow> 64 word \<Rightarrow> 64 word list \<Rightarrow> 64 word list" where
  "memset_words n w dst = replicate (min n (length dst)) w @ drop n dst"

definition bitset_copy :: "BitSet \<Rightarrow> BitSet \<Rightarrow> BitSet" where
  "bitset_copy dst src =
     (if num_words dst \<noteq> num_words src
      then (let min_words = min (num_words dst) (num_words src)
            in if min_words > 0
               then dst\<lparr>words := memcpy_words (nat min_words) (words dst) (words src)\<rparr>
               else dst)
      else if num_words dst > 0
           then dst\<lparr>words := memcpy_words (nat (num_words dst)) (words dst) (words src)\<rparr>
           else dst)"

definition bitset_intersect :: "BitSet \<Rightarrow> BitSet \<Rightarrow> error + BitSet" where
  "bitset_intersect dst src =
     (if num_words dst \<noteq> num_words src then Inl AssertionFailed
      else Inr (dst\<lparr>words := map2 (AND) (words dst) (words src)\<rparr>))"

definition bitset_equals :: "BitSet \<Rightarrow> BitSet \<Rightarrow> error + bool" where
  "bitset_equals bs1 bs2 =
     (if num_words bs1 \<noteq> num_words bs2 then Inl AssertionFailed
      else Inr (take (nat (num_words bs1)) (words bs1) = take (nat (num_words bs1)) (words bs2)))"

definition bitset_set_all :: "BitSet \<Rightarrow> int \<Rightarrow> error + BitSet" where
  "bitset_set_all bs num_elements =
     (let n = (num_elements + 63) sdiv 64
      in if n > num_words bs then Inl AssertionFailed
         else (let ws = memset_words (nat n) (- 1) (words bs);
                   remaining_bits = num_elements smod 64
               in if remaining_bits > 0 \<and> n > 0
                  then Inr (bs\<lparr>words := ws[nat (n - 1) :=
                                 (ws ! nat (n - 1)) AND (push_bit (nat remaining_bits) 1 - 1)]\<rparr>)
                  else Inr (bs\<lparr>words := ws\<rparr>)))"

subsection \<open>The analysis\<close>

text \<open>
  The context of one run.  \<open>post_order\<close> and \<open>reverse_post_order\<close> are the two arrays of
  blocks as lists; \<open>dom_sets\<close>, an array of bit sets indexed by \<open>post_order_id\<close>, is a total
  function.
\<close>

record DominatorContext =
  dc_func :: nat
  dc_post_order :: "nat list"
  dc_reverse_post_order :: "nat list"
  dc_block_count :: int
  dom_sets :: "int \<Rightarrow> BitSet"

text \<open>\<open>dfs_visit\<close>, with the loop over the successors as \<open>dfs_successors\<close>.  The first
  argument bounds the depth of the recursion.  \<open>post_order_list[(*count)++] = block\<close>
  appends to the list.\<close>

fun dfs_visit :: "nat \<Rightarrow> ir \<Rightarrow> nat \<Rightarrow> (int \<Rightarrow> bool) \<times> nat list \<Rightarrow> error + ((int \<Rightarrow> bool) \<times> nat list)"
  and dfs_successors :: "nat \<Rightarrow> ir \<Rightarrow> nat list \<Rightarrow> (int \<Rightarrow> bool) \<times> nat list \<Rightarrow> error + ((int \<Rightarrow> bool) \<times> nat list)"
where
  "dfs_visit 0 s block st = Inl OutOfFuel"
| "dfs_visit (Suc n) s block st =
     (case dfs_successors n s (successors (bbs s block))
             ((fst st)(post_order_id (bbs s block) := True), snd st) of
        Inl e \<Rightarrow> Inl e
      | Inr st1 \<Rightarrow> Inr (fst st1, snd st1 @ [block]))"
| "dfs_successors n s [] st = Inr st"
| "dfs_successors n s (succ # rest) st =
     (if \<not> fst st (post_order_id (bbs s succ))
      then (case dfs_visit n s succ st of
              Inl e \<Rightarrow> Inl e
            | Inr st1 \<Rightarrow> dfs_successors n s rest st1)
      else dfs_successors n s rest st)"

definition perform_post_order_traversal ::
  "nat \<Rightarrow> DominatorContext \<Rightarrow> ir \<Rightarrow> error + (DominatorContext \<times> ir)" where
  "perform_post_order_traversal n ctx s =
     (case entry (funcs s (dc_func ctx)) of
        None \<Rightarrow> Inl NullPointer
      | Some e \<Rightarrow>
          (case dfs_visit n s e ((\<lambda>_. False), []) of
             Inl err \<Rightarrow> Inl err
           | Inr (visited, po) \<Rightarrow>
               if int (length po) \<noteq> dc_block_count ctx then Inl AssertionFailed
               else Inr (ctx\<lparr>dc_post_order := po, dc_reverse_post_order := rev po\<rparr>,
                         upd_function (dc_func ctx) (\<lambda>x. x\<lparr>reverse_post_order := Some (rev po)\<rparr>)
                           (fold (\<lambda>(bb, i) s1. upd_block bb (\<lambda>x. x\<lparr>post_order_id := int i\<rparr>) s1)
                                 (zip po [0..<length po]) s))))"


text \<open>
  \<open>compute_dominator_sets\<close>.  \<open>new_dominator_set\<close> is what the body of the loop leaves in
  \<open>temp_set\<close> for a block \<open>b\<close>; \<open>dominator_pass\<close> is one run of the \<open>for\<close> loop over the reverse
  post-order, and \<open>dominator_fixpoint\<close> the \<open>while (changed)\<close> loop, its first argument
  bounding the number of passes.
\<close>

fun intersect_predecessors ::
  "DominatorContext \<Rightarrow> ir \<Rightarrow> nat list \<Rightarrow> BitSet \<Rightarrow> error + BitSet" where
  "intersect_predecessors ctx s [] temp_set = Inr temp_set"
| "intersect_predecessors ctx s (p # ps) temp_set =
     (case bitset_intersect temp_set (dom_sets ctx (post_order_id (bbs s p))) of
        Inl e \<Rightarrow> Inl e
      | Inr t \<Rightarrow> intersect_predecessors ctx s ps t)"

definition new_dominator_set :: "DominatorContext \<Rightarrow> ir \<Rightarrow> nat \<Rightarrow> BitSet \<Rightarrow> error + BitSet" where
  "new_dominator_set ctx s b temp_set =
     (case (case predecessors (bbs s b) of
              [] \<Rightarrow> Inr (temp_set\<lparr>words := memset_words (nat (num_words temp_set)) 0 (words temp_set)\<rparr>)
            | p # ps \<Rightarrow>
                intersect_predecessors ctx s ps
                  (bitset_copy temp_set (dom_sets ctx (post_order_id (bbs s p))))) of
        Inl e \<Rightarrow> Inl e
      | Inr t \<Rightarrow> Inr (bitset_add t (post_order_id (bbs s b))))"

fun dominator_pass ::
  "ir \<Rightarrow> nat \<Rightarrow> nat list \<Rightarrow> DominatorContext \<times> BitSet \<times> bool \<Rightarrow>
   error + (DominatorContext \<times> BitSet \<times> bool)" where
  "dominator_pass s e [] st = Inr st"
| "dominator_pass s e (b # rest) (ctx, temp_set, chg) =
     (if b = e then dominator_pass s e rest (ctx, temp_set, chg)
      else (case new_dominator_set ctx s b temp_set of
              Inl err \<Rightarrow> Inl err
            | Inr t \<Rightarrow>
                (let b_id = post_order_id (bbs s b)
                 in case bitset_equals (dom_sets ctx b_id) t of
                      Inl err \<Rightarrow> Inl err
                    | Inr same \<Rightarrow>
                        if \<not> same
                        then dominator_pass s e rest
                               (ctx\<lparr>dom_sets := (dom_sets ctx)(b_id := bitset_copy (dom_sets ctx b_id) t)\<rparr>,
                                t, True)
                        else dominator_pass s e rest (ctx, t, chg))))"

fun dominator_fixpoint ::
  "nat \<Rightarrow> ir \<Rightarrow> nat \<Rightarrow> DominatorContext \<Rightarrow> BitSet \<Rightarrow> error + DominatorContext" where
  "dominator_fixpoint 0 s e ctx temp_set = Inl OutOfFuel"
| "dominator_fixpoint (Suc n) s e ctx temp_set =
     (case dominator_pass s e (dc_reverse_post_order ctx) (ctx, temp_set, False) of
        Inl err \<Rightarrow> Inl err
      | Inr (ctx1, t, chg) \<Rightarrow>
          if chg then dominator_fixpoint n s e ctx1 t else Inr ctx1)"

fun set_all_but_entry :: "ir \<Rightarrow> nat \<Rightarrow> nat list \<Rightarrow> DominatorContext \<Rightarrow> error + DominatorContext" where
  "set_all_but_entry s e [] ctx = Inr ctx"
| "set_all_but_entry s e (bb # rest) ctx =
     (if bb \<noteq> e
      then (case bitset_set_all (dom_sets ctx (post_order_id (bbs s bb))) (dc_block_count ctx) of
              Inl err \<Rightarrow> Inl err
            | Inr t \<Rightarrow>
                set_all_but_entry s e rest
                  (ctx\<lparr>dom_sets := (dom_sets ctx)(post_order_id (bbs s bb) := t)\<rparr>))
      else set_all_but_entry s e rest ctx)"

definition compute_dominator_sets :: "nat \<Rightarrow> DominatorContext \<Rightarrow> ir \<Rightarrow> error + DominatorContext" where
  "compute_dominator_sets n ctx s =
     (case entry (funcs s (dc_func ctx)) of
        None \<Rightarrow> Inl NullPointer
      | Some e \<Rightarrow>
          (let entry_id = post_order_id (bbs s e);
               ctx1 = ctx\<lparr>dom_sets := (dom_sets ctx)
                          (entry_id := bitset_add (dom_sets ctx entry_id) entry_id)\<rparr>
           in case set_all_but_entry s e (dc_post_order ctx1) ctx1 of
                Inl err \<Rightarrow> Inl err
              | Inr ctx2 \<Rightarrow>
                  dominator_fixpoint n s e ctx2 (bitset_create (dc_block_count ctx2))))"

text \<open>\<open>compute_immediate_dominators\<close>: of the blocks in the dominator set of \<open>b\<close> other
  than \<open>b\<close>, the one with the greatest \<open>post_order_id\<close>.\<close>

definition greatest_dominator_id :: "BitSet \<Rightarrow> int \<Rightarrow> int \<Rightarrow> int" where
  "greatest_dominator_id b_doms b_id bc =
     fold (\<lambda>dom_candidate_id idom_id.
             if dom_candidate_id = b_id then idom_id
             else if bitset_contains b_doms dom_candidate_id
                     \<and> (idom_id = - 1 \<or> dom_candidate_id > idom_id)
                  then dom_candidate_id else idom_id)
          (map int [0..<nat bc]) (- 1)"

fun immediate_dominators :: "DominatorContext \<Rightarrow> nat option \<Rightarrow> nat list \<Rightarrow> ir \<Rightarrow> error + ir" where
  "immediate_dominators ctx e [] s = Inr s"
| "immediate_dominators ctx e (b # rest) s =
     (let s1 = upd_block b (\<lambda>x. x\<lparr>idom := None\<rparr>) s
      in if Some b = e then immediate_dominators ctx e rest s1
         else (let b_id = post_order_id (bbs s1 b);
                   idom_id = greatest_dominator_id (dom_sets ctx b_id) b_id (dc_block_count ctx)
               in if idom_id = - 1 then Inl AssertionFailed
                  else if \<not> (idom_id \<ge> 0 \<and> idom_id < dc_block_count ctx) then Inl AssertionFailed
                  else immediate_dominators ctx e rest
                         (upd_block b (\<lambda>x. x\<lparr>idom := Some (dc_post_order ctx ! nat idom_id)\<rparr>) s1)))"

definition compute_immediate_dominators :: "DominatorContext \<Rightarrow> ir \<Rightarrow> error + ir" where
  "compute_immediate_dominators ctx s =
     immediate_dominators ctx (entry (funcs s (dc_func ctx))) (dc_reverse_post_order ctx) s"

text \<open>\<open>build_dominator_tree\<close>: the three passes count, allocate and fill the arrays
  \<open>dom_children\<close>; a block ends with its children in the order of the block list.\<close>

definition build_dominator_tree :: "DominatorContext \<Rightarrow> ir \<Rightarrow> ir" where
  "build_dominator_tree ctx s =
     (let bs = blocks (funcs s (dc_func ctx));
          s1 = fold (\<lambda>bb. upd_block bb (\<lambda>x. x\<lparr>dom_children := []\<rparr>)) bs s
      in fold (\<lambda>bb s2. case idom (bbs s2 bb) of
                          None \<Rightarrow> s2
                        | Some p \<Rightarrow> upd_block p (\<lambda>x. x\<lparr>dom_children := dom_children x @ [bb]\<rparr>) s2)
              bs s1)"

text \<open>\<open>compute_dominance_frontiers\<close>.  \<open>frontier_runner\<close> is the \<open>while (runner != b->idom)\<close>
  loop, its first argument bounding the number of steps.\<close>

fun frontier_runner ::
  "nat \<Rightarrow> ir \<Rightarrow> nat \<Rightarrow> nat option \<Rightarrow> (int \<Rightarrow> BitSet) \<Rightarrow> error + (int \<Rightarrow> BitSet)" where
  "frontier_runner 0 s b runner df_sets = Inl OutOfFuel"
| "frontier_runner (Suc n) s b runner df_sets =
     (if runner = idom (bbs s b) then Inr df_sets
      else (case runner of
              None \<Rightarrow> Inl AssertionFailed
            | Some r \<Rightarrow>
                frontier_runner n s b (idom (bbs s r))
                  (df_sets(post_order_id (bbs s r) :=
                     bitset_add (df_sets (post_order_id (bbs s r))) (post_order_id (bbs s b))))))"

fun frontier_predecessors ::
  "nat \<Rightarrow> ir \<Rightarrow> nat \<Rightarrow> nat list \<Rightarrow> (int \<Rightarrow> BitSet) \<Rightarrow> error + (int \<Rightarrow> BitSet)" where
  "frontier_predecessors n s b [] df_sets = Inr df_sets"
| "frontier_predecessors n s b (p # ps) df_sets =
     (case frontier_runner n s b (Some p) df_sets of
        Inl e \<Rightarrow> Inl e
      | Inr d \<Rightarrow> frontier_predecessors n s b ps d)"

fun frontier_blocks ::
  "nat \<Rightarrow> ir \<Rightarrow> nat list \<Rightarrow> (int \<Rightarrow> BitSet) \<Rightarrow> error + (int \<Rightarrow> BitSet)" where
  "frontier_blocks n s [] df_sets = Inr df_sets"
| "frontier_blocks n s (b # rest) df_sets =
     (if length (predecessors (bbs s b)) < 2 then frontier_blocks n s rest df_sets
      else (case frontier_predecessors n s b (predecessors (bbs s b)) df_sets of
              Inl e \<Rightarrow> Inl e
            | Inr d \<Rightarrow> frontier_blocks n s rest d))"

definition compute_dominance_frontiers :: "nat \<Rightarrow> DominatorContext \<Rightarrow> ir \<Rightarrow> error + ir" where
  "compute_dominance_frontiers n ctx s =
     (case frontier_blocks n s (dc_reverse_post_order ctx)
             (\<lambda>_. bitset_create (dc_block_count ctx)) of
        Inl e \<Rightarrow> Inl e
      | Inr df_sets \<Rightarrow>
          Inr (fold (\<lambda>(b, i) s1.
                       upd_block b
                         (\<lambda>x. x\<lparr>dom_frontier :=
                                   map (\<lambda>k. dc_post_order ctx ! nat k)
                                       (filter (bitset_contains (df_sets (int i)))
                                               (map int [0..<nat (dc_block_count ctx)]))\<rparr>) s1)
                    (zip (dc_post_order ctx) [0..<length (dc_post_order ctx)]) s))"

text \<open>\<open>dfs_dom_tree\<close> and \<open>compute_dom_tree_timestamps\<close> (src/ir/ir_utils.c); the first
  argument bounds the depth of the recursion.\<close>

fun dfs_dom_tree :: "nat \<Rightarrow> nat option \<Rightarrow> int \<Rightarrow> ir \<Rightarrow> error + (int \<times> ir)"
  and dfs_dom_children :: "nat \<Rightarrow> nat list \<Rightarrow> int \<Rightarrow> ir \<Rightarrow> error + (int \<times> ir)"
where
  "dfs_dom_tree 0 bb time s = Inl OutOfFuel"
| "dfs_dom_tree (Suc n) None time s = Inr (time, s)"
| "dfs_dom_tree (Suc n) (Some b) time s =
     (let s1 = upd_block b (\<lambda>x. x\<lparr>dom_tin := time\<rparr>) s
      in case dfs_dom_children n (dom_children (bbs s1 b)) (time + 1) s1 of
           Inl e \<Rightarrow> Inl e
         | Inr (t, s2) \<Rightarrow> Inr (t + 1, upd_block b (\<lambda>x. x\<lparr>dom_tout := t\<rparr>) s2))"
| "dfs_dom_children n [] time s = Inr (time, s)"
| "dfs_dom_children n (c # rest) time s =
     (case dfs_dom_tree n (Some c) time s of
        Inl e \<Rightarrow> Inl e
      | Inr (t, s1) \<Rightarrow> dfs_dom_children n rest t s1)"

definition compute_dom_tree_timestamps :: "nat \<Rightarrow> nat option \<Rightarrow> ir \<Rightarrow> error + ir" where
  "compute_dom_tree_timestamps n fn s =
     (case fn of
        None \<Rightarrow> Inr s
      | Some f \<Rightarrow>
          if entry (funcs s f) = None then Inr s
          else map_sum id snd (dfs_dom_tree n (entry (funcs s f)) 0 s))"

text \<open>\<open>compute_dominators\<close>.  The first argument bounds each of the loops and recursions
  that the source does not bound.\<close>

definition compute_dominators :: "nat \<Rightarrow> nat option \<Rightarrow> ir \<Rightarrow> error + ir" where
  "compute_dominators n fn s =
     (case fn of
        None \<Rightarrow> Inr s
      | Some f \<Rightarrow>
          if entry (funcs s f) = None then Inr s
          else if module (funcs s f) = None then Inl AssertionFailed
          else
            (let bc = block_count (funcs s f);
                 s1 = fold (\<lambda>(bb, i) s1. upd_block bb (\<lambda>x. x\<lparr>post_order_id := int i\<rparr>) s1)
                           (zip (blocks (funcs s f)) [0..<length (blocks (funcs s f))]) s;
                 ctx = \<lparr>dc_func = f, dc_post_order = [], dc_reverse_post_order = [],
                        dc_block_count = bc, dom_sets = (\<lambda>_. bitset_create bc)\<rparr>
             in case perform_post_order_traversal n ctx s1 of
                  Inl e \<Rightarrow> Inl e
                | Inr (ctx1, s2) \<Rightarrow>
                    (case compute_dominator_sets n ctx1 s2 of
                       Inl e \<Rightarrow> Inl e
                     | Inr ctx2 \<Rightarrow>
                         (case compute_immediate_dominators ctx2 s2 of
                            Inl e \<Rightarrow> Inl e
                          | Inr s3 \<Rightarrow>
                              (case compute_dominance_frontiers n ctx2 (build_dominator_tree ctx2 s3) of
                                 Inl e \<Rightarrow> Inl e
                               | Inr s4 \<Rightarrow> compute_dom_tree_timestamps n (Some f) s4)))))"

text \<open>\<open>dominates\<close> (src/ir/ir_utils.c): the query by time stamps.\<close>

definition dominates :: "ir \<Rightarrow> nat option \<Rightarrow> nat option \<Rightarrow> bool" where
  "dominates s dm use =
     (if dm = use then True
      else (case dm of
              None \<Rightarrow> False
            | Some a \<Rightarrow>
                (case use of
                   None \<Rightarrow> False
                 | Some b \<Rightarrow>
                     dom_tin (bbs s a) \<le> dom_tin (bbs s b) \<and> dom_tout (bbs s a) \<ge> dom_tout (bbs s b))))"

subsection \<open>Dominance on paths\<close>

text \<open>What the analysis is to compute, in the words of the definition: a path of the
  control-flow graph follows successor edges, and \<open>a\<close> dominates \<open>b\<close> when every path from
  the entry block to \<open>b\<close> passes through \<open>a\<close>.\<close>

fun cfg_path :: "ir \<Rightarrow> nat list \<Rightarrow> bool" where
  "cfg_path s [] = False"
| "cfg_path s [x] = True"
| "cfg_path s (x # y # rest) = (y \<in> set (successors (bbs s x)) \<and> cfg_path s (y # rest))"

definition dominates_on_paths :: "ir \<Rightarrow> nat \<Rightarrow> nat \<Rightarrow> nat \<Rightarrow> bool" where
  "dominates_on_paths s e a b =
     (\<forall>p. cfg_path s p \<and> hd p = e \<and> last p = b \<longrightarrow> a \<in> set p)"

text \<open>\<open>chain_example\<close>: a function of three blocks in a chain, \<open>entry -> A -> B\<close> (the blocks
  0, 1 and 2).  Only the edges of the control-flow graph are set: the analysis reads
  nothing else of a block.\<close>

definition chain_example :: ir where
  "chain_example = zeroed_ir
     \<lparr>bbs := (\<lambda>_. zeroed_IRBasicBlock)
         (0 := zeroed_IRBasicBlock\<lparr>bb_parent := Some 0, successors := [1]\<rparr>,
          1 := zeroed_IRBasicBlock\<lparr>bb_parent := Some 0, successors := [2], predecessors := [0]\<rparr>,
          2 := zeroed_IRBasicBlock\<lparr>bb_parent := Some 0, predecessors := [1]\<rparr>),
      funcs := (\<lambda>_. zeroed_IRFunction)
         (0 := zeroed_IRFunction\<lparr>entry := Some 0, blocks := [0, 1, 2], block_count := 3,
                 module := Some 0\<rparr>)\<rparr>"

section \<open>The IR builder (src/ir/ir_builder.c, src/ir/ir_utils.c)\<close>

record IRBuilder =
  b_module :: "nat option"
  current_func :: "nat option"
  current_bb :: "nat option"
  insert_point :: "nat option"
  temp_reg_count :: int
  label_count :: int

definition ir_builder_init :: "nat \<Rightarrow> ir \<Rightarrow> IRBuilder" where
  "ir_builder_init f s =
     \<lparr>b_module = module (funcs s f), current_func = Some f, current_bb = entry (funcs s f),
      insert_point = None, temp_reg_count = block_count (funcs s f) * 15,
      label_count = block_count (funcs s f)\<rparr>"

definition ir_builder_set_insertion_block_start ::
  "IRBuilder \<Rightarrow> nat option \<Rightarrow> ir \<Rightarrow> error + IRBuilder" where
  "ir_builder_set_insertion_block_start b bb s =
     (case bb of
        None \<Rightarrow> Inl AssertionFailed
      | Some blk \<Rightarrow>
          Inr (b\<lparr>current_bb := bb,
                 insert_point := (case instrs (bbs s blk) of [] \<Rightarrow> None | i # _ \<Rightarrow> Some i)\<rparr>))"

definition is_terminator_instruction :: "ir \<Rightarrow> nat option \<Rightarrow> bool" where
  "is_terminator_instruction s instr =
     (case instr of
        None \<Rightarrow> False
      | Some i \<Rightarrow> opcode (insts s i) = IR_OP_RET \<or> opcode (insts s i) = IR_OP_BR)"

text \<open>\<open>insert_instr_before\<close> links the new instruction in front of \<open>pos\<close> in the list of
  the block that \<open>pos\<close> names as its parent.\<close>

definition insert_instr_before :: "nat option \<Rightarrow> nat option \<Rightarrow> ir \<Rightarrow> error + ir" where
  "insert_instr_before new_instr pos s =
     (case pos of
        None \<Rightarrow> Inl AssertionFailed
      | Some p \<Rightarrow>
          (case parent (insts s p) of
             None \<Rightarrow> Inl AssertionFailed
           | Some bb \<Rightarrow>
               (case new_instr of
                  None \<Rightarrow> Inl AssertionFailed
                | Some i \<Rightarrow>
                    if parent (insts s i) \<noteq> None then Inl AssertionFailed
                    else Inr (upd_block bb
                                (\<lambda>x. x\<lparr>instrs := takeWhile (\<lambda>j. j \<noteq> p) (instrs x) @
                                                    i # dropWhile (\<lambda>j. j \<noteq> p) (instrs x)\<rparr>)
                                (upd_instruction i (\<lambda>x. x\<lparr>parent := Some bb\<rparr>) s)))))"

definition add_instr_to_bb_end :: "nat option \<Rightarrow> nat option \<Rightarrow> ir \<Rightarrow> error + ir" where
  "add_instr_to_bb_end bb instr s =
     (case bb of
        None \<Rightarrow> Inl AssertionFailed
      | Some blk \<Rightarrow>
          (case instr of
             None \<Rightarrow> Inl AssertionFailed
           | Some i \<Rightarrow>
               (case (if bb_tail s blk \<noteq> None \<and> is_terminator_instruction s (bb_tail s blk)
                      then insert_instr_before instr (bb_tail s blk) s
                      else Inr (upd_block blk (\<lambda>x. x\<lparr>instrs := instrs x @ [i]\<rparr>)
                                  (upd_instruction i (\<lambda>x. x\<lparr>parent := Some blk\<rparr>) s))) of
                  Inl e \<Rightarrow> Inl e
                | Inr s1 \<Rightarrow>
                    (case bb_parent (bbs s1 blk) of
                       None \<Rightarrow> Inr s1
                     | Some f \<Rightarrow>
                         Inr (upd_function f
                                (\<lambda>x. x\<lparr>instruction_count := instruction_count x + 1\<rparr>) s1)))))"

definition ir_builder_create_reg ::
  "IRBuilder \<Rightarrow> nat option \<Rightarrow> ir \<Rightarrow> error + (nat \<times> IRBuilder \<times> ir)" where
  "ir_builder_create_reg b ty s =
     (case b_module b of
        None \<Rightarrow> Inl NullPointer
      | Some m \<Rightarrow>
          (let (v, s1) = create_ir_value s
           in Inr (v, b\<lparr>temp_reg_count := temp_reg_count b + 1\<rparr>,
                   upd_value v (\<lambda>x. x\<lparr>is_constant := False, type := ty\<rparr>) s1)))"

text \<open>\<open>ir_builder_create_phi\<close> puts the new PHI in front of the first instruction of the
  builder's block that is not a PHI, or at the end of the block when there is none.\<close>

definition ir_builder_create_phi ::
  "IRBuilder \<Rightarrow> nat option \<Rightarrow> ir \<Rightarrow> error + (nat \<times> IRBuilder \<times> ir)" where
  "ir_builder_create_phi b ty s =
     (case b_module b of
        None \<Rightarrow> Inl NullPointer
      | Some m \<Rightarrow>
          (let (i, s1) = create_ir_instruction IR_OP_PHI s
           in case ir_builder_create_reg b ty s1 of
                Inl e \<Rightarrow> Inl e
              | Inr (v, b1, s2) \<Rightarrow>
                  (let s3 = upd_value v (\<lambda>x. x\<lparr>def_instr := Some i\<rparr>)
                              (upd_instruction i (\<lambda>x. x\<lparr>dest := Some v\<rparr>) s2)
                   in case current_bb b1 of
                        None \<Rightarrow> Inl NullPointer
                      | Some blk \<Rightarrow>
                          (case (case dropWhile (\<lambda>j. opcode (insts s3 j) = IR_OP_PHI)
                                                 (instrs (bbs s3 blk)) of
                                   [] \<Rightarrow> add_instr_to_bb_end (Some blk) (Some i) s3
                                 | first_non_phi # _ \<Rightarrow>
                                     insert_instr_before (Some i) (Some first_non_phi) s3) of
                             Inl e \<Rightarrow> Inl e
                           | Inr s4 \<Rightarrow> Inr (i, b1, s4)))))"

text \<open>\<open>ir_phi_add_incoming\<close>.  The comparison of the types only writes to the log.\<close>

definition ir_phi_add_incoming :: "nat option \<Rightarrow> nat option \<Rightarrow> nat option \<Rightarrow> ir \<Rightarrow> error + ir" where
  "ir_phi_add_incoming phi val pred s =
     (case phi of
        None \<Rightarrow> Inl AssertionFailed
      | Some i \<Rightarrow>
          if opcode (insts s i) \<noteq> IR_OP_PHI \<or> val = None \<or> pred = None then Inl AssertionFailed
          else if list_ex (\<lambda>p. op_kind (opnds s p) = IR_OP_KIND_BASIC_BLOCK \<and> data (opnds s p) = pred)
                          (operand_list (insts s i))
               then Inl AssertionFailed
               else (case add_value_operand i val s of
                       Inl e \<Rightarrow> Inl e
                     | Inr s1 \<Rightarrow> add_bb_operand i pred s1))"

definition cleanup_removed_instructions :: "nat \<Rightarrow> nat option \<Rightarrow> ir \<Rightarrow> error + ir" where
  "cleanup_removed_instructions n block s =
     (case block of
        None \<Rightarrow> Inr s
      | Some b \<Rightarrow>
          fold (\<lambda>i r. case r of
                        Inl e \<Rightarrow> Inl e
                      | Inr s1 \<Rightarrow>
                          if opcode (insts s1 i) = IR_OP_UNKNOWN
                          then erase_instruction n (Some i) s1 else Inr s1)
               (instrs (bbs s b)) (Inr s))"

section \<open>Promotion of memory to registers (src/ir/transforms/mem2reg.c)\<close>

record PromotableAlloca =
  alloca_instr :: nat
  alloca_val :: "nat option"
  defining_blocks :: BitSet
  phi_placement_blocks :: BitSet

text \<open>The context of the pass; \<open>promotable_count\<close> is the length of \<open>promotables\<close>.  A
  version stack is the list of its values, the top first.\<close>

record Mem2RegContext =
  m2r_func :: nat
  promotables :: "PromotableAlloca list"
  builder :: IRBuilder
  undef_val :: "nat option"

type_synonym VersionStack = "nat option list"

text \<open>\<open>is_alloca_promotable\<close>.  \<open>promotable_uses\<close> is its loop over the use list of the
  address; the first argument bounds the length of the walk.\<close>

fun promotable_uses :: "nat \<Rightarrow> ir \<Rightarrow> nat option \<Rightarrow> error + bool" where
  "promotable_uses 0 s use = Inl OutOfFuel"
| "promotable_uses (Suc n) s None = Inr True"
| "promotable_uses (Suc n) s (Some u) =
     (case user (opnds s u) of
        None \<Rightarrow> Inl NullPointer
      | Some usr \<Rightarrow>
          if opcode (insts s usr) = IR_OP_LOAD then promotable_uses n s (next_use (opnds s u))
          else if opcode (insts s usr) = IR_OP_STORE
          then (case operand_list (insts s usr) of
                  [] \<Rightarrow> Inl NullPointer
                | [a] \<Rightarrow> Inr False
                | a # b # _ \<Rightarrow>
                    if u = b then promotable_uses n s (next_use (opnds s u)) else Inr False)
          else Inr False)"

definition is_alloca_promotable :: "nat \<Rightarrow> ir \<Rightarrow> nat \<Rightarrow> error + bool" where
  "is_alloca_promotable n s a =
     (case dest (insts s a) of
        None \<Rightarrow> Inl NullPointer
      | Some d \<Rightarrow>
          (case type (vals s d) of
             None \<Rightarrow> Inl NullPointer
           | Some t \<Rightarrow>
               (case element_type (tys s t) of
                  None \<Rightarrow> Inl NullPointer
                | Some allocated_type \<Rightarrow>
                    if kind (tys s allocated_type) = TYPE_ARRAY then Inr False
                    else promotable_uses n s (use_list_head (vals s d)))))"

text \<open>\<open>analyze_allocas\<close>: the allocas that lead the entry block and are promotable, in
  their order, each with the set of the blocks that store to it.\<close>

fun collect_promotable :: "nat \<Rightarrow> ir \<Rightarrow> nat list \<Rightarrow> Worklist \<Rightarrow> error + Worklist" where
  "collect_promotable n s [] wl = Inr wl"
| "collect_promotable n s (i # rest) wl =
     (if opcode (insts s i) = IR_OP_ALLOCA
      then (case is_alloca_promotable n s i of
              Inl e \<Rightarrow> Inl e
            | Inr ok \<Rightarrow>
                collect_promotable n s rest (if ok then worklist_add wl (Some i) else wl))
      else Inr wl)"

fun collect_defining_blocks :: "nat \<Rightarrow> ir \<Rightarrow> nat option \<Rightarrow> BitSet \<Rightarrow> error + BitSet" where
  "collect_defining_blocks 0 s use bs = Inl OutOfFuel"
| "collect_defining_blocks (Suc n) s None bs = Inr bs"
| "collect_defining_blocks (Suc n) s (Some u) bs =
     (case user (opnds s u) of
        None \<Rightarrow> Inl NullPointer
      | Some usr \<Rightarrow>
          if opcode (insts s usr) = IR_OP_STORE
          then (case parent (insts s usr) of
                  None \<Rightarrow> Inl NullPointer
                | Some b \<Rightarrow>
                    collect_defining_blocks n s (next_use (opnds s u))
                      (bitset_add bs (post_order_id (bbs s b))))
          else collect_defining_blocks n s (next_use (opnds s u)) bs)"

fun analyze_promotables :: "nat \<Rightarrow> ir \<Rightarrow> int \<Rightarrow> nat list \<Rightarrow> error + PromotableAlloca list" where
  "analyze_promotables n s bc [] = Inr []"
| "analyze_promotables n s bc (a # rest) =
     (case (case dest (insts s a) of
              None \<Rightarrow> Inl NullPointer
            | Some d \<Rightarrow> collect_defining_blocks n s (use_list_head (vals s d)) (bitset_create bc)) of
        Inl e \<Rightarrow> Inl e
      | Inr defs \<Rightarrow>
          (case analyze_promotables n s bc rest of
             Inl e \<Rightarrow> Inl e
           | Inr pas \<Rightarrow>
               Inr (\<lparr>alloca_instr = a, alloca_val = dest (insts s a), defining_blocks = defs,
                      phi_placement_blocks = bitset_create bc\<rparr> # pas)))"

definition analyze_allocas :: "nat \<Rightarrow> Mem2RegContext \<Rightarrow> ir \<Rightarrow> error + Mem2RegContext" where
  "analyze_allocas n ctx s =
     (case entry (funcs s (m2r_func ctx)) of
        None \<Rightarrow> Inl NullPointer
      | Some e \<Rightarrow>
          (case collect_promotable n s (instrs (bbs s e)) [] of
             Inl err \<Rightarrow> Inl err
           | Inr promotable_list \<Rightarrow>
               (case analyze_promotables n s (block_count (funcs s (m2r_func ctx)))
                       (rev promotable_list) of
                  Inl err \<Rightarrow> Inl err
                | Inr pas \<Rightarrow> Inr (ctx\<lparr>promotables := pas\<rparr>))))"

text \<open>\<open>compute_phi_placement\<close>.  The block with the number \<open>block_id\<close> is read from
  \<open>func->reverse_post_order[block_id]\<close>.  \<open>place_in_frontier\<close> is the loop over the dominance
  frontier of a block, \<open>placement_loop\<close> the \<open>while\<close> loop over the worklist, bounded by its
  first argument.\<close>

definition block_of_id :: "ir \<Rightarrow> nat \<Rightarrow> int \<Rightarrow> error + nat" where
  "block_of_id s f block_id =
     (case reverse_post_order (funcs s f) of
        None \<Rightarrow> Inl NullPointer
      | Some rpo \<Rightarrow>
          if 0 \<le> block_id \<and> nat block_id < length rpo then Inr (rpo ! nat block_id)
          else Inl OutOfBounds)"

fun defining_worklist :: "ir \<Rightarrow> nat \<Rightarrow> BitSet \<Rightarrow> int list \<Rightarrow> Worklist \<Rightarrow> error + Worklist" where
  "defining_worklist s f defs [] wl = Inr wl"
| "defining_worklist s f defs (block_id # rest) wl =
     (if bitset_contains defs block_id
      then (case block_of_id s f block_id of
              Inl e \<Rightarrow> Inl e
            | Inr b \<Rightarrow> defining_worklist s f defs rest (worklist_add wl (Some b)))
      else defining_worklist s f defs rest wl)"

fun place_in_frontier ::
  "ir \<Rightarrow> nat list \<Rightarrow> PromotableAlloca \<times> Worklist \<Rightarrow> PromotableAlloca \<times> Worklist" where
  "place_in_frontier s [] st = st"
| "place_in_frontier s (frontier_block # rest) (pa, wl) =
     (let frontier_id = post_order_id (bbs s frontier_block)
      in if \<not> bitset_contains (phi_placement_blocks pa) frontier_id
         then place_in_frontier s rest
                (pa\<lparr>phi_placement_blocks := bitset_add (phi_placement_blocks pa) frontier_id\<rparr>,
                 if \<not> bitset_contains (defining_blocks pa) frontier_id
                 then worklist_add wl (Some frontier_block) else wl)
         else place_in_frontier s rest (pa, wl))"

fun placement_loop :: "nat \<Rightarrow> ir \<Rightarrow> PromotableAlloca \<Rightarrow> Worklist \<Rightarrow> error + PromotableAlloca" where
  "placement_loop 0 s pa wl = Inl OutOfFuel"
| "placement_loop (Suc n) s pa wl =
     (case worklist_pop wl of
        (None, _) \<Rightarrow> Inr pa
      | (Some block, wl1) \<Rightarrow>
          (case place_in_frontier s (dom_frontier (bbs s block)) (pa, wl1) of
             (pa1, wl2) \<Rightarrow> placement_loop n s pa1 wl2))"

fun phi_placement :: "nat \<Rightarrow> ir \<Rightarrow> nat \<Rightarrow> PromotableAlloca list \<Rightarrow> error + PromotableAlloca list" where
  "phi_placement n s f [] = Inr []"
| "phi_placement n s f (pa # rest) =
     (case defining_worklist s f (defining_blocks pa)
             (map int [0..<nat (block_count (funcs s f))]) [] of
        Inl e \<Rightarrow> Inl e
      | Inr wl \<Rightarrow>
          (case placement_loop n s pa wl of
             Inl e \<Rightarrow> Inl e
           | Inr pa1 \<Rightarrow>
               (case phi_placement n s f rest of
                  Inl e \<Rightarrow> Inl e
                | Inr pas \<Rightarrow> Inr (pa1 # pas))))"

definition compute_phi_placement :: "nat \<Rightarrow> Mem2RegContext \<Rightarrow> ir \<Rightarrow> error + Mem2RegContext" where
  "compute_phi_placement n ctx s =
     map_sum id (\<lambda>pas. ctx\<lparr>promotables := pas\<rparr>) (phi_placement n s (m2r_func ctx) (promotables ctx))"

text \<open>\<open>insert_phi_nodes\<close>: \<open>insert_phi_for\<close> is the loop over the block numbers for one
  alloca.\<close>

fun insert_phi_for ::
  "PromotableAlloca \<Rightarrow> int list \<Rightarrow> Mem2RegContext \<Rightarrow> ir \<Rightarrow> error + (Mem2RegContext \<times> ir)" where
  "insert_phi_for pa [] ctx s = Inr (ctx, s)"
| "insert_phi_for pa (block_id # rest) ctx s =
     (if bitset_contains (phi_placement_blocks pa) block_id
      then (case block_of_id s (m2r_func ctx) block_id of
              Inl e \<Rightarrow> Inl e
            | Inr block \<Rightarrow>
                (case ir_builder_set_insertion_block_start (builder ctx) (Some block) s of
                   Inl e \<Rightarrow> Inl e
                 | Inr b1 \<Rightarrow>
                     (case alloca_val pa of
                        None \<Rightarrow> Inl NullPointer
                      | Some av \<Rightarrow>
                          (case type (vals s av) of
                             None \<Rightarrow> Inl NullPointer
                           | Some t \<Rightarrow>
                               (case ir_builder_create_phi b1 (element_type (tys s t)) s of
                                  Inl e \<Rightarrow> Inl e
                                | Inr (phi, b2, s1) \<Rightarrow>
                                    insert_phi_for pa rest (ctx\<lparr>builder := b2\<rparr>)
                                      (upd_instruction phi
                                         (\<lambda>x. x\<lparr>phi_for_alloca := Some (alloca_instr pa)\<rparr>) s1))))))
      else insert_phi_for pa rest ctx s)"

fun insert_phi_all ::
  "PromotableAlloca list \<Rightarrow> Mem2RegContext \<Rightarrow> ir \<Rightarrow> error + (Mem2RegContext \<times> ir)" where
  "insert_phi_all [] ctx s = Inr (ctx, s)"
| "insert_phi_all (pa # rest) ctx s =
     (case insert_phi_for pa (map int [0..<nat (block_count (funcs s (m2r_func ctx)))]) ctx s of
        Inl e \<Rightarrow> Inl e
      | Inr (ctx1, s1) \<Rightarrow> insert_phi_all rest ctx1 s1)"

definition insert_phi_nodes :: "Mem2RegContext \<Rightarrow> ir \<Rightarrow> error + (Mem2RegContext \<times> ir)" where
  "insert_phi_nodes ctx s = insert_phi_all (promotables ctx) ctx s"

text \<open>
  The renaming.  \<open>first_match\<close> is the inner loop \<open>for (i = 0; i < promotable_count; ++i)\<close>
  that stops at the first promotable alloca that fits.  The state of the renaming is the
  array of the version stacks and the array \<open>pushed_counts\<close> of the block at hand.
\<close>

fun first_match :: "('a \<Rightarrow> bool) \<Rightarrow> 'a list \<Rightarrow> nat option" where
  "first_match P [] = None"
| "first_match P (x # xs) = (if P x then Some 0 else map_option Suc (first_match P xs))"

definition push_version :: "nat \<Rightarrow> nat option \<Rightarrow> VersionStack list \<Rightarrow> VersionStack list" where
  "push_version i v stacks = stacks[i := v # stacks ! i]"

definition top_version :: "VersionStack \<Rightarrow> error + nat option" where
  "top_version stack_top = (case stack_top of [] \<Rightarrow> Inl AssertionFailed | v # _ \<Rightarrow> Inr v)"

definition pop_version :: "VersionStack \<Rightarrow> error + VersionStack" where
  "pop_version stack_top = (case stack_top of [] \<Rightarrow> Inl AssertionFailed | _ # rest \<Rightarrow> Inr rest)"

fun push_phi_versions ::
  "ir \<Rightarrow> PromotableAlloca list \<Rightarrow> nat list \<Rightarrow> VersionStack list \<times> nat list \<Rightarrow>
   VersionStack list \<times> nat list" where
  "push_phi_versions s pas [] st = st"
| "push_phi_versions s pas (phi # rest) (stacks, pushed_counts) =
     (case first_match (\<lambda>pa. phi_for_alloca (insts s phi) = Some (alloca_instr pa)) pas of
        None \<Rightarrow> push_phi_versions s pas rest (stacks, pushed_counts)
      | Some i \<Rightarrow>
          push_phi_versions s pas rest
            (push_version i (dest (insts s phi)) stacks,
             pushed_counts[i := Suc (pushed_counts ! i)]))"

definition rename_load ::
  "nat \<Rightarrow> PromotableAlloca list \<Rightarrow> nat \<Rightarrow> VersionStack list \<Rightarrow> ir \<Rightarrow> error + ir" where
  "rename_load n pas i stacks s =
     (if pas = [] then Inr s
      else (case operand_list (insts s i) of
              [] \<Rightarrow> Inl NullPointer
            | p # _ \<Rightarrow>
                (case first_match (\<lambda>pa. data (opnds s p) = alloca_val pa) pas of
                   None \<Rightarrow> Inr s
                 | Some k \<Rightarrow>
                     (case top_version (stacks ! k) of
                        Inl e \<Rightarrow> Inl e
                      | Inr tp \<Rightarrow>
                          (case (if dest (insts s i) = tp then Inr s
                                 else (case dest (insts s i) of
                                         None \<Rightarrow> Inl NullPointer
                                       | Some d \<Rightarrow>
                                           map_sum id snd (replace_all_uses_with n None d tp s))) of
                             Inl e \<Rightarrow> Inl e
                           | Inr s1 \<Rightarrow> Inr (mark_instruction_for_removal (Some i) s1))))))"

definition rename_store ::
  "PromotableAlloca list \<Rightarrow> nat \<Rightarrow> VersionStack list \<times> nat list \<Rightarrow> ir \<Rightarrow>
   error + ((VersionStack list \<times> nat list) \<times> ir)" where
  "rename_store pas i st s =
     (if pas = [] then Inr (st, s)
      else (case operand_list (insts s i) of
              p # q # _ \<Rightarrow>
                (case first_match (\<lambda>pa. data (opnds s q) = alloca_val pa) pas of
                   None \<Rightarrow> Inr (st, s)
                 | Some k \<Rightarrow>
                     Inr ((push_version k (data (opnds s p)) (fst st),
                           (snd st)[k := Suc (snd st ! k)]),
                          mark_instruction_for_removal (Some i) s))
            | _ \<Rightarrow> Inl NullPointer))"

fun rename_instructions ::
  "nat \<Rightarrow> PromotableAlloca list \<Rightarrow> nat list \<Rightarrow> VersionStack list \<times> nat list \<Rightarrow> ir \<Rightarrow>
   error + ((VersionStack list \<times> nat list) \<times> ir)" where
  "rename_instructions n pas [] st s = Inr (st, s)"
| "rename_instructions n pas (i # rest) st s =
     (if opcode (insts s i) = IR_OP_LOAD
      then (case rename_load n pas i (fst st) s of
              Inl e \<Rightarrow> Inl e
            | Inr s1 \<Rightarrow> rename_instructions n pas rest st s1)
      else if opcode (insts s i) = IR_OP_STORE
      then (case rename_store pas i st s of
              Inl e \<Rightarrow> Inl e
            | Inr (st1, s1) \<Rightarrow> rename_instructions n pas rest st1 s1)
      else rename_instructions n pas rest st s)"

fun fill_phis ::
  "PromotableAlloca list \<Rightarrow> VersionStack list \<Rightarrow> nat \<Rightarrow> nat list \<Rightarrow> ir \<Rightarrow> error + ir" where
  "fill_phis pas stacks block [] s = Inr s"
| "fill_phis pas stacks block (phi # rest) s =
     (case first_match (\<lambda>pa. phi_for_alloca (insts s phi) = Some (alloca_instr pa)) pas of
        None \<Rightarrow> fill_phis pas stacks block rest s
      | Some j \<Rightarrow>
          (case top_version (stacks ! j) of
             Inl e \<Rightarrow> Inl e
           | Inr tp \<Rightarrow>
               (case ir_phi_add_incoming (Some phi) tp (Some block) s of
                  Inl e \<Rightarrow> Inl e
                | Inr s1 \<Rightarrow> fill_phis pas stacks block rest s1)))"

fun fill_successors ::
  "PromotableAlloca list \<Rightarrow> VersionStack list \<Rightarrow> nat \<Rightarrow> nat list \<Rightarrow> ir \<Rightarrow> error + ir" where
  "fill_successors pas stacks block [] s = Inr s"
| "fill_successors pas stacks block (succ # rest) s =
     (case fill_phis pas stacks block (leading_phis s succ) s of
        Inl e \<Rightarrow> Inl e
      | Inr s1 \<Rightarrow> fill_successors pas stacks block rest s1)"

fun pop_versions :: "VersionStack list \<Rightarrow> nat list \<Rightarrow> error + VersionStack list" where
  "pop_versions [] pushed_counts = Inr []"
| "pop_versions (stack # rest) pushed_counts =
     (if length stack < hd pushed_counts then Inl AssertionFailed
      else (case pop_versions rest (tl pushed_counts) of
              Inl e \<Rightarrow> Inl e
            | Inr rest1 \<Rightarrow> Inr (drop (hd pushed_counts) stack # rest1)))"

text \<open>\<open>rename_recursive\<close>, with the loop over the children in the dominator tree as
  \<open>rename_children\<close>.  The first argument bounds the depth of the recursion and the pointer
  walks of the calls.\<close>

fun rename_recursive ::
  "nat \<Rightarrow> nat option \<Rightarrow> Mem2RegContext \<Rightarrow> VersionStack list \<Rightarrow> ir \<Rightarrow>
   error + (VersionStack list \<times> ir)"
  and rename_children ::
  "nat \<Rightarrow> nat list \<Rightarrow> Mem2RegContext \<Rightarrow> VersionStack list \<Rightarrow> ir \<Rightarrow>
   error + (VersionStack list \<times> ir)"
where
  "rename_recursive 0 block ctx stacks s = Inl OutOfFuel"
| "rename_recursive (Suc n) None ctx stacks s = Inl NullPointer"
| "rename_recursive (Suc n) (Some b) ctx stacks s =
     (let pas = promotables ctx;
          st0 = push_phi_versions s pas (leading_phis s b) (stacks, replicate (length pas) 0)
      in case rename_instructions n pas (instrs (bbs s b)) st0 s of
           Inl e \<Rightarrow> Inl e
         | Inr ((stacks1, pushed_counts), s1) \<Rightarrow>
             (case fill_successors pas stacks1 b (successors (bbs s1 b)) s1 of
                Inl e \<Rightarrow> Inl e
              | Inr s2 \<Rightarrow>
                  (case rename_children n (dom_children (bbs s2 b)) ctx stacks1 s2 of
                     Inl e \<Rightarrow> Inl e
                   | Inr (stacks2, s3) \<Rightarrow>
                       (case cleanup_removed_instructions n (Some b) s3 of
                          Inl e \<Rightarrow> Inl e
                        | Inr s4 \<Rightarrow>
                            (case pop_versions stacks2 pushed_counts of
                               Inl e \<Rightarrow> Inl e
                             | Inr stacks3 \<Rightarrow> Inr (stacks3, s4))))))"
| "rename_children n [] ctx stacks s = Inr (stacks, s)"
| "rename_children n (c # rest) ctx stacks s =
     (case rename_recursive n (Some c) ctx stacks s of
        Inl e \<Rightarrow> Inl e
      | Inr (stacks1, s1) \<Rightarrow> rename_children n rest ctx stacks1 s1)"

definition rename_variables :: "nat \<Rightarrow> Mem2RegContext \<Rightarrow> ir \<Rightarrow> error + (Mem2RegContext \<times> ir)" where
  "rename_variables n ctx s =
     (let (u, s1) = create_ir_value s;
          ctx1 = ctx\<lparr>undef_val := Some u\<rparr>
      in case rename_recursive n (entry (funcs s1 (m2r_func ctx1))) ctx1
                (replicate (length (promotables ctx1)) [Some u]) s1 of
           Inl e \<Rightarrow> Inl e
         | Inr (stacks, s2) \<Rightarrow> Inr (ctx1, s2))"

fun erase_allocas :: "nat \<Rightarrow> PromotableAlloca list \<Rightarrow> ir \<Rightarrow> error + ir" where
  "erase_allocas n [] s = Inr s"
| "erase_allocas n (pa # rest) s =
     (case erase_instruction n (Some (alloca_instr pa)) s of
        Inl e \<Rightarrow> Inl e
      | Inr s1 \<Rightarrow> erase_allocas n rest s1)"

text \<open>\<open>run_mem2reg\<close>.\<close>

definition run_mem2reg :: "nat \<Rightarrow> nat option \<Rightarrow> ir \<Rightarrow> error + (bool \<times> ir)" where
  "run_mem2reg n fn s =
     (case fn of
        None \<Rightarrow> Inr (False, s)
      | Some f \<Rightarrow>
          if entry (funcs s f) = None then Inr (False, s)
          else if module (funcs s f) = None then Inl AssertionFailed
          else (case analyze_allocas n
                       \<lparr>m2r_func = f, promotables = [], builder = ir_builder_init f s,
                        undef_val = None\<rparr> s of
                  Inl e \<Rightarrow> Inl e
                | Inr ctx \<Rightarrow>
                    if promotables ctx = [] then Inr (False, s)
                    else (case compute_phi_placement n ctx s of
                            Inl e \<Rightarrow> Inl e
                          | Inr ctx1 \<Rightarrow>
                              (case insert_phi_nodes ctx1 s of
                                 Inl e \<Rightarrow> Inl e
                               | Inr (ctx2, s1) \<Rightarrow>
                                   (case rename_variables n ctx2 s1 of
                                      Inl e \<Rightarrow> Inl e
                                    | Inr (ctx3, s2) \<Rightarrow>
                                        (case erase_allocas n (promotables ctx3) s2 of
                                           Inl e \<Rightarrow> Inl e
                                         | Inr s3 \<Rightarrow> Inr (True, s3)))))))"

text \<open>
  \<open>store_load_example\<close>: one block \<open>%p = alloca i32; store 42, %p; %x = load %p; ret %x\<close>,
  with the results of the dominator analysis in place (the block has the number 0, no
  children and an empty frontier).  The instructions are 0 to 3; \<open>%p\<close> is the value 1,
  the constant 42 the value 2 and \<open>%x\<close> the value 3; the type 0 is \<open>i32\<close> and the type 1
  the pointer to it.  The use list of \<open>%p\<close> holds the address operand of the load (2) and
  then that of the store (1).
\<close>

definition store_load_example :: ir where
  "store_load_example = zeroed_ir
     \<lparr>tys := (\<lambda>_. zeroed_Type)
         (0 := \<lparr>kind = TYPE_BASIC, basic = BASIC_INT, element_type = None\<rparr>,
          1 := \<lparr>kind = TYPE_POINTER, basic = BASIC_INT, element_type = Some 0\<rparr>),
      vals := (\<lambda>_. zeroed_IRValue)
         (1 := zeroed_IRValue\<lparr>type := Some 1, def_instr := Some 0, use_list_head := Some 2\<rparr>,
          2 := zeroed_IRValue\<lparr>is_constant := True, int_val := 42, type := Some 0\<rparr>,
          3 := zeroed_IRValue\<lparr>type := Some 0, def_instr := Some 2, use_list_head := Some 3\<rparr>),
      opnds := (\<lambda>_. zeroed_IROperand)
         (0 := \<lparr>op_kind = IR_OP_KIND_VALUE, data = Some 2, user = Some 1, next_use = None\<rparr>,
          1 := \<lparr>op_kind = IR_OP_KIND_VALUE, data = Some 1, user = Some 1, next_use = None\<rparr>,
          2 := \<lparr>op_kind = IR_OP_KIND_VALUE, data = Some 1, user = Some 2, next_use = Some 1\<rparr>,
          3 := \<lparr>op_kind = IR_OP_KIND_VALUE, data = Some 3, user = Some 3, next_use = None\<rparr>),
      insts := (\<lambda>_. zeroed_IRInstruction)
         (0 := zeroed_IRInstruction\<lparr>opcode := IR_OP_ALLOCA, dest := Some 1, parent := Some 0\<rparr>,
          1 := zeroed_IRInstruction\<lparr>opcode := IR_OP_STORE, operand_list := [0, 1],
                 parent := Some 0\<rparr>,
          2 := zeroed_IRInstruction\<lparr>opcode := IR_OP_LOAD, dest := Some 3, operand_list := [2],
                 parent := Some 0\<rparr>,
          3 := zeroed_IRInstruction\<lparr>opcode := IR_OP_RET, operand_list := [3], parent := Some 0\<rparr>),
      bbs := (\<lambda>_. zeroed_IRBasicBlock)
         (0 := zeroed_IRBasicBlock\<lparr>instrs := [0, 1, 2, 3], bb_parent := Some 0\<rparr>),
      funcs := (\<lambda>_. zeroed_IRFunction)
         (0 := zeroed_IRFunction\<lparr>entry := Some 0, blocks := [0], block_count := 1,
                 instruction_count := 4, reverse_post_order := Some [0], module := Some 0\<rparr>),
      next_value := 4, next_operand := 4, next_instruction := 4, next_type := 2\<rparr>"

chapter \<open>Properties\<close>

lemmas zeroed_defs = zeroed_ir_def zeroed_IRValue_def zeroed_IROperand_def zeroed_IRInstruction_def
  zeroed_IRBasicBlock_def zeroed_IRFunction_def zeroed_Type_def

section \<open>The inliner's decision\<close>

text \<open>
  C7.  The claim reads: the inliner inlines a call site only when the callee has a body,
  is not on the inliner's call stack and has fewer than 80 instructions, so a callee with
  exactly 80 instructions is never inlined.  The comment at \<open>INLINE_THRESHOLD\<close> says the
  same ("only functions whose instruction count is below this threshold"), but
  \<open>should_inline_function\<close> compares with \<open>\<le>\<close>: a callee that has a body, is not on the
  call stack and counts exactly 80 instructions is accepted for inlining.
\<close>

theorem should_inline_function_at_threshold:
  assumes "entry (funcs s c) \<noteq> None"
    and "c \<notin> set (call_stack ctx)"
    and "count_instructions s c = 80"
  shows "should_inline_function s ctx (Some c)"
  using assms by (simp add: should_inline_function_def INLINE_THRESHOLD_def)

theorem should_inline_function_at_threshold_witness:
  "entry (funcs callee_of_80 0) \<noteq> None
   \<and> 0 \<notin> set (call_stack \<lparr>call_stack = [], changed_this_round = False\<rparr>)
   \<and> count_instructions callee_of_80 0 = 80
   \<and> should_inline_function callee_of_80 \<lparr>call_stack = [], changed_this_round = False\<rparr> (Some 0)"
proof -
  have e: "entry (funcs callee_of_80 0) \<noteq> None"
    by (simp add: callee_of_80_def zeroed_ir_def zeroed_IRFunction_def)
  have k: "0 \<notin> set (call_stack \<lparr>call_stack = [], changed_this_round = False\<rparr>)"
    by simp
  have n: "count_instructions callee_of_80 0 = 80"
    by (simp add: count_instructions_def callee_of_80_def zeroed_ir_def zeroed_IRFunction_def
        zeroed_IRBasicBlock_def)
  show ?thesis
    using e k n should_inline_function_at_threshold [OF e k n] by simp
qed

section \<open>Use-def consistency\<close>

subsection \<open>Chains of uses\<close>

lemma use_chain_upd: "p \<notin> set xs \<Longrightarrow> use_chain (nxt(p := y)) q xs = use_chain nxt q xs"
  by (induction xs arbitrary: q) auto

lemma use_chain_cong: "(\<And>x. x \<in> set xs \<Longrightarrow> f x = g x) \<Longrightarrow> use_chain f q xs = use_chain g q xs"
  by (induction xs arbitrary: q) auto

lemma use_chain_unique: "use_chain nxt q xs \<Longrightarrow> use_chain nxt q ys \<Longrightarrow> xs = ys"
proof (induction xs arbitrary: q ys)
  case Nil then show ?case by (cases ys) auto
next
  case (Cons x xs) then show ?case by (cases ys) auto
qed

lemma links_only_refl: "links_only s s"
  by (simp add: links_only_def)

lemma links_only_trans: "links_only s s1 \<Longrightarrow> links_only s1 s2 \<Longrightarrow> links_only s s2"
  by (simp add: links_only_def)

lemma links_only_write_link: "links_only s (write_link l x s)"
  by (cases l) (simp_all add: links_only_def write_link_def upd_value_def upd_operand_def)

lemma links_only_next_use: "links_only s (upd_operand p (\<lambda>r. r\<lparr>next_use := x\<rparr>) s)"
  by (simp add: links_only_def upd_operand_def)

lemma links_only_head: "links_only s (upd_value v (\<lambda>r. r\<lparr>use_list_head := x\<rparr>) s)"
  by (simp add: links_only_def upd_value_def)

lemma unlink_use_frame:
  "unlink_use n l p s = Inr s' \<Longrightarrow>
     links_only s s' \<and> (\<forall>w. l \<noteq> UseListHead w \<longrightarrow> use_list_head (vals s' w) = use_list_head (vals s w))"
proof (induction n arbitrary: l)
  case 0 then show ?case by simp
next
  case (Suc n)
  show ?case
  proof (cases "read_link s l")
    case None with Suc.prems show ?thesis by (simp add: links_only_refl)
  next
    case (Some c)
    show ?thesis
    proof (cases "c = p")
      case True
      with Some Suc.prems have s': "s' = upd_operand p (\<lambda>r. r\<lparr>next_use := None\<rparr>) (write_link l (next_use (opnds s p)) s)"
        by simp
      have "links_only s s'" unfolding s'
        by (rule links_only_trans [OF links_only_write_link links_only_next_use])
      moreover have "\<forall>w. l \<noteq> UseListHead w \<longrightarrow> use_list_head (vals s' w) = use_list_head (vals s w)"
        unfolding s' by (cases l) (auto simp: write_link_def upd_value_def upd_operand_def)
      ultimately show ?thesis by simp
    next
      case False
      with Some Suc.prems have "unlink_use n (NextUse c) p s = Inr s'" by simp
      from Suc.IH [OF this] show ?thesis by simp
    qed
  qed
qed

lemma unlink_use_mono:
  "unlink_use n l p s = Inr s' \<Longrightarrow> n \<le> m \<Longrightarrow> unlink_use m l p s = Inr s'"
proof (induction n arbitrary: m l)
  case 0 then show ?case by simp
next
  case (Suc n)
  then obtain m' where m: "m = Suc m'" "n \<le> m'" by (cases m) auto
  show ?case
  proof (cases "read_link s l")
    case None with Suc.prems m show ?thesis by simp
  next
    case (Some c)
    show ?thesis
    proof (cases "c = p")
      case True with Some Suc.prems m show ?thesis by simp
    next
      case False
      with Some Suc.prems have "unlink_use n (NextUse c) p s = Inr s'" by simp
      from Suc.IH [OF this m(2)] Some False m show ?thesis by simp
    qed
  qed
qed

lemma unlink_use_chain:
  assumes "use_chain (\<lambda>q. next_use (opnds s q)) (read_link s l) ys" "distinct ys" "length ys < n"
    "l \<noteq> NextUse p" "\<forall>c. l = NextUse c \<longrightarrow> c \<notin> set ys"
  shows "\<exists>s'. unlink_use n l p s = Inr s' \<and>
            use_chain (\<lambda>q. next_use (opnds s' q)) (read_link s' l) (remove1 p ys) \<and>
            (\<forall>q. q \<notin> set ys \<and> l \<noteq> NextUse q \<longrightarrow> next_use (opnds s' q) = next_use (opnds s q))"
  using assms
proof (induction ys arbitrary: n l s)
  case Nil
  then obtain m where "n = Suc m" by (cases n) auto
  with Nil show ?case by simp
next
  case (Cons c cs)
  then obtain m where n: "n = Suc m" "length cs < m" by (cases n) auto
  from Cons.prems have rl: "read_link s l = Some c"
    and ch: "use_chain (\<lambda>q. next_use (opnds s q)) (next_use (opnds s c)) cs"
    and d: "c \<notin> set cs" "distinct cs" by auto
  show ?case
  proof (cases "c = p")
    case True
    let ?s' = "upd_operand p (\<lambda>r. r\<lparr>next_use := None\<rparr>) (write_link l (next_use (opnds s p)) s)"
    have r: "unlink_use n l p s = Inr ?s'" using n rl True by simp
    have rl': "read_link ?s' l = next_use (opnds s p)"
      using Cons.prems(4) by (cases l) (auto simp: read_link_def write_link_def upd_value_def upd_operand_def)
    have fr: "\<forall>q. q \<notin> set (c # cs) \<and> l \<noteq> NextUse q \<longrightarrow> next_use (opnds ?s' q) = next_use (opnds s q)"
      using True by (cases l) (auto simp: write_link_def upd_value_def upd_operand_def)
    have "use_chain (\<lambda>q. next_use (opnds ?s' q)) (next_use (opnds s p)) cs = use_chain (\<lambda>q. next_use (opnds s q)) (next_use (opnds s p)) cs"
    proof (rule use_chain_cong)
      fix x assume "x \<in> set cs"
      then have "x \<noteq> p" "l \<noteq> NextUse x" using d True Cons.prems(5) by auto
      then show "next_use (opnds ?s' x) = next_use (opnds s x)"
        by (cases l) (auto simp: write_link_def upd_value_def upd_operand_def)
    qed
    then have "use_chain (\<lambda>q. next_use (opnds ?s' q)) (read_link ?s' l) (remove1 p (c # cs))"
      using rl' ch True by simp
    with r fr show ?thesis by blast
  next
    case False
    have "\<exists>s'. unlink_use m (NextUse c) p s = Inr s' \<and>
            use_chain (\<lambda>q. next_use (opnds s' q)) (read_link s' (NextUse c)) (remove1 p cs) \<and>
            (\<forall>q. q \<notin> set cs \<and> NextUse c \<noteq> NextUse q \<longrightarrow> next_use (opnds s' q) = next_use (opnds s q))"
      using ch d n False by (intro Cons.IH) (auto simp: read_link_def)
    then obtain s' where s': "unlink_use m (NextUse c) p s = Inr s'"
      and ch': "use_chain (\<lambda>q. next_use (opnds s' q)) (next_use (opnds s' c)) (remove1 p cs)"
      and fr': "\<forall>q. q \<notin> set cs \<and> c \<noteq> q \<longrightarrow> next_use (opnds s' q) = next_use (opnds s q)"
      by (auto simp: read_link_def)
    have r: "unlink_use n l p s = Inr s'" using n rl False s' by simp
    from unlink_use_frame [OF s'] have hd: "\<forall>w. use_list_head (vals s' w) = use_list_head (vals s w)" by simp
    have "read_link s' l = Some c"
    proof (cases l)
      case (UseListHead v) then show ?thesis using rl hd by (simp add: read_link_def)
    next
      case (NextUse c0)
      then have "c0 \<notin> set (c # cs)" using Cons.prems(5) by simp
      then show ?thesis using rl fr' NextUse by (auto simp: read_link_def)
    qed
    then have "use_chain (\<lambda>q. next_use (opnds s' q)) (read_link s' l) (remove1 p (c # cs))"
      using ch' False by simp
    moreover have "\<forall>q. q \<notin> set (c # cs) \<and> l \<noteq> NextUse q \<longrightarrow> next_use (opnds s' q) = next_use (opnds s q)"
      using fr' by auto
    ultimately show ?thesis using r by blast
  qed
qed


lemma in_module_bound: "operand_lists_ok s \<Longrightarrow> in_module s p \<Longrightarrow> p < next_operand s"
  by (auto simp: operand_lists_ok_def in_module_def split: option.splits)

lemma references_fun: "references s p v \<Longrightarrow> references s p w \<Longrightarrow> v = w"
  by (simp add: references_def)

lemma use_list_unique: "use_list s v xs \<Longrightarrow> use_list s v ys \<Longrightarrow> xs = ys"
  unfolding use_list_def by (rule use_chain_unique)

lemma udc_chain:
  assumes "use_def_consistent s" "is_register s v" "use_list s v xs"
  shows "distinct xs" "\<And>p. p \<in> set xs \<longleftrightarrow> references s p v"
proof -
  from assms(1,2) obtain ys where ys: "use_list s v ys" "distinct ys" "\<forall>p. p \<in> set ys \<longleftrightarrow> references s p v"
    unfolding use_def_consistent_def by blast
  with assms(3) have "xs = ys" by (auto intro: use_list_unique)
  with ys show "distinct xs" "\<And>p. p \<in> set xs \<longleftrightarrow> references s p v" by auto
qed

lemma udc_obtain:
  assumes "use_def_consistent s" "is_register s v"
  obtains xs where "use_list s v xs" "distinct xs" "\<And>p. p \<in> set xs \<longleftrightarrow> references s p v"
  using assms unfolding use_def_consistent_def by blast

lemma links_only_is_register: "links_only s s' \<Longrightarrow> is_register s' v = is_register s v"
  by (simp add: links_only_def is_register_def)

lemma links_only_in_module: "links_only s s' \<Longrightarrow> in_module s' p = in_module s p"
  by (auto simp: links_only_def in_module_def split: option.splits)

lemma links_only_references: "links_only s s' \<Longrightarrow> references s' p v = references s p v"
  by (simp add: references_def links_only_in_module) (simp add: links_only_def)

lemma links_only_operand_lists_ok: "links_only s s' \<Longrightarrow> operand_lists_ok s' = operand_lists_ok s"
  by (simp add: links_only_def operand_lists_ok_def)

lemma rofl_mono:
  "remove_operand_from_use_list n p s = Inr s' \<Longrightarrow> n \<le> m \<Longrightarrow> remove_operand_from_use_list m p s = Inr s'"
  by (auto simp: remove_operand_from_use_list_def split: if_splits option.splits intro: unlink_use_mono)

lemma rofl_links_only:
  "remove_operand_from_use_list n p s = Inr s' \<Longrightarrow> links_only s s'"
  by (auto simp: remove_operand_from_use_list_def links_only_refl split: if_splits option.splits dest: unlink_use_frame)

lemma rofl_heads:
  "use_list_head (vals s' w) = use_list_head (vals s w)"
  if "remove_operand_from_use_list n p s = Inr s'" "\<not> is_register s w"
proof (cases "op_kind (opnds s p) = IR_OP_KIND_VALUE \<and> (\<exists>v. data (opnds s p) = Some v \<and> is_register s v)")
  case False
  then have "s' = s" using that
    by (auto simp: remove_operand_from_use_list_def is_register_def split: if_splits option.splits)
  then show ?thesis by simp
next
  case True
  then obtain v where v: "op_kind (opnds s p) = IR_OP_KIND_VALUE" "data (opnds s p) = Some v" "is_register s v"
    by blast
  then have u: "unlink_use n (UseListHead v) p s = Inr s'" using that
    by (auto simp: remove_operand_from_use_list_def is_register_def)
  have "w \<noteq> v" using v(3) that(2) by auto
  then show ?thesis using unlink_use_frame [OF u] by simp
qed

lemma rofl_effect:
  assumes inv: "use_def_consistent s" and r: "remove_operand_from_use_list n p s = Inr s1"
    and w: "is_register s w" and xs: "use_list s w xs"
  shows "use_list s1 w (remove1 p xs)"
proof -
  note c = udc_chain [OF inv w xs]
  show ?thesis
  proof (cases "op_kind (opnds s p) = IR_OP_KIND_VALUE \<and> (\<exists>v. data (opnds s p) = Some v \<and> is_register s v)")
    case False
    then have "s1 = s" using r
      by (auto simp: remove_operand_from_use_list_def is_register_def split: if_splits option.splits)
    moreover have "p \<notin> set xs" using False c(2) w by (auto simp: references_def)
    ultimately show ?thesis using xs by (simp add: remove1_idem)
  next
    case True
    then obtain v where v: "op_kind (opnds s p) = IR_OP_KIND_VALUE" "data (opnds s p) = Some v" "is_register s v"
      by blast
    then have u: "unlink_use n (UseListHead v) p s = Inr s1" using r
      by (auto simp: remove_operand_from_use_list_def is_register_def)
    from udc_obtain [OF inv v(3)] obtain ys where ys: "use_list s v ys" "distinct ys"
      "\<And>q. q \<in> set ys \<longleftrightarrow> references s q v" by blast
    let ?m = "max n (Suc (length ys))"
    have um: "unlink_use ?m (UseListHead v) p s = Inr s1" by (rule unlink_use_mono [OF u]) simp
    have "\<exists>s'. unlink_use ?m (UseListHead v) p s = Inr s' \<and>
            use_chain (\<lambda>q. next_use (opnds s' q)) (read_link s' (UseListHead v)) (remove1 p ys) \<and>
            (\<forall>q. q \<notin> set ys \<and> UseListHead v \<noteq> NextUse q \<longrightarrow> next_use (opnds s' q) = next_use (opnds s q))"
      using ys(1,2) by (intro unlink_use_chain) (auto simp: use_list_def read_link_def)
    with um have ch: "use_list s1 v (remove1 p ys)"
      and fr: "\<forall>q. q \<notin> set ys \<longrightarrow> next_use (opnds s1 q) = next_use (opnds s q)"
      by (auto simp: use_list_def read_link_def)
    show ?thesis
    proof (cases "w = v")
      case True
      with xs ys(1) have "xs = ys" by (auto intro: use_list_unique)
      with ch True show ?thesis by simp
    next
      case False
      have pn: "p \<notin> set xs" using c(2) v(2) False by (auto simp: references_def)
      have dj: "\<And>q. q \<in> set xs \<Longrightarrow> q \<notin> set ys"
        using c(2) ys(3) False by (auto dest: references_fun)
      have hd: "use_list_head (vals s1 w) = use_list_head (vals s w)"
        using unlink_use_frame [OF u] False by simp
      have "use_chain (\<lambda>q. next_use (opnds s1 q)) (use_list_head (vals s w)) xs
            = use_chain (\<lambda>q. next_use (opnds s q)) (use_list_head (vals s w)) xs"
        by (rule use_chain_cong) (use fr dj in auto)
      with xs hd pn show ?thesis by (simp add: use_list_def remove1_idem)
    qed
  qed
qed

lemma remove_operand_inv:
  assumes ok: "operand_lists_ok s" and inv: "use_def_consistent s"
    and r: "remove_operand n op s = Inr s'"
  shows "operand_lists_ok s' \<and> use_def_consistent s'"
proof (cases op)
  case None with r ok inv show ?thesis by (simp add: remove_operand_def)
next
  case (Some p)
  with r obtain s1 i where s1: "remove_operand_from_use_list n p s = Inr s1"
    and i: "user (opnds s1 p) = Some i"
    and s': "s' = upd_instruction i (\<lambda>x. x\<lparr>operand_list := remove1 p (operand_list x)\<rparr>) s1"
    by (auto simp: remove_operand_def split: sum.splits option.splits)
  note lo = rofl_links_only [OF s1]
  have ok1: "operand_lists_ok s1" using ok lo by (simp add: links_only_operand_lists_ok)
  have ok': "operand_lists_ok s'"
    using ok1 unfolding s' operand_lists_ok_def upd_instruction_def
    by (auto simp: distinct_remove1 dest: notin_set_remove1)
  have im: "\<And>q. in_module s' q \<longleftrightarrow> in_module s q \<and> q \<noteq> p"
  proof -
    fix q
    have "in_module s' q \<longleftrightarrow> in_module s1 q \<and> q \<noteq> p"
      using ok1 i unfolding s' in_module_def operand_lists_ok_def upd_instruction_def
      by (auto split: option.splits)
    then show "in_module s' q \<longleftrightarrow> in_module s q \<and> q \<noteq> p" using lo by (simp add: links_only_in_module)
  qed
  have rf: "\<And>q v. references s' q v \<longleftrightarrow> references s q v \<and> q \<noteq> p"
    using im lo unfolding references_def s' by (auto simp: links_only_def upd_instruction_def)
  have "use_def_consistent s'"
    unfolding use_def_consistent_def
  proof (intro allI impI)
    fix w assume "is_register s' w"
    then have w: "is_register s w" using lo by (simp add: s' is_register_def upd_instruction_def links_only_def)
    from udc_obtain [OF inv w] obtain xs where xs: "use_list s w xs" "distinct xs"
      "\<And>q. q \<in> set xs \<longleftrightarrow> references s q w" by blast
    have "use_list s1 w (remove1 p xs)" by (rule rofl_effect [OF inv s1 w xs(1)])
    then have "use_list s' w (remove1 p xs)" by (simp add: s' use_list_def upd_instruction_def)
    moreover have "distinct (remove1 p xs)" using xs(2) by simp
    moreover have "\<forall>q. q \<in> set (remove1 p xs) \<longleftrightarrow> references s' q w"
      using xs(2,3) rf by auto
    ultimately show "\<exists>xs. use_list s' w xs \<and> distinct xs \<and> (\<forall>p. p \<in> set xs \<longleftrightarrow> references s' p w)"
      by blast
  qed
  with ok' show ?thesis by simp
qed


lemma use_list_link:
  "use_list s x xs \<Longrightarrow> p \<notin> set xs \<Longrightarrow>
   use_list (upd_value x (\<lambda>v. v\<lparr>use_list_head := Some p\<rparr>)
              (upd_operand p (\<lambda>r. r\<lparr>next_use := use_list_head (vals s x)\<rparr>) s)) x (p # xs)"
proof -
  assume a: "use_list s x xs" "p \<notin> set xs"
  have "use_chain ((\<lambda>q. next_use (opnds s q))(p := use_list_head (vals s x))) (use_list_head (vals s x)) xs"
    using a by (simp add: use_chain_upd use_list_def)
  moreover have "(\<lambda>q. next_use (opnds (upd_value x (\<lambda>v. v\<lparr>use_list_head := Some p\<rparr>)
              (upd_operand p (\<lambda>r. r\<lparr>next_use := use_list_head (vals s x)\<rparr>) s)) q))
      = (\<lambda>q. next_use (opnds s q))(p := use_list_head (vals s x))"
    by (auto simp: upd_value_def upd_operand_def)
  ultimately show ?thesis
    by (simp add: use_list_def) (simp add: upd_value_def upd_operand_def)
qed

lemma use_list_next_use_other:
  "use_list s w xs \<Longrightarrow> p \<notin> set xs \<Longrightarrow> use_list (upd_operand p (\<lambda>r. r\<lparr>next_use := z\<rparr>) s) w xs"
proof -
  assume a: "use_list s w xs" "p \<notin> set xs"
  have "(\<lambda>q. next_use (opnds (upd_operand p (\<lambda>r. r\<lparr>next_use := z\<rparr>) s) q))
      = (\<lambda>q. next_use (opnds s q))(p := z)"
    by (auto simp: upd_operand_def)
  then show ?thesis using a by (simp add: use_list_def use_chain_upd) (simp add: upd_operand_def)
qed

lemma use_list_head_other:
  "use_list s w xs \<Longrightarrow> w \<noteq> x \<Longrightarrow> use_list (upd_value x (\<lambda>v. v\<lparr>use_list_head := y\<rparr>) s) w xs"
  by (simp add: use_list_def upd_value_def)

lemma use_list_data [simp]:
  "use_list (upd_operand p (\<lambda>r. r\<lparr>data := z\<rparr>) s) w xs = use_list s w xs"
proof -
  have "(\<lambda>q. next_use (opnds (upd_operand p (\<lambda>r. r\<lparr>data := z\<rparr>) s) q)) = (\<lambda>q. next_use (opnds s q))"
    by (auto simp: upd_operand_def)
  then show ?thesis by (simp add: use_list_def) (simp add: upd_operand_def)
qed

lemma change_operand_value_inv:
  assumes ok: "operand_lists_ok s" and inv: "use_def_consistent s" and im: "in_module s p"
    and r: "change_operand_value n p nv s = Inr s'"
  shows "operand_lists_ok s' \<and> use_def_consistent s'"
proof (cases "data (opnds s p) = nv")
  case True
  with r have "s' = s" by (auto simp: change_operand_value_def split: if_splits)
  with ok inv show ?thesis by simp
next
  case False
  from r have k: "op_kind (opnds s p) = IR_OP_KIND_VALUE"
    by (auto simp: change_operand_value_def split: if_splits)
  from r False k obtain s1 where s1: "remove_operand_from_use_list n p s = Inr s1"
    by (auto simp: change_operand_value_def split: sum.splits)
  define s2 where "s2 = upd_operand p (\<lambda>r. r\<lparr>data := nv\<rparr>) s1"
  define linked where "linked = (\<exists>x. nv = Some x \<and> is_register s x)"
  note lo = rofl_links_only [OF s1]
  have reg2: "\<And>v. is_register s2 v = is_register s v"
    using lo by (simp add: s2_def is_register_def upd_operand_def links_only_def)
  have s': "s' = (case nv of None \<Rightarrow> upd_operand p (\<lambda>r. r\<lparr>next_use := None\<rparr>) s2
        | Some x \<Rightarrow> if is_register s x
             then upd_value x (\<lambda>v. v\<lparr>use_list_head := Some p\<rparr>)
                    (upd_operand p (\<lambda>r. r\<lparr>next_use := use_list_head (vals s2 x)\<rparr>) s2)
             else upd_operand p (\<lambda>r. r\<lparr>next_use := None\<rparr>) s2)"
    using r False k s1 reg2 by (auto simp: change_operand_value_def s2_def Let_def is_register_def split: option.splits)
  have fr: "insts s' = insts s" "next_operand s' = next_operand s"
    "\<And>q. user (opnds s' q) = user (opnds s q)" "\<And>q. op_kind (opnds s' q) = op_kind (opnds s q)"
    "\<And>q. q \<noteq> p \<Longrightarrow> data (opnds s' q) = data (opnds s q)" "data (opnds s' p) = nv"
    "\<And>v. is_register s' v = is_register s v"
    using lo unfolding s' s2_def
    by (auto simp: links_only_def upd_operand_def upd_value_def is_register_def split: option.splits)
  have ok': "operand_lists_ok s'" using ok fr(1-3) by (simp add: operand_lists_ok_def)
  have im': "\<And>q. in_module s' q = in_module s q" using fr(1,3) by (simp add: in_module_def split: option.splits)
  have rf: "\<And>q w. q \<noteq> p \<Longrightarrow> references s' q w = references s q w"
    using im' fr(4,5) by (simp add: references_def)
  have rfp: "\<And>w. references s' p w \<longleftrightarrow> nv = Some w"
    using im' im fr(4,6) k by (simp add: references_def)
  have "use_def_consistent s'"
    unfolding use_def_consistent_def
  proof (intro allI impI)
    fix w assume "is_register s' w"
    then have w: "is_register s w" using fr(7) by simp
    from udc_obtain [OF inv w] obtain xs where xs: "use_list s w xs" "distinct xs"
      "\<And>q. q \<in> set xs \<longleftrightarrow> references s q w" by blast
    have c1: "use_list s2 w (remove1 p xs)" using rofl_effect [OF inv s1 w xs(1)] by (simp add: s2_def)
    have pn: "p \<notin> set (remove1 p xs)" using xs(2) by simp
    show "\<exists>xs. use_list s' w xs \<and> distinct xs \<and> (\<forall>p. p \<in> set xs \<longleftrightarrow> references s' p w)"
    proof (cases "nv = Some w")
      case True
      have nr: "\<not> references s p w" using False True by (simp add: references_def)
      then have "p \<notin> set xs" using xs(3) by simp
      then have c2: "use_list s2 w xs" using c1 by (simp add: remove1_idem)
      have "use_list s' w (p # xs)"
        unfolding s' using True w use_list_link [OF c2 \<open>p \<notin> set xs\<close>] by simp
      moreover have "distinct (p # xs)" using xs(2) \<open>p \<notin> set xs\<close> by simp
      moreover have "\<forall>q. q \<in> set (p # xs) \<longleftrightarrow> references s' q w"
        using xs(3) rf rfp True nr by (metis set_ConsD list.set_intros(1,2))
      ultimately show ?thesis by blast
    next
      case nw: False
      have "use_list s' w (remove1 p xs)"
      proof (cases nv)
        case None
        then show ?thesis unfolding s' using use_list_next_use_other [OF c1 pn] by simp
      next
        case (Some x)
        with nw have "w \<noteq> x" by auto
        then show ?thesis unfolding s' using Some
          use_list_next_use_other [OF c1 pn]
          use_list_head_other [OF use_list_next_use_other [OF c1 pn]]
          by auto
      qed
      moreover have "distinct (remove1 p xs)" using xs(2) by simp
      moreover have "\<forall>q. q \<in> set (remove1 p xs) \<longleftrightarrow> references s' q w"
      proof
        fix q show "q \<in> set (remove1 p xs) \<longleftrightarrow> references s' q w"
          by (cases "q = p") (use xs(2,3) rf rfp nw in auto)
      qed
      ultimately show ?thesis by blast
    qed
  qed
  with ok' show ?thesis by simp
qed


lemma change_operand_value_frame:
  assumes r: "change_operand_value n p nv s = Inr s'"
  shows "insts s' = insts s" "bbs s' = bbs s" "funcs s' = funcs s" "next_operand s' = next_operand s"
    "\<And>q. user (opnds s' q) = user (opnds s q)" "\<And>q. op_kind (opnds s' q) = op_kind (opnds s q)"
    "\<And>q. q \<noteq> p \<Longrightarrow> data (opnds s' q) = data (opnds s q)" "data (opnds s' p) = nv"
    "\<And>v. is_register s' v = is_register s v"
    "\<And>w. \<not> is_register s w \<Longrightarrow> use_list_head (vals s' w) = use_list_head (vals s w)"
proof -
  have "insts s' = insts s \<and> bbs s' = bbs s \<and> funcs s' = funcs s \<and> next_operand s' = next_operand s \<and>
    (\<forall>q. user (opnds s' q) = user (opnds s q)) \<and> (\<forall>q. op_kind (opnds s' q) = op_kind (opnds s q)) \<and>
    (\<forall>q. q \<noteq> p \<longrightarrow> data (opnds s' q) = data (opnds s q)) \<and> data (opnds s' p) = nv \<and>
    (\<forall>v. is_register s' v = is_register s v) \<and>
    (\<forall>w. \<not> is_register s w \<longrightarrow> use_list_head (vals s' w) = use_list_head (vals s w))"
  proof (cases "data (opnds s p) = nv")
    case True
    with r have "s' = s" by (auto simp: change_operand_value_def split: if_splits)
    with True show ?thesis by simp
  next
    case False
    from r have k: "op_kind (opnds s p) = IR_OP_KIND_VALUE"
      by (auto simp: change_operand_value_def split: if_splits)
    from r False k obtain s1 where s1: "remove_operand_from_use_list n p s = Inr s1"
      by (auto simp: change_operand_value_def split: sum.splits)
    note lo = rofl_links_only [OF s1]
    have hd: "\<And>w. \<not> is_register s w \<Longrightarrow> use_list_head (vals s1 w) = use_list_head (vals s w)"
      by (rule rofl_heads [OF s1])
    define s2 where "s2 = upd_operand p (\<lambda>r. r\<lparr>data := nv\<rparr>) s1"
    have reg2: "\<And>v. is_register s2 v = is_register s v"
      using lo by (simp add: s2_def is_register_def upd_operand_def links_only_def)
    have s': "s' = (case nv of None \<Rightarrow> upd_operand p (\<lambda>r. r\<lparr>next_use := None\<rparr>) s2
        | Some x \<Rightarrow> if is_register s x
             then upd_value x (\<lambda>v. v\<lparr>use_list_head := Some p\<rparr>)
                    (upd_operand p (\<lambda>r. r\<lparr>next_use := use_list_head (vals s2 x)\<rparr>) s2)
             else upd_operand p (\<lambda>r. r\<lparr>next_use := None\<rparr>) s2)"
      using r False k s1 reg2 by (auto simp: change_operand_value_def s2_def Let_def is_register_def split: option.splits)
    show ?thesis using lo hd unfolding s' s2_def
      by (auto simp: links_only_def upd_operand_def upd_value_def is_register_def split: option.splits)
  qed
  then show "insts s' = insts s" "bbs s' = bbs s" "funcs s' = funcs s" "next_operand s' = next_operand s"
    "\<And>q. user (opnds s' q) = user (opnds s q)" "\<And>q. op_kind (opnds s' q) = op_kind (opnds s q)"
    "\<And>q. q \<noteq> p \<Longrightarrow> data (opnds s' q) = data (opnds s q)" "data (opnds s' p) = nv"
    "\<And>v. is_register s' v = is_register s v"
    "\<And>w. \<not> is_register s w \<Longrightarrow> use_list_head (vals s' w) = use_list_head (vals s w)"
    by auto
qed

lemma change_operand_value_mono:
  "change_operand_value n p nv s = Inr s' \<Longrightarrow> n \<le> m \<Longrightarrow> change_operand_value m p nv s = Inr s'"
  unfolding change_operand_value_def
  by (auto split: if_splits sum.splits dest: rofl_mono)

lemma rofl_total:
  assumes inv: "use_def_consistent s"
    and big: "\<And>v xs. data (opnds s p) = Some v \<Longrightarrow> is_register s v \<Longrightarrow> use_list s v xs \<Longrightarrow> length xs < n"
  shows "\<exists>s1. remove_operand_from_use_list n p s = Inr s1"
proof (cases "op_kind (opnds s p) = IR_OP_KIND_VALUE \<and> (\<exists>v. data (opnds s p) = Some v \<and> is_register s v)")
  case False
  then show ?thesis
    by (auto simp: remove_operand_from_use_list_def is_register_def split: if_splits option.splits)
next
  case True
  then obtain v where v: "op_kind (opnds s p) = IR_OP_KIND_VALUE" "data (opnds s p) = Some v" "is_register s v"
    by blast
  from udc_obtain [OF inv v(3)] obtain ys where ys: "use_list s v ys" "distinct ys" by blast
  have "length ys < n" using big v ys by blast
  then have "\<exists>s'. unlink_use n (UseListHead v) p s = Inr s' \<and>
            use_chain (\<lambda>q. next_use (opnds s' q)) (read_link s' (UseListHead v)) (remove1 p ys) \<and>
            (\<forall>q. q \<notin> set ys \<and> UseListHead v \<noteq> NextUse q \<longrightarrow> next_use (opnds s' q) = next_use (opnds s q))"
    using ys(1,2) by (intro unlink_use_chain) (auto simp: use_list_def read_link_def)
  then show ?thesis using v by (auto simp: remove_operand_from_use_list_def is_register_def)
qed

lemma change_operand_value_total:
  assumes inv: "use_def_consistent s" and k: "op_kind (opnds s p) = IR_OP_KIND_VALUE"
    and big: "\<And>v xs. data (opnds s p) = Some v \<Longrightarrow> is_register s v \<Longrightarrow> use_list s v xs \<Longrightarrow> length xs < n"
  shows "\<exists>s1. change_operand_value n p nv s = Inr s1"
proof -
  have "\<exists>s1. remove_operand_from_use_list n p s = Inr s1"
    by (rule rofl_total [OF inv]) (rule big)
  then obtain s1 where "remove_operand_from_use_list n p s = Inr s1" by blast
  then show ?thesis using k by (auto simp: change_operand_value_def Let_def split: option.splits)
qed


lemma change_operand_value_chain:
  assumes inv: "use_def_consistent s" and r: "change_operand_value n p nv s = Inr s'"
    and ne: "data (opnds s p) \<noteq> nv" and w: "is_register s w" and xs: "use_list s w xs"
    and nw: "nv \<noteq> Some w"
  shows "use_list s' w (remove1 p xs)"
proof -
  from r have k: "op_kind (opnds s p) = IR_OP_KIND_VALUE"
    by (auto simp: change_operand_value_def split: if_splits)
  from r ne k obtain s1 where s1: "remove_operand_from_use_list n p s = Inr s1"
    by (auto simp: change_operand_value_def split: sum.splits)
  define s2 where "s2 = upd_operand p (\<lambda>r. r\<lparr>data := nv\<rparr>) s1"
  note lo = rofl_links_only [OF s1]
  have reg2: "\<And>v. is_register s2 v = is_register s v"
    using lo by (simp add: s2_def is_register_def upd_operand_def links_only_def)
  have s': "s' = (case nv of None \<Rightarrow> upd_operand p (\<lambda>r. r\<lparr>next_use := None\<rparr>) s2
        | Some x \<Rightarrow> if is_register s x
             then upd_value x (\<lambda>v. v\<lparr>use_list_head := Some p\<rparr>)
                    (upd_operand p (\<lambda>r. r\<lparr>next_use := use_list_head (vals s2 x)\<rparr>) s2)
             else upd_operand p (\<lambda>r. r\<lparr>next_use := None\<rparr>) s2)"
    using r ne k s1 reg2 by (auto simp: change_operand_value_def s2_def Let_def is_register_def split: option.splits)
  have d: "distinct xs" by (rule udc_chain(1) [OF inv w xs])
  have c1: "use_list s2 w (remove1 p xs)" using rofl_effect [OF inv s1 w xs] by (simp add: s2_def)
  have pn: "p \<notin> set (remove1 p xs)" using d by simp
  show ?thesis
  proof (cases nv)
    case None
    then show ?thesis unfolding s' using use_list_next_use_other [OF c1 pn] by simp
  next
    case (Some x)
    with nw have "w \<noteq> x" by auto
    then show ?thesis unfolding s' using Some
        use_list_next_use_other [OF c1 pn]
        use_list_head_other [OF use_list_next_use_other [OF c1 pn]]
      by auto
  qed
qed

lemma add_operand_inv:
  assumes ok: "operand_lists_ok s" and inv: "use_def_consistent s"
    and r: "add_operand i k d s = Inr (res, s')"
  shows "operand_lists_ok s' \<and> use_def_consistent s'"
proof (cases d)
  case None with r ok inv show ?thesis by (simp add: add_operand_def)
next
  case (Some x)
  define p where "p = next_operand s"
  define s2 where "s2 = upd_instruction i (\<lambda>j. j\<lparr>operand_list := operand_list j @ [p]\<rparr>)
     (s\<lparr>opnds := (opnds s)(p := \<lparr>op_kind = k, data = Some x, user = Some i, next_use = None\<rparr>),
        next_operand := Suc p\<rparr>)"
  define lk where "lk = (k = IR_OP_KIND_VALUE \<and> \<not> is_constant (vals s x))"
  have s': "s' = (if lk then upd_value x (\<lambda>v. v\<lparr>use_list_head := Some p\<rparr>)
                        (upd_operand p (\<lambda>r. r\<lparr>next_use := use_list_head (vals s2 x)\<rparr>) s2)
                  else s2)"
    using r Some unfolding add_operand_def create_ir_operand_def s2_def p_def lk_def
    by (auto simp: Let_def upd_instruction_def split: option.splits if_splits)
  have nim: "\<not> in_module s p" using in_module_bound [OF ok, of p] by (auto simp: p_def)
  have nl: "\<And>j. p \<notin> set (operand_list (insts s j))"
    using ok by (auto simp: operand_lists_ok_def p_def)
  have ok2: "operand_lists_ok s2"
    using ok nl unfolding operand_lists_ok_def s2_def upd_instruction_def p_def
    by (auto simp: less_Suc_eq)
  have ok': "operand_lists_ok s'"
    using ok2 unfolding s' operand_lists_ok_def upd_value_def upd_operand_def by auto
  have reg: "\<And>v. is_register s' v = is_register s v"
    unfolding s' s2_def is_register_def upd_value_def upd_operand_def upd_instruction_def by auto
  have im2: "\<And>q. in_module s' q \<longleftrightarrow> in_module s q \<or> q = p"
    using nl unfolding s' s2_def in_module_def upd_value_def upd_operand_def upd_instruction_def
    by (auto split: option.splits)
  have rf: "\<And>q w. q \<noteq> p \<Longrightarrow> references s' q w = references s q w"
    using im2 unfolding references_def
    by (auto simp: s' s2_def upd_value_def upd_operand_def upd_instruction_def)
  have rfp: "\<And>w. references s' p w \<longleftrightarrow> k = IR_OP_KIND_VALUE \<and> w = x"
    using im2 unfolding references_def
    by (auto simp: s' s2_def upd_value_def upd_operand_def upd_instruction_def)
  have "use_def_consistent s'"
    unfolding use_def_consistent_def
  proof (intro allI impI)
    fix w assume "is_register s' w"
    then have w: "is_register s w" using reg by simp
    from udc_obtain [OF inv w] obtain xs where xs: "use_list s w xs" "distinct xs"
      "\<And>q. q \<in> set xs \<longleftrightarrow> references s q w" by blast
    have pn: "p \<notin> set xs" using xs(3) nim by (auto simp: references_def)
    have "(\<lambda>q. next_use (opnds s2 q)) = (\<lambda>q. next_use (opnds s q))(p := None)"
      by (auto simp: s2_def upd_instruction_def)
    then have c2: "use_list s2 w xs"
      using xs(1) pn by (simp add: use_list_def use_chain_upd) (simp add: s2_def upd_instruction_def)
    show "\<exists>xs. use_list s' w xs \<and> distinct xs \<and> (\<forall>p. p \<in> set xs \<longleftrightarrow> references s' p w)"
    proof (cases "lk \<and> w = x")
      case True
      have "use_list s' w (p # xs)" unfolding s' using True use_list_link [OF c2 pn] by simp
      moreover have "distinct (p # xs)" using xs(2) pn by simp
      moreover have "\<forall>q. q \<in> set (p # xs) \<longleftrightarrow> references s' q w"
      proof
        fix q show "q \<in> set (p # xs) \<longleftrightarrow> references s' q w"
          by (cases "q = p") (use xs(3) rf rfp True lk_def in auto)
      qed
      ultimately show ?thesis by blast
    next
      case False
      have "use_list s' w xs"
      proof (cases lk)
        case True
        with False have "w \<noteq> x" by simp
        then show ?thesis unfolding s' using True
            use_list_head_other [OF use_list_next_use_other [OF c2 pn]] by auto
      next
        case False then show ?thesis unfolding s' using c2 by simp
      qed
      moreover have "\<forall>q. q \<in> set xs \<longleftrightarrow> references s' q w"
      proof
        fix q show "q \<in> set xs \<longleftrightarrow> references s' q w"
        proof (cases "q = p")
          case True
          have "\<not> references s' p w" using rfp False w by (auto simp: lk_def is_register_def)
          then show ?thesis using True pn by simp
        next
          case False then show ?thesis using xs(3) rf by simp
        qed
      qed
      ultimately show ?thesis using xs(2) by blast
    qed
  qed
  with ok' show ?thesis by simp
qed


lemma in_worklist_upd:
  fixes s ui b
  defines "t \<equiv> upd_instruction ui (\<lambda>x. x\<lparr>in_worklist := b\<rparr>) s"
  shows "vals t = vals s" "opnds t = opnds s" "operand_lists_ok t = operand_lists_ok s"
    "use_def_consistent t = use_def_consistent s" "use_list t = use_list s"
    "is_register t = is_register s" "in_module t = in_module s"
proof -
  show v: "vals t = vals s" and o: "opnds t = opnds s" by (simp_all add: t_def upd_instruction_def)
  have l: "\<And>j. operand_list (insts t j) = operand_list (insts s j)"
    by (simp add: t_def upd_instruction_def)
  have n: "next_operand t = next_operand s" by (simp add: t_def upd_instruction_def)
  show "operand_lists_ok t = operand_lists_ok s" by (simp add: operand_lists_ok_def l o n)
  show ul: "use_list t = use_list s" by (intro ext) (simp add: use_list_def v o)
  show rg: "is_register t = is_register s" by (intro ext) (simp add: is_register_def v)
  show im: "in_module t = in_module s" by (intro ext) (simp add: in_module_def o l split: option.splits)
  have "references t = references s" by (intro ext) (simp add: references_def im o)
  then show "use_def_consistent t = use_def_consistent s"
    by (simp add: use_def_consistent_def ul rg)
qed

lemma rauw_loop_step:
  assumes "use_list_head (vals s old) = Some u" "change_operand_value n u new s = Inr s1"
  shows "\<exists>wl1 s1'. rauw_loop (Suc n) wl old new s = rauw_loop n wl1 old new s1' \<and>
           (s1' = s1 \<or> (\<exists>ui. s1' = upd_instruction ui (\<lambda>x. x\<lparr>in_worklist := True\<rparr>) s1))"
  using assms by (auto simp: Let_def split: option.splits)

lemma rauw_loop_mono:
  "rauw_loop n wl old new s = Inr r \<Longrightarrow> n \<le> m \<Longrightarrow> rauw_loop m wl old new s = Inr r"
proof (induction n arbitrary: m wl s)
  case 0 then show ?case by simp
next
  case (Suc n)
  then obtain m' where m: "m = Suc m'" "n \<le> m'" by (cases m) auto
  show ?case
  proof (cases "use_list_head (vals s old)")
    case None with Suc.prems m show ?thesis by simp
  next
    case (Some u)
    show ?thesis
    proof (cases "change_operand_value n u new s")
      case (Inl e) with Some Suc.prems show ?thesis by (simp add: Let_def)
    next
      case (Inr s1)
      then have c': "change_operand_value m' u new s = Inr s1" using m by (auto intro: change_operand_value_mono)
      show ?thesis using Suc.prems(1) Some Inr c' m Suc.IH [OF _ m(2)]
        by (auto simp: Let_def split: option.splits if_splits)
    qed
  qed
qed

lemma rauw_loop_diverges:
  "\<not> is_register s old \<Longrightarrow> use_list_head (vals s old) \<noteq> None \<Longrightarrow> rauw_loop n wl old new s \<noteq> Inr r"
proof (induction n arbitrary: wl s)
  case 0 then show ?case by simp
next
  case (Suc n)
  then obtain u where u: "use_list_head (vals s old) = Some u" by auto
  show ?case
  proof (cases "change_operand_value n u new s")
    case (Inl e) with u show ?thesis by (simp add: Let_def)
  next
    case (Inr s1)
    note f = change_operand_value_frame [OF Inr]
    from rauw_loop_step [OF u Inr, of wl] obtain wl1 s1' where
      st: "rauw_loop (Suc n) wl old new s = rauw_loop n wl1 old new s1'"
      and s1': "s1' = s1 \<or> (\<exists>ui. s1' = upd_instruction ui (\<lambda>x. x\<lparr>in_worklist := True\<rparr>) s1)" by blast
    have "\<not> is_register s1' old" "use_list_head (vals s1' old) \<noteq> None"
      using s1' f(9,10) Suc.prems by (auto simp: in_worklist_upd)
    from Suc.IH [OF this] st show ?thesis by simp
  qed
qed

lemma rauw_loop_total:
  assumes "operand_lists_ok s" "use_def_consistent s" "is_register s old" "Some old \<noteq> new"
    "use_list s old xs" "Suc (length xs) < n"
  shows "\<exists>wl' s'. rauw_loop n wl old new s = Inr (wl', s') \<and> operand_lists_ok s' \<and>
           use_def_consistent s' \<and> use_list_head (vals s' old) = None \<and>
           (\<forall>p \<in> set xs. data (opnds s' p) = new) \<and> in_module s' = in_module s \<and>
           (\<forall>p. p \<notin> set xs \<longrightarrow> data (opnds s' p) = data (opnds s p))"
  using assms
proof (induction xs arbitrary: n wl s)
  case Nil
  then obtain m where "n = Suc m" by (cases n) auto
  with Nil show ?case by (auto simp: use_list_def)
next
  case (Cons u us)
  then obtain m where n: "n = Suc m" "Suc (length us) < m" by (cases n) auto
  note ok = Cons.prems(1) and inv = Cons.prems(2) and reg = Cons.prems(3) and ne = Cons.prems(4)
    and ch = Cons.prems(5)
  have hd: "use_list_head (vals s old) = Some u" using ch by (simp add: use_list_def)
  note c = udc_chain [OF inv reg ch]
  have ru: "references s u old" using c(2) [of u] by simp
  then have im: "in_module s u" and k: "op_kind (opnds s u) = IR_OP_KIND_VALUE"
    and du: "data (opnds s u) = Some old" by (auto simp: references_def)
  have "\<exists>s1. change_operand_value m u new s = Inr s1"
  proof (rule change_operand_value_total [OF inv k])
    fix v ys assume "data (opnds s u) = Some v" "is_register s v" "use_list s v ys"
    with du ch have "ys = u # us" by (auto intro: use_list_unique)
    then show "length ys < m" using n by simp
  qed
  then obtain s1 where s1: "change_operand_value m u new s = Inr s1" by blast
  note f = change_operand_value_frame [OF s1]
  from change_operand_value_inv [OF ok inv im s1] have ok1: "operand_lists_ok s1" and inv1: "use_def_consistent s1" by auto
  have ch1: "use_list s1 old us"
    using change_operand_value_chain [OF inv s1 _ reg ch] du ne by auto
  have im1: "in_module s1 u" using im f(1,5) by (simp add: in_module_def split: option.splits)
  from rauw_loop_step [OF hd s1, of wl] obtain wl1 s1' where
    st: "rauw_loop (Suc m) wl old new s = rauw_loop m wl1 old new s1'"
    and s1': "s1' = s1 \<or> (\<exists>ui. s1' = upd_instruction ui (\<lambda>x. x\<lparr>in_worklist := True\<rparr>) s1)" by blast
  have p1: "operand_lists_ok s1'" "use_def_consistent s1'" "is_register s1' old" "use_list s1' old us"
    and d1: "opnds s1' = opnds s1"
    using s1' ok1 inv1 reg f(9) ch1 by (auto simp: in_worklist_upd)
  from Cons.IH [OF p1(1,2,3) ne p1(4) n(2), of wl1] obtain wl' s' where
    r: "rauw_loop m wl1 old new s1' = Inr (wl', s')" and ok': "operand_lists_ok s'"
    and inv': "use_def_consistent s'" and hd': "use_list_head (vals s' old) = None"
    and a: "\<forall>p \<in> set us. data (opnds s' p) = new" and e: "in_module s' = in_module s1'"
    and b: "\<forall>p. p \<notin> set us \<longrightarrow> data (opnds s' p) = data (opnds s1' p)" by blast
  have un: "u \<notin> set us" using c(1) by simp
  have "data (opnds s' u) = new" using b un d1 f(8) by simp
  moreover have "in_module s' = in_module s"
  proof -
    have "in_module s1 = in_module s" using f(1,5) by (intro ext) (simp add: in_module_def split: option.splits)
    moreover have "in_module s1' = in_module s1" using s1' by (auto simp: in_worklist_upd)
    ultimately show ?thesis using e by simp
  qed
  moreover have "\<forall>p. p \<notin> set (u # us) \<longrightarrow> data (opnds s' p) = data (opnds s p)"
    using b d1 f(7) by auto
  ultimately show ?case using r st n ok' inv' hd' a by auto
qed


lemma replace_all_uses_with_inv:
  assumes ok: "operand_lists_ok s" and inv: "use_def_consistent s"
    and r: "replace_all_uses_with n wl old new s = Inr (wl', s')"
  shows "operand_lists_ok s' \<and> use_def_consistent s'"
proof (cases "Some old = new \<or> use_list_head (vals s old) = None")
  case True
  with r ok inv show ?thesis by (auto simp: replace_all_uses_with_def)
next
  case False
  with r have l: "rauw_loop n wl old new s = Inr (wl', s')" by (auto simp: replace_all_uses_with_def)
  show ?thesis
  proof (cases "is_register s old")
    case False
    with rauw_loop_diverges [of s old n wl new "(wl', s')"] l \<open>\<not> (Some old = new \<or> use_list_head (vals s old) = None)\<close>
    show ?thesis by simp
  next
    case True
    from udc_obtain [OF inv True] obtain xs where xs: "use_list s old xs" by blast
    let ?m = "max n (Suc (Suc (Suc (length xs))))"
    have lm: "rauw_loop ?m wl old new s = Inr (wl', s')" by (rule rauw_loop_mono [OF l]) simp
    have "Suc (length xs) < ?m" by simp
    from rauw_loop_total [OF ok inv True _ xs this, of new wl] False lm
    show ?thesis by auto
  qed
qed

lemma do_call_inv:
  assumes "operand_lists_ok s" "use_def_consistent s" "call_on_module s c" "do_call n c s = Inr s'"
  shows "operand_lists_ok s' \<and> use_def_consistent s'"
proof (cases c)
  case (Add_operand i k d)
  with assms(4) obtain res where "add_operand i k d s = Inr (res, s')"
    by (cases "add_operand i k d s") (auto simp: do_call_def)
  from add_operand_inv [OF assms(1,2) this] show ?thesis .
next
  case (Remove_operand p)
  with assms(4) have "remove_operand n p s = Inr s'" by (simp add: do_call_def)
  from remove_operand_inv [OF assms(1,2) this] show ?thesis .
next
  case (Change_operand_value p nv)
  with assms(3,4) have "in_module s p" "change_operand_value n p nv s = Inr s'"
    by (simp_all add: do_call_def call_on_module_def)
  from change_operand_value_inv [OF assms(1,2) this] show ?thesis .
next
  case (Replace_all_uses_with wl old new)
  with assms(4) obtain wl' where "replace_all_uses_with n wl old new s = Inr (wl', s')"
    by (cases "replace_all_uses_with n wl old new s") (auto simp: do_call_def)
  from replace_all_uses_with_inv [OF assms(1,2) this] show ?thesis .
qed

lemma do_calls_inv:
  "operand_lists_ok s \<Longrightarrow> use_def_consistent s \<Longrightarrow> calls_on_module n cs s \<Longrightarrow>
   do_calls n cs s = Inr s' \<Longrightarrow> operand_lists_ok s' \<and> use_def_consistent s'"
proof (induction cs arbitrary: s)
  case Nil then show ?case by simp
next
  case (Cons c cs)
  from Cons.prems(4) obtain s1 where s1: "do_call n c s = Inr s1" and r: "do_calls n cs s1 = Inr s'"
    by (auto split: sum.splits)
  from Cons.prems(3) s1 have cm: "call_on_module s c" "calls_on_module n cs s1" by auto
  from do_call_inv [OF Cons.prems(1,2) cm(1) s1] have "operand_lists_ok s1" "use_def_consistent s1" by auto
  from Cons.IH [OF this cm(2) r] show ?case .
qed


lemmas ud_defs = do_call_def add_operand_def create_ir_operand_def upd_value_def upd_operand_def
  upd_instruction_def upd_block_def upd_function_def remove_operand_def change_operand_value_def
  remove_operand_from_use_list_def replace_all_uses_with_def read_link_def write_link_def
  worklist_add_def

lemma no_operands_consistent:
  assumes "\<And>v. use_list_head (vals s v) = None" "\<And>i. operand_list (insts s i) = []"
  shows "operand_lists_ok s \<and> use_def_consistent s"
proof -
  have "\<And>p. \<not> in_module s p" using assms(2) by (simp add: in_module_def split: option.splits)
  then have "\<And>p v. \<not> references s p v" by (simp add: references_def)
  moreover have "\<And>v. use_list s v []" using assms(1) by (simp add: use_list_def)
  ultimately have "use_def_consistent s" unfolding use_def_consistent_def
    by (metis distinct.simps(1) empty_iff list.set(1))
  moreover have "operand_lists_ok s" using assms(2) by (simp add: operand_lists_ok_def)
  ultimately show ?thesis by simp
qed

lemma use_def_base_ok: "operand_lists_ok use_def_base \<and> use_def_consistent use_def_base"
  by (rule no_operands_consistent) (simp_all add: use_def_base_def zeroed_defs)

lemma use_def_mid_run:
  "do_calls 0
      [Add_operand 1 IR_OP_KIND_VALUE (Some 1), Add_operand 2 IR_OP_KIND_VALUE (Some 1),
       Add_operand 1 IR_OP_KIND_VALUE (Some 3)] use_def_base = Inr use_def_mid"
  unfolding use_def_mid_def
  by (simp add: use_def_base_def zeroed_defs ud_defs)

lemma use_def_mid_ok: "operand_lists_ok use_def_mid \<and> use_def_consistent use_def_mid"
proof -
  have "calls_on_module 0
      [Add_operand 1 IR_OP_KIND_VALUE (Some 1), Add_operand 2 IR_OP_KIND_VALUE (Some 1),
       Add_operand 1 IR_OP_KIND_VALUE (Some 3)] use_def_base"
    by (simp add: call_on_module_def split: sum.splits)
  with use_def_base_ok use_def_mid_run show ?thesis by (blast dest: do_calls_inv)
qed

lemma use_def_mid_uses: "use_list use_def_mid 1 [1, 0]" "is_register use_def_mid 1"
  unfolding use_def_mid_def
  by (simp_all add: use_def_base_def zeroed_defs ud_defs use_list_def is_register_def)

subsection \<open>The claim on use-def consistency\<close>

text \<open>
  What the four calls keep, for registers.  From a module whose operand lists are well
  formed and whose use lists are consistent, every sequence of the four calls that
  returns, with \<open>remove_operand\<close> and \<open>change_operand_value\<close> called on operands of the
  module, ends in such a module: for every register \<open>v\<close> (a value that is not a constant and
  has a defining instruction) the use list of \<open>v\<close> is a chain without duplicates that holds
  exactly the value operands of the module that reference \<open>v\<close>.  And for a register \<open>old\<close>
  and a value \<open>new\<close> other than \<open>old\<close>, \<open>replace_all_uses_with(old, new)\<close> returns (given steps
  for the length of the use list), the use list of \<open>old\<close> is then empty and every operand
  that was in it is still in the module and references \<open>new\<close>.
\<close>

theorem use_def_consistency_after_calls:
  assumes "operand_lists_ok s" and "use_def_consistent s"
  shows "(calls_on_module n cs s \<longrightarrow> do_calls n cs s = Inr s' \<longrightarrow>
            operand_lists_ok s' \<and> use_def_consistent s') \<and>
         (is_register s old \<longrightarrow> Some old \<noteq> new \<longrightarrow> use_list s old xs \<longrightarrow> Suc (length xs) < n \<longrightarrow>
            (\<exists>wl' t. replace_all_uses_with n wl old new s = Inr (wl', t) \<and>
               use_list t old [] \<and>
               (\<forall>p \<in> set xs. in_module t p \<and> data (opnds t p) = new) \<and>
               operand_lists_ok t \<and> use_def_consistent t))"
proof (intro conjI impI)
  assume "calls_on_module n cs s" "do_calls n cs s = Inr s'"
  from do_calls_inv [OF assms this] show "operand_lists_ok s'" "use_def_consistent s'" by auto
next
  assume a: "is_register s old" "Some old \<noteq> new" "use_list s old xs" "Suc (length xs) < n"
  from rauw_loop_total [OF assms a, of wl] obtain wl' t where
    t: "rauw_loop n wl old new s = Inr (wl', t)" "operand_lists_ok t" "use_def_consistent t"
    "use_list_head (vals t old) = None" "\<forall>p \<in> set xs. data (opnds t p) = new"
    "in_module t = in_module s" by blast
  have "\<forall>p \<in> set xs. in_module s p" using udc_chain(2) [OF assms(2) a(1,3)] by (auto simp: references_def)
  moreover have "replace_all_uses_with n wl old new s = Inr (wl', t)"
  proof (cases "use_list_head (vals s old) = None")
    case True
    then have "xs = []" using a(3) by (cases xs) (auto simp: use_list_def)
    then obtain m where "n = Suc m" using a(4) by (cases n) auto
    with True t(1) show ?thesis by (simp add: replace_all_uses_with_def)
  next
    case False with a(2) t(1) show ?thesis by (auto simp: replace_all_uses_with_def)
  qed
  ultimately show "\<exists>wl' t. replace_all_uses_with n wl old new s = Inr (wl', t) \<and>
               use_list t old [] \<and>
               (\<forall>p \<in> set xs. in_module t p \<and> data (opnds t p) = new) \<and>
               operand_lists_ok t \<and> use_def_consistent t"
    using t by (auto simp: use_list_def)
qed

theorem use_def_consistency_after_calls_witness:
  "operand_lists_ok use_def_mid \<and> use_def_consistent use_def_mid \<and>
   calls_on_module 9 [Change_operand_value 0 (Some 2), Replace_all_uses_with (Some []) 1 (Some 2),
      Remove_operand (Some 0)] use_def_mid \<and>
   (case do_calls 9 [Change_operand_value 0 (Some 2), Replace_all_uses_with (Some []) 1 (Some 2),
      Remove_operand (Some 0)] use_def_mid of
      Inl e \<Rightarrow> False
    | Inr s' \<Rightarrow> operand_lists_ok s' \<and> use_def_consistent s' \<and> use_list s' 2 [1] \<and> use_list s' 1 []) \<and>
   is_register use_def_mid 1 \<and> Some (1::nat) \<noteq> Some 2 \<and> use_list use_def_mid 1 [1, 0] \<and>
   Suc (length [1::nat, 0]) < 9 \<and>
   (\<exists>wl' t. replace_all_uses_with 9 None 1 (Some 2) use_def_mid = Inr (wl', t) \<and>
      use_list t 1 [] \<and> (\<forall>p \<in> set [1, 0]. in_module t p \<and> data (opnds t p) = Some 2) \<and>
      operand_lists_ok t \<and> use_def_consistent t)"
proof -
  let ?cs = "[Change_operand_value 0 (Some 2), Replace_all_uses_with (Some []) 1 (Some 2),
      Remove_operand (Some 0)]"
  have cm: "calls_on_module 9 ?cs use_def_mid"
    unfolding use_def_mid_def
    by (simp add: use_def_base_def zeroed_defs ud_defs call_on_module_def in_module_def
        eval_nat_numeral Let_def)
  have "\<exists>s'. do_calls 9 ?cs use_def_mid = Inr s' \<and> use_list s' 2 [1] \<and> use_list s' 1 []"
    unfolding use_def_mid_def
    by (simp add: use_def_base_def zeroed_defs ud_defs use_list_def eval_nat_numeral Let_def)
  then obtain s' where s': "do_calls 9 ?cs use_def_mid = Inr s'" "use_list s' 2 [1]" "use_list s' 1 []"
    by blast
  note ok = use_def_mid_ok [THEN conjunct1] and inv = use_def_mid_ok [THEN conjunct2]
  note t = use_def_consistency_after_calls [OF ok inv, of 9 ?cs s' 1 "Some 2" "[1, 0]" None]
  have r: "is_register use_def_mid 1" "Some (1::nat) \<noteq> Some 2" "use_list use_def_mid 1 [1, 0]"
    "Suc (length [1::nat, 0]) < 9"
    using use_def_mid_uses by simp_all
  from t cm s'(1) have a: "operand_lists_ok s' \<and> use_def_consistent s'" by blast
  from t r have b: "\<exists>wl' t. replace_all_uses_with 9 None 1 (Some 2) use_def_mid = Inr (wl', t) \<and>
      use_list t 1 [] \<and> (\<forall>p \<in> set [1, 0]. in_module t p \<and> data (opnds t p) = Some 2) \<and>
      operand_lists_ok t \<and> use_def_consistent t" by blast
  show ?thesis using ok inv cm s' a b r by simp
qed

text \<open>
  When \<open>old\<close> and \<open>new\<close> are the same value, \<open>replace_all_uses_with\<close> returns at its first
  test and the use list of \<open>old\<close> stays as it was.
\<close>

theorem replace_all_uses_with_same_value:
  "operand_lists_ok use_def_mid \<and> use_def_consistent use_def_mid \<and> is_register use_def_mid 1 \<and>
   replace_all_uses_with 9 None 1 (Some 1) use_def_mid = Inr (None, use_def_mid) \<and>
   use_list use_def_mid 1 [1, 0] \<and> \<not> use_list use_def_mid 1 []"
proof -
  have "replace_all_uses_with 9 None 1 (Some 1) use_def_mid = Inr (None, use_def_mid)"
    by (simp add: replace_all_uses_with_def)
  moreover have "\<not> use_list use_def_mid 1 []"
    using use_def_mid_uses(1) by (auto dest: use_list_unique)
  ultimately show ?thesis using use_def_mid_ok use_def_mid_uses by simp
qed

text \<open>
  When the head of the use list of \<open>old\<close> is an operand that references \<open>new\<close> already,
  \<open>change_operand_value\<close> returns at its first test, the head stays, and the loop of
  \<open>replace_all_uses_with\<close> is in the same state one round later: it uses up every number
  of rounds.
\<close>

lemma rauw_loop_stuck:
  "use_list_head (vals s old) = Some u \<Longrightarrow> op_kind (opnds s u) = IR_OP_KIND_VALUE \<Longrightarrow>
   data (opnds s u) = new \<Longrightarrow> rauw_loop n wl old new s = Inl OutOfFuel"
proof (induction n arbitrary: wl s)
  case 0 show ?case by simp
next
  case (Suc n)
  have c: "change_operand_value n u new s = Inr s"
    using Suc.prems by (simp add: change_operand_value_def)
  have k: "rauw_loop n w old new (upd_instruction ui g s) = Inl OutOfFuel" for w ui g
    by (rule Suc.IH) (simp_all add: upd_instruction_def Suc.prems)
  have k0: "rauw_loop n w old new s = Inl OutOfFuel" for w
    by (rule Suc.IH) (simp_all add: Suc.prems)
  show ?case using Suc.prems(1) c k k0 by (simp add: Let_def split: option.splits)
qed

lemma argument_user_ok: "operand_lists_ok argument_user \<and> use_def_consistent argument_user"
proof -
  have r: "do_calls 0 [Add_operand 1 IR_OP_KIND_VALUE (Some 4)] use_def_base = Inr argument_user"
    unfolding argument_user_def by (simp add: use_def_base_def zeroed_defs ud_defs)
  have "calls_on_module 0 [Add_operand 1 IR_OP_KIND_VALUE (Some 4)] use_def_base"
    by (simp add: call_on_module_def split: sum.splits)
  with use_def_base_ok r show ?thesis by (blast dest: do_calls_inv)
qed

text \<open>
  C3.  The claim reads: after any sequence of operand-manipulation calls (\<open>add_operand\<close>,
  \<open>remove_operand\<close>, \<open>change_operand_value\<close>, \<open>replace_all_uses_with\<close>), for every
  register value \<open>v\<close> and every value operand \<open>o\<close> in the module, \<open>o\<close> references \<open>v\<close> if
  and only if \<open>o\<close> appears in the use list of \<open>v\<close>, with no duplicate entries; and after
  \<open>replace_all_uses_with(old, new)\<close> the use list of \<open>old\<close> is empty and every former
  user of \<open>old\<close> references \<open>new\<close>.

  The code does not do this for a value \<open>old\<close> that is not a constant and has no defining
  instruction: a function argument, or a result that the inliner gives a cloned
  instruction with \<open>ir_builder_create_reg\<close>.  \<open>add_operand\<close> puts a use of such a value
  into its use list, and \<open>remove_operand_from_use_list\<close> returns at once for it.  So the
  first round of \<open>replace_all_uses_with(old, new)\<close> makes the operand reference \<open>new\<close> and
  leaves it at the head of the use list of \<open>old\<close>, every later round finds it there, and
  the loop, which runs until that list is empty, never ends.

  In the module \<open>argument_user\<close>, which \<open>add_operand\<close> makes of \<open>use_def_base\<close>, the value 4
  is such a value, used by the operand 0 of the instruction 1, and the value 1 is the
  result of the instruction 0.  \<open>replace_all_uses_with\<close> of the value 4 by the value 1
  does not return: whatever the number of rounds allowed, with or without a worklist,
  they are used up.
\<close>

theorem replace_all_uses_with_argument_never_returns:
  "add_operand 1 IR_OP_KIND_VALUE (Some 4) use_def_base = Inr (Some 0, argument_user) \<and>
   \<not> is_constant (vals argument_user 4) \<and> def_instr (vals argument_user 4) = None \<and>
   use_list_head (vals argument_user 4) = Some 0 \<and> next_use (opnds argument_user 0) = None \<and>
   op_kind (opnds argument_user 0) = IR_OP_KIND_VALUE \<and> data (opnds argument_user 0) = Some 4 \<and>
   user (opnds argument_user 0) = Some 1 \<and>
   \<not> is_constant (vals argument_user 1) \<and> def_instr (vals argument_user 1) = Some 0 \<and>
   (\<forall>n wl. replace_all_uses_with n wl 4 (Some 1) argument_user = Inl OutOfFuel)"
proof -
  have f: "add_operand 1 IR_OP_KIND_VALUE (Some 4) use_def_base = Inr (Some 0, argument_user)"
    "\<not> is_constant (vals argument_user 4)" "def_instr (vals argument_user 4) = None"
    "use_list_head (vals argument_user 4) = Some 0" "next_use (opnds argument_user 0) = None"
    "op_kind (opnds argument_user 0) = IR_OP_KIND_VALUE" "data (opnds argument_user 0) = Some 4"
    "user (opnds argument_user 0) = Some 1"
    "\<not> is_constant (vals argument_user 1)" "def_instr (vals argument_user 1) = Some 0"
    unfolding argument_user_def
    by (simp_all add: use_def_base_def zeroed_defs add_operand_def create_ir_operand_def
        upd_value_def upd_operand_def upd_instruction_def Let_def)
  have "replace_all_uses_with n wl 4 (Some 1) argument_user = Inl OutOfFuel" for n wl
  proof (cases n)
    case 0 then show ?thesis using f(4) by (simp add: replace_all_uses_with_def)
  next
    case (Suc m)
    have r: "remove_operand_from_use_list m 0 argument_user = Inr argument_user"
      using f by (simp add: remove_operand_from_use_list_def)
    obtain s1 where c: "change_operand_value m 0 (Some 1) argument_user = Inr s1"
      and h: "use_list_head (vals s1 4) = Some 0" "op_kind (opnds s1 0) = IR_OP_KIND_VALUE"
        "data (opnds s1 0) = Some 1"
      using f r by (simp add: change_operand_value_def upd_value_def upd_operand_def Let_def)
    have k: "rauw_loop m w 4 (Some 1) (upd_instruction ui g s1) = Inl OutOfFuel" for w ui g
      by (rule rauw_loop_stuck [where u = 0]) (simp_all add: upd_instruction_def h)
    have k0: "rauw_loop m w 4 (Some 1) s1 = Inl OutOfFuel" for w
      by (rule rauw_loop_stuck [where u = 0]) (simp_all add: h)
    show ?thesis using Suc f(4) c k k0
      by (simp add: replace_all_uses_with_def Let_def split: option.splits)
  qed
  with f show ?thesis by simp
qed

section \<open>Erasing an instruction\<close>

text \<open>
  C9.  The claim reads: \<open>erase_instruction(instr)\<close> has the precondition that the result
  value of \<open>instr\<close>, if any, has an empty use list (asserted in debug builds); when it
  runs, it removes every operand of \<open>instr\<close> from the use lists of the values they
  reference, unlinks \<open>instr\<close> from the instruction list of its block and sets its opcode
  to the poisoned value \<open>IR_OP_UNKNOWN\<close>.

  \<open>add_operand\<close> links an operand into the use list of every value that is not a
  constant, but \<open>remove_operand_from_use_list\<close> leaves at once when the value has no
  defining instruction.  So for an instruction that uses a function argument, the erased
  instruction is unlinked and poisoned, while its operand stays in the argument's use
  list.
\<close>

theorem erase_instruction_leaves_argument_use:
  "add_operand 1 IR_OP_KIND_VALUE (Some 4) use_def_base = Inr (Some 0, argument_user) \<and>
   use_list argument_user 4 [0] \<and> user (opnds argument_user 0) = Some 1 \<and>
   operand_list (insts argument_user 1) = [0] \<and>
   (case erase_instruction 9 (Some 1) argument_user of
      Inl e \<Rightarrow> False
    | Inr s' \<Rightarrow>
        opcode (insts s' 1) = IR_OP_UNKNOWN \<and> instrs (bbs s' 0) = [0, 2] \<and>
        operand_list (insts s' 1) = [] \<and> use_list s' 4 [0] \<and> user (opnds s' 0) = Some 1)"
  unfolding argument_user_def
  by (simp add: use_def_base_def zeroed_defs ud_defs use_list_def erase_instruction_def
      eval_nat_numeral Let_def)

section \<open>Sparse conditional constant propagation\<close>

lemmas sccp_defs = run_sccp_def initialize_sccp_def assign_value_ids_def function_dests_def
  run_sccp_analysis_def sccp_continues_def sccp_round_def visit_block_def worklist_pop_def worklist_add_def
  get_lattice_value_def get_value_id_def evaluate_instruction_def evaluate_binary_def
  nth_operand_def operand_value_def dest_type_def merge_lattice_values_def are_lattice_values_equal_def
  set_lattice_value_def zeroed_LatticeValue_def fold_int_binop_def c_div_def c_rem_def INT_MIN_def
  transform_based_on_sccp_def
  create_constant_from_lattice_def create_ir_value_def replace_branch_def bb_tail_def
  mark_executable_def leading_phis_def List.map_filter_def

lemmas ic_defs = run_inst_combine_def visit_popped_def visit_fn_def visit_unhandled_def visit_fdiv_def
  visit_sdiv_def const_of_def ival_def answer_const_def create_const_float_def create_const_int_def
  create_const_def create_basic_type_def create_ir_value_def nth_operand_def operand_value_def
  erase_instruction_def worklist_add_def

text \<open>
  C1.  The claim reads: during the analysis of a reachable block, a conditional branch
  whose condition has the lattice state Constant marks exactly one successor reachable,
  one whose condition has the state Bottom marks both successors reachable, and an
  unconditional branch marks its single target reachable.

  \<open>visit_instruction\<close> has a case for the constant condition and a case for the
  unconditional branch, and none for a condition that is not a constant: visiting a
  conditional branch whose condition is Bottom (for instance an argument of the
  function) changes nothing, so neither successor is marked reachable, and the analysis
  of such a function ends with the entry block as its only reachable block.
\<close>

theorem visit_instruction_nonconstant_branch:
  assumes "parent (insts s i) = Some pb" and "executable_blocks ctx (post_order_id (bbs s pb))"
    and "dest (insts s i) = None" and "opcode (insts s i) = IR_OP_BR"
    and "length (operand_list (insts s i)) > 1"
    and "get_lattice_value ctx s (operand_value s (nth_operand s i 0)) = Inr lv"
    and "state lv = LATTICE_BOTTOM"
  shows "visit_instruction (Suc n) F ctx s (Some i) = Inr ctx"
  using assms by simp

theorem visit_instruction_nonconstant_branch_witness:
  "\<forall>F. (let s = branch_on_argument; ctx = projr (initialize_sccp F 0 0 s);
             lv = zeroed_LatticeValue\<lparr>state := LATTICE_BOTTOM\<rparr>
         in parent (insts s 0) = Some 0 \<and> executable_blocks ctx (post_order_id (bbs s 0)) \<and>
            dest (insts s 0) = None \<and> opcode (insts s 0) = IR_OP_BR \<and>
            length (operand_list (insts s 0)) > 1 \<and>
            get_lattice_value ctx s (operand_value s (nth_operand s 0 0)) = Inr lv \<and>
            state lv = LATTICE_BOTTOM \<and>
            visit_instruction (Suc 1) F ctx s (Some 0) = Inr ctx \<and>
            \<not> executable_blocks ctx (post_order_id (bbs s 1)) \<and>
            \<not> executable_blocks ctx (post_order_id (bbs s 2)) \<and>
            (case run_sccp_analysis 9 F ctx s of
               Inl e \<Rightarrow> False
             | Inr ctx' \<Rightarrow> \<not> executable_blocks ctx' (post_order_id (bbs s 1)) \<and>
                           \<not> executable_blocks ctx' (post_order_id (bbs s 2)) \<and>
                           cfg_worklist ctx' = [] \<and> ssa_worklist ctx' = []))"
proof
  fix F
  let ?s = branch_on_argument
  let ?lv = "zeroed_LatticeValue\<lparr>state := LATTICE_BOTTOM\<rparr>"
  obtain ctx where c: "initialize_sccp F 0 0 ?s = Inr ctx"
    and e: "executable_blocks ctx = (\<lambda>_. False)(2 := True)"
    and g: "get_lattice_value ctx ?s (operand_value ?s (nth_operand ?s 0 0)) = Inr ?lv"
    and r: "\<exists>ctx'. run_sccp_analysis 9 F ctx ?s = Inr ctx' \<and>
       executable_blocks ctx' = (\<lambda>_. False)(2 := True) \<and> cfg_worklist ctx' = [] \<and> ssa_worklist ctx' = []"
    by (simp add: branch_on_argument_def zeroed_defs sccp_defs i32_type_def eval_nat_numeral Let_def)
  have f: "parent (insts ?s 0) = Some 0" "post_order_id (bbs ?s 0) = 2" "dest (insts ?s 0) = None"
    "opcode (insts ?s 0) = IR_OP_BR" "length (operand_list (insts ?s 0)) > 1"
    "post_order_id (bbs ?s 1) = 1" "post_order_id (bbs ?s 2) = 0"
    by (simp_all add: branch_on_argument_def zeroed_defs)
  have b: "state ?lv = LATTICE_BOTTOM" by simp
  have x: "executable_blocks ctx (post_order_id (bbs ?s 0))" using e f(2) by simp
  note v = visit_instruction_nonconstant_branch [OF f(1) x f(3) f(4) f(5) g b, of 1 F]
  show "let s = ?s; ctx = projr (initialize_sccp F 0 0 s); lv = ?lv
         in parent (insts s 0) = Some 0 \<and> executable_blocks ctx (post_order_id (bbs s 0)) \<and>
            dest (insts s 0) = None \<and> opcode (insts s 0) = IR_OP_BR \<and>
            length (operand_list (insts s 0)) > 1 \<and>
            get_lattice_value ctx s (operand_value s (nth_operand s 0 0)) = Inr lv \<and>
            state lv = LATTICE_BOTTOM \<and>
            visit_instruction (Suc 1) F ctx s (Some 0) = Inr ctx \<and>
            \<not> executable_blocks ctx (post_order_id (bbs s 1)) \<and>
            \<not> executable_blocks ctx (post_order_id (bbs s 2)) \<and>
            (case run_sccp_analysis 9 F ctx s of
               Inl e \<Rightarrow> False
             | Inr ctx' \<Rightarrow> \<not> executable_blocks ctx' (post_order_id (bbs s 1)) \<and>
                           \<not> executable_blocks ctx' (post_order_id (bbs s 2)) \<and>
                           cfg_worklist ctx' = [] \<and> ssa_worklist ctx' = [])"
    unfolding Let_def c sum.sel using f x g b v e r by auto
qed

text \<open>
  C2.  The claim reads: no optimization pass constant-folds a signed division or
  remainder whose divisor is the constant zero; for every \<open>sdiv\<close> or \<open>srem\<close> whose second
  operand is the integer constant 0, both InstCombine and SCCP leave the result of the
  instruction unfolded (they never replace it with a constant).

  InstCombine does as the claim says: \<open>visit_sdiv\<close> and \<open>visit_srem\<close> return NULL at
  once for a constant zero divisor.  SCCP does not: \<open>evaluate_instruction\<close> folds a
  division of two constants with \<open>(v2 != 0) ? v1 / v2 : 0\<close>, and the transformation
  replaces every use of the result by the constant 0.  (The fold is reached when the
  two operands have equal lattice values, as in \<open>sdiv 0, 0\<close> on one constant; two
  different constants meet to Bottom before it.)
\<close>

lemma visit_sdiv_zero_divisor:
  "ic_op2 ctx = Some rhs \<Longrightarrow> is_constant (vals s rhs) \<Longrightarrow> int_val (vals s rhs) = 0 \<Longrightarrow>
   visit_sdiv n ctx s = Inr (None, ctx, s)"
  by (simp add: visit_sdiv_def const_of_def ival_def)

lemma visit_srem_zero_divisor:
  "ic_op2 ctx = Some rhs \<Longrightarrow> is_constant (vals s rhs) \<Longrightarrow> int_val (vals s rhs) = 0 \<Longrightarrow>
   visit_srem ctx s = Inr (None, ctx, s)"
  by (simp add: visit_srem_def const_of_def ival_def)

lemma inst_combine_keeps_division_by_zero:
  "run_inst_combine 9 F (Some 0) sdiv_zero_example = Inr (False, sdiv_zero_example)"
  by (simp add: sdiv_zero_example_def zeroed_defs ic_defs i32_type_def eval_nat_numeral Let_def)

theorem sccp_folds_division_by_zero:
  "opcode (insts sdiv_zero_example 0) = IR_OP_SDIV \<and>
   operand_list (insts sdiv_zero_example 0) = [0, 1] \<and>
   data (opnds sdiv_zero_example 1) = Some 3 \<and> is_constant (vals sdiv_zero_example 3) \<and>
   int_val (vals sdiv_zero_example 3) = 0 \<and> data (opnds sdiv_zero_example 2) = Some 1 \<and>
   dest (insts sdiv_zero_example 0) = Some 1 \<and>
   (case run_sccp 9 F (Some 0) sdiv_zero_example of
      Inl e \<Rightarrow> False
    | Inr (ch, s') \<Rightarrow>
        ch \<and> (case data (opnds s' 2) of
                None \<Rightarrow> False
              | Some c \<Rightarrow> is_constant (vals s' c) \<and> int_val (vals s' c) = 0 \<and> c = next_value sdiv_zero_example))"
  by (simp add: sdiv_zero_example_def zeroed_defs sccp_defs ud_defs i32_type_def eval_nat_numeral Let_def)

section \<open>Instruction combining\<close>

text \<open>
  C8.  The claim reads: InstCombine rewrites \<open>fdiv x, x\<close> to the floating-point constant
  1.0 only when \<open>x\<close> is a nonzero constant or a value known to be nonzero; for an \<open>x\<close>
  that is not known nonzero, the \<open>fdiv\<close> is left unchanged.

  The comment in \<open>visit_fdiv\<close> states the condition (\<open>x / x -> 1.0, if x != 0\<close>), the code
  tests only \<open>lhs == rhs\<close>: for every value \<open>x\<close> that is not a constant, an argument of
  the function for instance, \<open>visit_fdiv\<close> answers with a new constant 1.0, and
  \<open>run_inst_combine\<close> replaces the uses of the quotient by it and erases the \<open>fdiv\<close>.
\<close>

theorem visit_fdiv_same_value:
  assumes "ic_op1 ctx = Some x" and "ic_op2 ctx = Some x" and "\<not> is_constant (vals s x)"
  shows "\<exists>s'. visit_fdiv n F ctx s = Inr (Some (next_value s), ctx, s') \<and>
              is_constant (vals s' (next_value s)) \<and> int_val (vals s' (next_value s)) = float_1"
  using assms
  by (simp add: visit_fdiv_def const_of_def ival_def answer_const_def create_const_float_def
      create_const_def create_basic_type_def create_ir_value_def upd_value_def Let_def)

theorem visit_fdiv_same_value_witness:
  "\<forall>F. (let s = fdiv_self_example;
             ctx = \<lparr>ic_wl = [1], ic_instr = 0, ic_op1 = Some 3, ic_op2 = Some 3, ic_op3 = None,
                    ic_op4 = None, re_queue = False\<rparr>
         in ic_op1 ctx = Some 3 \<and> ic_op2 ctx = Some 3 \<and> \<not> is_constant (vals s 3) \<and>
            args (funcs s 0) = [3] \<and> opcode (insts s 0) = IR_OP_FDIV \<and>
            (\<exists>s'. visit_fdiv 9 F ctx s = Inr (Some (next_value s), ctx, s') \<and>
                   is_constant (vals s' (next_value s)) \<and>
                   int_val (vals s' (next_value s)) = float_1) \<and>
            (case run_inst_combine 9 F (Some 0) s of
               Inl e \<Rightarrow> False
             | Inr (ch, s') \<Rightarrow>
                 ch \<and> opcode (insts s' 0) = IR_OP_UNKNOWN \<and> instrs (bbs s' 0) = [1] \<and>
                 data (opnds s' 2) = Some 4 \<and> is_constant (vals s' 4) \<and>
                 int_val (vals s' 4) = float_1))"
proof
  fix F
  let ?s = fdiv_self_example
  let ?ctx = "\<lparr>ic_wl = [1], ic_instr = 0, ic_op1 = Some 3, ic_op2 = Some 3, ic_op3 = None,
                    ic_op4 = None, re_queue = False\<rparr>"
  have a: "ic_op1 ?ctx = Some 3" "ic_op2 ?ctx = Some 3" by simp_all
  have b: "\<not> is_constant (vals ?s 3)" "args (funcs ?s 0) = [3]" "opcode (insts ?s 0) = IR_OP_FDIV"
    by (simp_all add: fdiv_self_example_def zeroed_defs)
  have r: "(case run_inst_combine 9 F (Some 0) ?s of
               Inl e \<Rightarrow> False
             | Inr (ch, s') \<Rightarrow>
                 ch \<and> opcode (insts s' 0) = IR_OP_UNKNOWN \<and> instrs (bbs s' 0) = [1] \<and>
                 data (opnds s' 2) = Some 4 \<and> is_constant (vals s' 4) \<and>
                 int_val (vals s' 4) = float_1)"
    by (simp add: fdiv_self_example_def zeroed_defs ic_defs ud_defs f32_type_def eval_nat_numeral Let_def)
  note v = visit_fdiv_same_value [OF a b(1), of 9 F]
  show "let s = ?s; ctx = ?ctx
         in ic_op1 ctx = Some 3 \<and> ic_op2 ctx = Some 3 \<and> \<not> is_constant (vals s 3) \<and>
            args (funcs s 0) = [3] \<and> opcode (insts s 0) = IR_OP_FDIV \<and>
            (\<exists>s'. visit_fdiv 9 F ctx s = Inr (Some (next_value s), ctx, s') \<and>
                   is_constant (vals s' (next_value s)) \<and>
                   int_val (vals s' (next_value s)) = float_1) \<and>
            (case run_inst_combine 9 F (Some 0) s of
               Inl e \<Rightarrow> False
             | Inr (ch, s') \<Rightarrow>
                 ch \<and> opcode (insts s' 0) = IR_OP_UNKNOWN \<and> instrs (bbs s' 0) = [1] \<and>
                 data (opnds s' 2) = Some 4 \<and> is_constant (vals s' 4) \<and>
                 int_val (vals s' 4) = float_1)"
    unfolding Let_def using a b r v by simp
qed

section \<open>Aggressive dead code elimination\<close>















lemma propagate_control_flow_liveness_live:
  "in_bounds (n_blocks L) (post_order_id (bbs s b)) \<Longrightarrow> live_blocks L (post_order_id (bbs s b)) \<Longrightarrow>
     propagate_control_flow_liveness (Some b) L s = Inr (L, s)"
  by (simp add: propagate_control_flow_liveness_def)



























section \<open>Dominator analysis\<close>

lemmas dom_defs = compute_dominators_def perform_post_order_traversal_def compute_dominator_sets_def
  compute_immediate_dominators_def build_dominator_tree_def compute_dominance_frontiers_def
  compute_dom_tree_timestamps_def new_dominator_set_def greatest_dominator_id_def
  bitset_create_def bitset_add_def bitset_contains_def bitset_copy_def bitset_intersect_def
  bitset_equals_def bitset_set_all_def memcpy_words_def memset_words_def upd_block_def upd_function_def


lemma dfs_visit_numeral:
  "dfs_visit (numeral k) s block st =
     (case dfs_successors (pred_numeral k) s (successors (bbs s block))
             ((fst st)(post_order_id (bbs s block) := True), snd st) of
        Inl e \<Rightarrow> Inl e
      | Inr st1 \<Rightarrow> Inr (fst st1, snd st1 @ [block]))"
  by (simp only: numeral_eq_Suc [of k] dfs_visit.simps)

lemma dominator_fixpoint_numeral:
  "dominator_fixpoint (numeral k) s e ctx temp_set =
     (case dominator_pass s e (dc_reverse_post_order ctx) (ctx, temp_set, False) of
        Inl err \<Rightarrow> Inl err
      | Inr (ctx1, t, chg) \<Rightarrow>
          if chg then dominator_fixpoint (pred_numeral k) s e ctx1 t else Inr ctx1)"
  by (simp only: numeral_eq_Suc [of k] dominator_fixpoint.simps)

lemma frontier_runner_numeral:
  "frontier_runner (numeral k) s b runner df_sets =
     (if runner = idom (bbs s b) then Inr df_sets
      else (case runner of
              None \<Rightarrow> Inl AssertionFailed
            | Some r \<Rightarrow>
                frontier_runner (pred_numeral k) s b (idom (bbs s r))
                  (df_sets(post_order_id (bbs s r) :=
                     bitset_add (df_sets (post_order_id (bbs s r))) (post_order_id (bbs s b))))))"
  by (simp only: numeral_eq_Suc [of k] frontier_runner.simps)

lemma dfs_dom_tree_numeral:
  "dfs_dom_tree (numeral k) None time s = Inr (time, s)"
  "dfs_dom_tree (numeral k) (Some b) time s =
     (let s1 = upd_block b (\<lambda>x. x\<lparr>dom_tin := time\<rparr>) s
      in case dfs_dom_children (pred_numeral k) (dom_children (bbs s1 b)) (time + 1) s1 of
           Inl e \<Rightarrow> Inl e
         | Inr (t, s2) \<Rightarrow> Inr (t + 1, upd_block b (\<lambda>x. x\<lparr>dom_tout := t\<rparr>) s2))"
  by (simp_all only: numeral_eq_Suc [of k] dfs_dom_tree.simps)

lemmas fuel_numeral = dfs_visit_numeral dominator_fixpoint_numeral frontier_runner_numeral
  dfs_dom_tree_numeral

lemma upt_numeral: "[0..<numeral k] = [0..<pred_numeral k] @ [pred_numeral k]"
  by (simp add: numeral_eq_Suc)

lemma upt_one: "[0..<1] = [0]"
  by simp

lemma replicate_numeral: "replicate (numeral k) x = x # replicate (pred_numeral k) x"
  by (simp add: numeral_eq_Suc)

lemma replicate_one: "replicate 1 x = [x]"
  by simp

lemmas list_numeral = upt_numeral upt_one replicate_numeral replicate_one

lemma cfg_path_last_edge:
  "cfg_path s p \<Longrightarrow> last p = b \<Longrightarrow> hd p \<noteq> b \<Longrightarrow> \<exists>y\<in>set p. b \<in> set (successors (bbs s y))"
proof (induction s p rule: cfg_path.induct)
  case (1 s) then show ?case by simp
next
  case (2 s x) then show ?case by simp
next
  case (3 s x y rest)
  show ?case
  proof (cases "y = b")
    case True with 3 show ?thesis by auto
  next
    case False
    with 3 have "\<exists>z\<in>set (y # rest). b \<in> set (successors (bbs s z))" by simp
    then show ?thesis by auto
  qed
qed

lemma chain_example_paths: "dominates_on_paths chain_example 0 1 2"
  unfolding dominates_on_paths_def
proof (intro allI impI)
  fix p assume a: "cfg_path chain_example p \<and> hd p = 0 \<and> last p = 2"
  then have "\<exists>y\<in>set p. 2 \<in> set (successors (bbs chain_example y))"
    by (intro cfg_path_last_edge) simp_all
  then obtain y where y: "y \<in> set p" "2 \<in> set (successors (bbs chain_example y))" by blast
  from y(2) have "y = 1" by (simp add: chain_example_def zeroed_defs split: if_splits)
  with y(1) show "1 \<in> set p" by simp
qed

text \<open>
  C5.  The claim reads: after \<open>compute_dominators(f)\<close>, for every pair of blocks \<open>a\<close> and \<open>b\<close>
  of \<open>f\<close>, the test \<open>a.dom_tin <= b.dom_tin\<close> and \<open>a.dom_tout >= b.dom_tout\<close> holds exactly when
  \<open>a\<close> dominates \<open>b\<close>, where \<open>a\<close> dominates \<open>b\<close> means that every path from the entry block to
  \<open>b\<close> passes through \<open>a\<close>.

  \<open>compute_immediate_dominators\<close> takes for the immediate dominator of \<open>b\<close> the strict
  dominator of \<open>b\<close> with the greatest \<open>post_order_id\<close>.  In a post-order the entry block has
  the greatest number of all, so every block gets the entry block as its immediate
  dominator, and the dominator tree is the entry block with all other blocks as its
  children.  In the chain \<open>entry -> A -> B\<close> every path from the entry to \<open>B\<close> passes through
  \<open>A\<close>, while the analysis gives \<open>A\<close> the time stamps 1 and 2 and \<open>B\<close> the time stamps 3 and 4:
  the test, and \<open>dominates(A, B)\<close>, say that \<open>A\<close> does not dominate \<open>B\<close>.
\<close>

theorem compute_dominators_star_tree:
  "dominates_on_paths chain_example 0 1 2 \<and>
   (case compute_dominators 9 (Some 0) chain_example of
      Inl e \<Rightarrow> False
    | Inr s' \<Rightarrow>
        successors (bbs s' 0) = [1] \<and> successors (bbs s' 1) = [2] \<and> successors (bbs s' 2) = [] \<and>
        idom (bbs s' 2) = Some 0 \<and>
        \<not> (dom_tin (bbs s' 1) \<le> dom_tin (bbs s' 2) \<and> dom_tout (bbs s' 1) \<ge> dom_tout (bbs s' 2)) \<and>
        \<not> dominates s' (Some 1) (Some 2))"
  by (rule conjI [OF chain_example_paths])
    (simp add: chain_example_def zeroed_defs dom_defs dominates_def signed_divide_int_def
      signed_modulo_int_def fuel_numeral list_numeral Let_def)

theorem compute_dominators_star_tree_witness:
  "cfg_path chain_example [0, 1, 2] \<and> hd [0, 1, 2] = (0::nat) \<and> last [0, 1, 2] = (2::nat) \<and>
   (1::nat) \<in> set [0, 1, 2] \<and>
   (case compute_dominators 9 (Some 0) chain_example of
      Inl e \<Rightarrow> False
    | Inr s' \<Rightarrow> \<not> dominates s' (Some 1) (Some 2))"
proof -
  note t = compute_dominators_star_tree
  have p: "cfg_path chain_example [0, 1, 2] \<and> hd [0, 1, 2] = (0::nat) \<and> last [0, 1, 2] = (2::nat)"
    by (simp add: chain_example_def zeroed_defs)
  from t [THEN conjunct1, unfolded dominates_on_paths_def, rule_format, OF p]
  have "(1::nat) \<in> set [0, 1, 2]" .
  moreover from t [THEN conjunct2]
  have "case compute_dominators 9 (Some 0) chain_example of
      Inl e \<Rightarrow> False
    | Inr s' \<Rightarrow> \<not> dominates s' (Some 1) (Some 2)"
    by (auto split: sum.splits)
  ultimately show ?thesis using p by blast
qed

section \<open>Promotion of memory to registers\<close>

lemma bitset_one_block:
  "bitset_create 1 = \<lparr>num_words = 1, words = [0]\<rparr>"
  "bitset_add \<lparr>num_words = 1, words = [0]\<rparr> 0 = \<lparr>num_words = 1, words = [1]\<rparr>"
  "bitset_contains \<lparr>num_words = 1, words = [1]\<rparr> 0"
  "\<not> bitset_contains \<lparr>num_words = 1, words = [0]\<rparr> 0"
  by (simp_all add: bitset_create_def bitset_add_def bitset_contains_def signed_divide_int_def
      signed_modulo_int_def)

lemmas m2r_defs = run_mem2reg_def analyze_allocas_def is_alloca_promotable_def
  compute_phi_placement_def block_of_id_def insert_phi_nodes_def rename_variables_def
  rename_load_def rename_store_def top_version_def pop_version_def push_version_def
  cleanup_removed_instructions_def ir_builder_init_def create_ir_value_def
  mark_instruction_for_removal_def erase_instruction_def leading_phis_def worklist_add_def
  worklist_pop_def replace_all_uses_with_def

text \<open>\<open>cleanup_removed_instructions\<close> changes nothing, whatever the block: it hands to
  \<open>erase_instruction\<close> the instructions whose opcode is \<open>IR_OP_UNKNOWN\<close>, for which
  \<open>erase_instruction\<close> returns at once.\<close>

lemma cleanup_removed_instructions_keeps_all:
  "cleanup_removed_instructions n block s = Inr s"
proof (cases block)
  case None then show ?thesis by (simp add: cleanup_removed_instructions_def)
next
  case (Some b)
  have "fold (\<lambda>i r. case r of
                      Inl e \<Rightarrow> Inl e
                    | Inr s1 \<Rightarrow>
                        if opcode (insts s1 i) = IR_OP_UNKNOWN
                        then erase_instruction n (Some i) s1 else Inr s1) xs (Inr s) = Inr s" for xs
    by (induction xs) (simp_all add: erase_instruction_def)
  with Some show ?thesis by (simp add: cleanup_removed_instructions_def)
qed

text \<open>
  C4.  The claim reads: after \<open>run_mem2reg(f)\<close>, no promotable alloca remains in \<open>f\<close> (a
  promotable alloca being an alloca of the entry block, of a type that is not an array,
  whose every use is a load, or a store in which the alloca is the address operand), and
  no load from or store to the address of a promoted alloca remains in \<open>f\<close>.

  The renaming marks a load or store of a promoted alloca with
  \<open>mark_instruction_for_removal\<close>, which sets the opcode to \<open>IR_OP_UNKNOWN\<close>, and leaves the
  removal to \<open>cleanup_removed_instructions\<close>, which calls \<open>erase_instruction\<close> on the marked
  instructions; \<open>erase_instruction\<close> returns at once for an instruction whose opcode is
  \<open>IR_OP_UNKNOWN\<close>.  So the marked instructions stay in their block and their operands
  stay in the use list of the address, and the \<open>erase_instruction\<close> of the alloca that ends
  \<open>run_mem2reg\<close> finds a result that is still in use.  On
  \<open>%p = alloca i32; store 42, %p; %x = load %p; ret %x\<close> the analysis finds the alloca
  promotable, the renaming makes \<open>ret\<close> use the constant 42, the block still lists the four
  instructions, the store and the load poisoned and still referring to \<open>%p\<close>, and the pass
  stops at the assertion of \<open>erase_instruction\<close>.
\<close>

theorem run_mem2reg_store_load:
  "\<exists>ctx1 ctx2 ctx3 ctx4 s1 s2.
     analyze_allocas 9 \<lparr>m2r_func = 0, promotables = [],
        builder = ir_builder_init 0 store_load_example, undef_val = None\<rparr> store_load_example
       = Inr ctx1 \<and>
     map alloca_instr (promotables ctx1) = [0] \<and>
     compute_phi_placement 9 ctx1 store_load_example = Inr ctx2 \<and>
     insert_phi_nodes ctx2 store_load_example = Inr (ctx3, s1) \<and>
     rename_variables 9 ctx3 s1 = Inr (ctx4, s2) \<and>
     instrs (bbs s2 0) = [0, 1, 2, 3] \<and>
     opcode (insts s2 0) = IR_OP_ALLOCA \<and>
     opcode (insts s2 1) = IR_OP_UNKNOWN \<and> opcode (insts s2 2) = IR_OP_UNKNOWN \<and>
     operand_list (insts s2 1) = [0, 1] \<and> operand_list (insts s2 2) = [2] \<and>
     data (opnds s2 1) = Some 1 \<and> data (opnds s2 2) = Some 1 \<and>
     data (opnds s2 3) = Some 2 \<and> use_list s2 1 [2, 1] \<and>
     cleanup_removed_instructions 9 (Some 0) s2 = Inr s2 \<and>
     erase_allocas 9 (promotables ctx4) s2 = Inl AssertionFailed \<and>
     run_mem2reg 9 (Some 0) store_load_example = Inl AssertionFailed"
  by (simp add: store_load_example_def zeroed_defs m2r_defs ud_defs use_list_def bitset_one_block
      eval_nat_numeral Let_def)

section \<open>The entry points of the passes\<close>

text \<open>
  C10.  Every entry point of a transformation pass, called on a NULL function or on a
  function that has no entry block (an external declaration), returns false and leaves
  the IR as it is; for \<open>run_sccp\<close>, \<open>run_adce\<close>, \<open>run_inst_combine\<close> and \<open>run_mem2reg\<close>.
\<close>

theorem passes_without_entry_block:
  assumes "fn = None \<or> (\<exists>f. fn = Some f \<and> entry (funcs s f) = None)"
  shows "run_sccp n F fn s = Inr (False, s) \<and> run_adce n V fn s = Inr (False, s) \<and>
         run_inst_combine n F fn s = Inr (False, s) \<and> run_mem2reg n fn s = Inr (False, s)"
  using assms
  by (auto simp: run_sccp_def run_adce_def run_inst_combine_def run_mem2reg_def)

theorem passes_without_entry_block_witness:
  "\<forall>F V. entry (funcs zeroed_ir 0) = None \<and>
         run_sccp 9 F (Some 0) zeroed_ir = Inr (False, zeroed_ir) \<and>
         run_adce 9 V (Some 0) zeroed_ir = Inr (False, zeroed_ir) \<and>
         run_inst_combine 9 F (Some 0) zeroed_ir = Inr (False, zeroed_ir) \<and>
         run_mem2reg 9 (Some 0) zeroed_ir = Inr (False, zeroed_ir) \<and>
         run_sccp 9 F None store_load_example = Inr (False, store_load_example) \<and>
         run_adce 9 V None store_load_example = Inr (False, store_load_example) \<and>
         run_inst_combine 9 F None store_load_example = Inr (False, store_load_example) \<and>
         run_mem2reg 9 None store_load_example = Inr (False, store_load_example)"
proof (intro allI)
  fix F :: float_ops and V :: block_as_value
  have e: "entry (funcs zeroed_ir 0) = None" by (simp add: zeroed_defs)
  then have h: "Some 0 = None \<or> (\<exists>f. Some 0 = Some f \<and> entry (funcs zeroed_ir f) = None)" by simp
  have h': "None = None \<or> (\<exists>f. None = Some f \<and> entry (funcs store_load_example f) = None)" by simp
  from passes_without_entry_block [OF h, of 9 F V]
    passes_without_entry_block [OF h', of 9 F V] e
  show "entry (funcs zeroed_ir 0) = None \<and>
         run_sccp 9 F (Some 0) zeroed_ir = Inr (False, zeroed_ir) \<and>
         run_adce 9 V (Some 0) zeroed_ir = Inr (False, zeroed_ir) \<and>
         run_inst_combine 9 F (Some 0) zeroed_ir = Inr (False, zeroed_ir) \<and>
         run_mem2reg 9 (Some 0) zeroed_ir = Inr (False, zeroed_ir) \<and>
         run_sccp 9 F None store_load_example = Inr (False, store_load_example) \<and>
         run_adce 9 V None store_load_example = Inr (False, store_load_example) \<and>
         run_inst_combine 9 F None store_load_example = Inr (False, store_load_example) \<and>
         run_mem2reg 9 None store_load_example = Inr (False, store_load_example)"
    by blast
qed

end
